theory Spec2Isabelle
  imports Main
begin

section \<open>The inference engine of studybuddy-ai (package ai)\<close>

text \<open>
  A shallow embedding of the Go package \<^verbatim>\<open>ai\<close>: the engine that asks a local
  Ollama backend for practice problems and feedback, reads the streamed answer, parses
  the \<^verbatim>\<open>KEY: value\<close> reply, validates it, and serves a fixed offline bank when the
  backend fails.

  Go strings are byte sequences, and \<^verbatim>\<open>strings.Contains\<close>, \<^verbatim>\<open>strings.Index\<close> and
  slicing work on bytes. A string is therefore a \<^typ>\<open>string\<close> (a list of 8-bit
  characters) holding the UTF-8 bytes of the Go literal; a Japanese literal of the
  source appears byte by byte (\<open>CHR 0xE8, CHR 0xA7, CHR 0x92\<close> is U+89D2, "angle").
\<close>

subsection \<open>Byte strings: the functions of package strings and strconv that the engine calls\<close>

text \<open>\<^verbatim>\<open>strings.HasPrefix(s, p)\<close>.\<close>

fun HasPrefix :: "string \<Rightarrow> string \<Rightarrow> bool" where
  "HasPrefix s [] = True"
| "HasPrefix [] (c # p) = False"
| "HasPrefix (a # s) (c # p) = (a = c \<and> HasPrefix s p)"

text \<open>\<^verbatim>\<open>strings.Contains(s, sub)\<close>: \<open>sub\<close> occurs in \<open>s\<close> at some byte offset.\<close>

fun Contains :: "string \<Rightarrow> string \<Rightarrow> bool" where
  "Contains [] sub = (sub = [])"
| "Contains (c # cs) sub = (HasPrefix (c # cs) sub \<or> Contains cs sub)"

text \<open>
  \<^verbatim>\<open>strings.Index(s, sub)\<close>: the byte offset of the first occurrence, \<open>-1\<close> when there
  is none.
\<close>

fun Index :: "string \<Rightarrow> string \<Rightarrow> int" where
  "Index [] sub = (if sub = [] then 0 else -1)"
| "Index (c # cs) sub =
     (if HasPrefix (c # cs) sub then 0
      else (let i = Index cs sub in if i = -1 then -1 else i + 1))"

text \<open>
  \<^verbatim>\<open>strings.ReplaceAll(s, old, "")\<close> for a non-empty \<open>old\<close>: the non-overlapping
  occurrences of \<open>old\<close> are dropped from left to right.
\<close>

fun RemoveAll :: "string \<Rightarrow> string \<Rightarrow> string" where
  "RemoveAll [] old = []"
| "RemoveAll (c # cs) old =
     (if old \<noteq> [] \<and> HasPrefix (c # cs) old
      then RemoveAll (drop (length old - 1) cs) old
      else c # RemoveAll cs old)"

text \<open>
  \<^verbatim>\<open>strings.Split(s, "\n")\<close>: the pieces between line feeds; always at least one
  piece. (The second case of the inner \<open>case\<close> is never taken: the result is never
  empty.)
\<close>

fun SplitLines :: "string \<Rightarrow> string list" where
  "SplitLines [] = [[]]"
| "SplitLines (c # cs) =
     (if c = CHR 0x0A then [] # SplitLines cs
      else (case SplitLines cs of l # ls \<Rightarrow> (c # l) # ls | [] \<Rightarrow> [[c]]))"

text \<open>
  \<^verbatim>\<open>strings.TrimSpace\<close> removes the leading and the trailing white space as
  \<^verbatim>\<open>unicode.IsSpace\<close> defines it: tab, line feed, vertical tab, form feed, carriage
  return, space, U+0085, U+00A0, U+1680, U+2000 to U+200A, U+2028, U+2029, U+202F,
  U+205F and U+3000. On the bytes of a string, a leading (trailing) white-space rune is
  a prefix (suffix) that is the UTF-8 encoding of one of them; \<open>space_runes\<close> lists
  the encodings.
\<close>

definition space_runes :: "string list" where
  "space_runes =
    [[CHR 0x09], [CHR 0x0A], [CHR 0x0B], [CHR 0x0C], [CHR 0x0D], [CHR 0x20],
     [CHR 0xC2, CHR 0x85], [CHR 0xC2, CHR 0xA0],
     [CHR 0xE1, CHR 0x9A, CHR 0x80],
     [CHR 0xE2, CHR 0x80, CHR 0x80], [CHR 0xE2, CHR 0x80, CHR 0x81],
     [CHR 0xE2, CHR 0x80, CHR 0x82], [CHR 0xE2, CHR 0x80, CHR 0x83],
     [CHR 0xE2, CHR 0x80, CHR 0x84], [CHR 0xE2, CHR 0x80, CHR 0x85],
     [CHR 0xE2, CHR 0x80, CHR 0x86], [CHR 0xE2, CHR 0x80, CHR 0x87],
     [CHR 0xE2, CHR 0x80, CHR 0x88], [CHR 0xE2, CHR 0x80, CHR 0x89],
     [CHR 0xE2, CHR 0x80, CHR 0x8A],
     [CHR 0xE2, CHR 0x80, CHR 0xA8], [CHR 0xE2, CHR 0x80, CHR 0xA9],
     [CHR 0xE2, CHR 0x80, CHR 0xAF],
     [CHR 0xE2, CHR 0x81, CHR 0x9F],
     [CHR 0xE3, CHR 0x80, CHR 0x80]]"

text \<open>The width in bytes of the rune of \<open>ws\<close> that \<open>s\<close> starts with, \<open>0\<close> when it starts with none.\<close>

definition leadWidth :: "string list \<Rightarrow> string \<Rightarrow> nat" where
  "leadWidth ws s = (case find (HasPrefix s) ws of None \<Rightarrow> 0 | Some w \<Rightarrow> length w)"

function trimLeading :: "string list \<Rightarrow> string \<Rightarrow> string" where
  "trimLeading ws s =
     (if leadWidth ws s = 0 \<or> s = [] then s else trimLeading ws (drop (leadWidth ws s) s))"
  by pat_completeness auto
termination
  by (relation "measure (\<lambda>(ws, s). length s)") auto

declare trimLeading.simps [simp del]

definition TrimLeft :: "string \<Rightarrow> string" where
  "TrimLeft s = trimLeading space_runes s"

definition TrimRight :: "string \<Rightarrow> string" where
  "TrimRight s = rev (trimLeading (map rev space_runes) (rev s))"

definition TrimSpace :: "string \<Rightarrow> string" where
  "TrimSpace s = TrimRight (TrimLeft s)"

text \<open>
  \<^verbatim>\<open>strconv.Atoi\<close>: an optional sign and one or more decimal digits; an error
  (\<open>None\<close>) for anything else and for a value outside the 64-bit range of \<^verbatim>\<open>int\<close>.
\<close>

definition digitVal :: "char \<Rightarrow> nat option" where
  "digitVal c =
     (let n = (of_char c :: nat) in if 48 \<le> n \<and> n \<le> 57 then Some (n - 48) else None)"

fun parseDigits :: "string \<Rightarrow> nat \<Rightarrow> nat option" where
  "parseDigits [] acc = Some acc"
| "parseDigits (c # cs) acc =
     (case digitVal c of None \<Rightarrow> None | Some d \<Rightarrow> parseDigits cs (10 * acc + d))"

definition Atoi :: "string \<Rightarrow> int option" where
  "Atoi s =
     (let neg = (s \<noteq> [] \<and> hd s = CHR ''-'');
          ds = (if s \<noteq> [] \<and> (hd s = CHR ''-'' \<or> hd s = CHR ''+'') then tl s else s)
      in if ds = [] then None
         else (case parseDigits ds 0 of
                 None \<Rightarrow> None
               | Some n \<Rightarrow>
                   (let v = (if neg then - int n else int n)
                    in if - (2 ^ 63) \<le> v \<and> v < 2 ^ 63 then Some v else None)))"

text \<open>The verb \<^verbatim>\<open>%d\<close> of \<^verbatim>\<open>fmt.Sprintf\<close>: the decimal digits, with a minus sign below zero.\<close>

definition digitChar :: "nat \<Rightarrow> char" where
  "digitChar d = char_of (48 + d)"

fun decimal :: "nat \<Rightarrow> string" where
  "decimal n = (if n < 10 then [digitChar n] else decimal (n div 10) @ [digitChar (n mod 10)])"

declare decimal.simps [simp del]

definition itoa :: "int \<Rightarrow> string" where
  "itoa i = (if i < 0 then CHR ''-'' # decimal (nat (- i)) else decimal (nat i))"

text \<open>A Go \<^verbatim>\<open>int\<close> is 64 bits wide; \<open>wrap64\<close> is the value an arithmetic result wraps to.\<close>

definition wrap64 :: "int \<Rightarrow> int" where
  "wrap64 i = (i + 2 ^ 63) mod 2 ^ 64 - 2 ^ 63"

subsection \<open>The data model\<close>

text \<open>The struct \<^verbatim>\<open>Problem\<close>. The time is in seconds.\<close>

record Problem =
  Title :: string
  Description :: string
  Options :: "string list"
  CorrectAnswer :: int
  Explanation :: string
  Difficulty :: int
  EstimatedTime :: int
  Encouragement :: string
  ProblemType :: string

text \<open>
  The struct \<^verbatim>\<open>StudyContext\<close>, with the fields the engine reads: the subject, the
  grade and the target difficulty. (The user id, emotion, progress, strengths,
  weaknesses, error patterns and session history are carried by the struct and read by
  no function of the package.)
\<close>

record StudyContext =
  Subject :: string
  Grade :: int
  TargetDifficulty :: int

text \<open>
  The struct \<^verbatim>\<open>FeedbackRequest\<close>, with the fields the engine reads, and the struct
  \<^verbatim>\<open>FeedbackResponse\<close>.
\<close>

record FeedbackRequest =
  AnsweredProblem :: Problem
  UserAnswer :: string
  IsCorrect :: bool

record FeedbackResponse =
  Message :: string
  FeedbackExplanation :: string
  FeedbackEncouragement :: string
  NextSteps :: string
  TipOfDay :: string

text \<open>The struct \<^verbatim>\<open>OllamaResponse\<close>: one fragment of the streamed answer.\<close>

record OllamaResponse =
  Response :: string
  Done :: bool
  Error :: string

text \<open>
  The struct \<^verbatim>\<open>Engine\<close>: the health state and the rotation counters of the offline
  bank. \<open>lastCheck\<close> is an instant (\<open>0\<close> is the zero \<^verbatim>\<open>time.Time\<close>). The counters are
  written only by \<^verbatim>\<open>getMathProblem\<close> and \<^verbatim>\<open>getEnglishProblem\<close>, which store
  \<open>index + 1\<close> for an \<open>index\<close> that is a position of a list, into a map that starts
  empty: they are natural numbers, and a key that is absent reads as \<open>0\<close>. The failure
  count is a 64-bit \<^verbatim>\<open>int\<close>, kept as the integer it holds: \<^verbatim>\<open>failureCount++\<close> wraps
  from \<open>2 ^ 63 - 1\<close> to \<open>- (2 ^ 63)\<close> (\<open>wrap64\<close>). The
  configuration and the HTTP client of the struct only shape the request that goes to
  the backend; the backend's answer is a parameter of the model below. The mutex is
  left out: the model runs one call at a time.
\<close>

record Engine =
  isOnline :: bool
  lastCheck :: nat
  failureCount :: int
  problemIndex :: "string \<rightharpoonup> nat"

text \<open>
  Errors. Every \<^verbatim>\<open>fmt.Errorf\<close> of the modelled functions is a constructor; an
  argument is the text or the wrapped error that the format string takes.
  \<open>errorString\<close> is the message (\<^verbatim>\<open>err.Error()\<close>).
\<close>

datatype error =
    RequestCreateError string
  | HTTPRequestCreateError string
  | HTTPRequestError string
  | OllamaAPIError int string
  | OllamaProcessingError string
  | StreamReadError string
  | ResponseParseError string
  | ProblemValidationError error
  | TitleEmpty
  | DescriptionEmpty
  | InsufficientOptions
  | IndexOutOfRange
  | DifficultyOutOfRange
  | ForbiddenReference string
  | GeometricInconsistency error
  | IsoscelesAnswerMismatch string

fun errorString :: "error \<Rightarrow> string" where
  "errorString (RequestCreateError m) =
     ([CHR 0xE3, CHR 0x83, CHR 0xAA, CHR 0xE3, CHR 0x82, CHR 0xAF, CHR 0xE3, CHR 0x82, CHR 0xA8,
        CHR 0xE3, CHR 0x82, CHR 0xB9, CHR 0xE3, CHR 0x83, CHR 0x88, CHR 0xE4, CHR 0xBD, CHR 0x9C,
        CHR 0xE6, CHR 0x88, CHR 0x90, CHR 0xE3, CHR 0x82, CHR 0xA8, CHR 0xE3, CHR 0x83, CHR 0xA9,
        CHR 0xE3, CHR 0x83, CHR 0xBC] @ '': '') @ m"
| "errorString (HTTPRequestCreateError m) =
     (''HTTP'' @ [CHR 0xE3, CHR 0x83, CHR 0xAA, CHR 0xE3, CHR 0x82, CHR 0xAF, CHR 0xE3, CHR 0x82,
        CHR 0xA8, CHR 0xE3, CHR 0x82, CHR 0xB9, CHR 0xE3, CHR 0x83, CHR 0x88, CHR 0xE4, CHR 0xBD,
        CHR 0x9C, CHR 0xE6, CHR 0x88, CHR 0x90, CHR 0xE3, CHR 0x82, CHR 0xA8, CHR 0xE3, CHR 0x83,
        CHR 0xA9, CHR 0xE3, CHR 0x83, CHR 0xBC] @ '': '') @ m"
| "errorString (HTTPRequestError m) =
     (''HTTP'' @ [CHR 0xE3, CHR 0x83, CHR 0xAA, CHR 0xE3, CHR 0x82, CHR 0xAF, CHR 0xE3, CHR 0x82,
        CHR 0xA8, CHR 0xE3, CHR 0x82, CHR 0xB9, CHR 0xE3, CHR 0x83, CHR 0x88, CHR 0xE3, CHR 0x82,
        CHR 0xA8, CHR 0xE3, CHR 0x83, CHR 0xA9, CHR 0xE3, CHR 0x83, CHR 0xBC] @ '': '') @ m"
| "errorString (OllamaAPIError code body) =
     (''ollama API'' @ [CHR 0xE3, CHR 0x82, CHR 0xA8, CHR 0xE3, CHR 0x83, CHR 0xA9, CHR 0xE3,
        CHR 0x83, CHR 0xBC] @ '': '') @ itoa code @ '' - '' @ body"
| "errorString (OllamaProcessingError m) =
     (''ollama'' @ [CHR 0xE5, CHR 0x87, CHR 0xA6, CHR 0xE7, CHR 0x90, CHR 0x86, CHR 0xE3,
        CHR 0x82, CHR 0xA8, CHR 0xE3, CHR 0x83, CHR 0xA9, CHR 0xE3, CHR 0x83, CHR 0xBC] @ '': '') @ m"
| "errorString (StreamReadError m) =
     ([CHR 0xE3, CHR 0x82, CHR 0xB9, CHR 0xE3, CHR 0x83, CHR 0x88, CHR 0xE3, CHR 0x83, CHR 0xAA,
        CHR 0xE3, CHR 0x83, CHR 0xBC, CHR 0xE3, CHR 0x83, CHR 0x9F, CHR 0xE3, CHR 0x83, CHR 0xB3,
        CHR 0xE3, CHR 0x82, CHR 0xB0, CHR 0xE8, CHR 0xAA, CHR 0xAD, CHR 0xE3, CHR 0x81, CHR 0xBF,
        CHR 0xE5, CHR 0x8F, CHR 0x96, CHR 0xE3, CHR 0x82, CHR 0x8A, CHR 0xE3, CHR 0x82, CHR 0xA8,
        CHR 0xE3, CHR 0x83, CHR 0xA9, CHR 0xE3, CHR 0x83, CHR 0xBC] @ '': '') @ m"
| "errorString (ResponseParseError response) =
     ([CHR 0xE3, CHR 0x83, CHR 0xAC, CHR 0xE3, CHR 0x82, CHR 0xB9, CHR 0xE3, CHR 0x83, CHR 0x9D,
        CHR 0xE3, CHR 0x83, CHR 0xB3, CHR 0xE3, CHR 0x82, CHR 0xB9, CHR 0xE8, CHR 0xA7, CHR 0xA3,
        CHR 0xE6, CHR 0x9E, CHR 0x90, CHR 0xE3, CHR 0x82, CHR 0xA8, CHR 0xE3, CHR 0x83, CHR 0xA9,
        CHR 0xE3, CHR 0x83, CHR 0xBC] @ '': '') @ response"
| "errorString (ProblemValidationError e) =
     ([CHR 0xE5, CHR 0x95, CHR 0x8F, CHR 0xE9, CHR 0xA1, CHR 0x8C, CHR 0xE6, CHR 0xA4, CHR 0x9C,
        CHR 0xE8, CHR 0xA8, CHR 0xBC, CHR 0xE3, CHR 0x82, CHR 0xA8, CHR 0xE3, CHR 0x83, CHR 0xA9,
        CHR 0xE3, CHR 0x83, CHR 0xBC] @ '': '') @ errorString e"
| "errorString TitleEmpty =
     [CHR 0xE3, CHR 0x82, CHR 0xBF, CHR 0xE3, CHR 0x82, CHR 0xA4, CHR 0xE3, CHR 0x83, CHR 0x88,
        CHR 0xE3, CHR 0x83, CHR 0xAB, CHR 0xE3, CHR 0x81, CHR 0x8C, CHR 0xE7, CHR 0xA9, CHR 0xBA,
        CHR 0xE3, CHR 0x81, CHR 0xA7, CHR 0xE3, CHR 0x81, CHR 0x99]"
| "errorString DescriptionEmpty =
     [CHR 0xE5, CHR 0x95, CHR 0x8F, CHR 0xE9, CHR 0xA1, CHR 0x8C, CHR 0xE6, CHR 0x96, CHR 0x87,
        CHR 0xE3, CHR 0x81, CHR 0x8C, CHR 0xE7, CHR 0xA9, CHR 0xBA, CHR 0xE3, CHR 0x81, CHR 0xA7,
        CHR 0xE3, CHR 0x81, CHR 0x99]"
| "errorString InsufficientOptions =
     [CHR 0xE9, CHR 0x81, CHR 0xB8, CHR 0xE6, CHR 0x8A, CHR 0x9E, CHR 0xE8, CHR 0x82, CHR 0xA2,
        CHR 0xE3, CHR 0x81, CHR 0x8C, CHR 0xE4, CHR 0xB8, CHR 0x8D, CHR 0xE8, CHR 0xB6, CHR 0xB3,
        CHR 0xE3, CHR 0x81, CHR 0x97, CHR 0xE3, CHR 0x81, CHR 0xA6, CHR 0xE3, CHR 0x81, CHR 0x84,
        CHR 0xE3, CHR 0x81, CHR 0xBE, CHR 0xE3, CHR 0x81, CHR 0x99, CHR 0xEF, CHR 0xBC, CHR 0x88,
        CHR 0xE6, CHR 0x9C, CHR 0x80, CHR 0xE4, CHR 0xBD, CHR 0x8E] @ ''2'' @ [CHR 0xE3, CHR 0x81,
        CHR 0xA4, CHR 0xE5, CHR 0xBF, CHR 0x85, CHR 0xE8, CHR 0xA6, CHR 0x81, CHR 0xEF, CHR 0xBC,
        CHR 0x89]"
| "errorString IndexOutOfRange =
     [CHR 0xE6, CHR 0xAD, CHR 0xA3, CHR 0xE8, CHR 0xA7, CHR 0xA3, CHR 0xE3, CHR 0x82, CHR 0xA4,
        CHR 0xE3, CHR 0x83, CHR 0xB3, CHR 0xE3, CHR 0x83, CHR 0x87, CHR 0xE3, CHR 0x83, CHR 0x83,
        CHR 0xE3, CHR 0x82, CHR 0xAF, CHR 0xE3, CHR 0x82, CHR 0xB9, CHR 0xE3, CHR 0x81, CHR 0x8C,
        CHR 0xE7, CHR 0x84, CHR 0xA1, CHR 0xE5, CHR 0x8A, CHR 0xB9, CHR 0xE3, CHR 0x81, CHR 0xA7,
        CHR 0xE3, CHR 0x81, CHR 0x99]"
| "errorString DifficultyOutOfRange =
     [CHR 0xE9, CHR 0x9B, CHR 0xA3, CHR 0xE6, CHR 0x98, CHR 0x93, CHR 0xE5, CHR 0xBA, CHR 0xA6,
        CHR 0xE3, CHR 0x81, CHR 0x8C, CHR 0xE7, CHR 0xAF, CHR 0x84, CHR 0xE5, CHR 0x9B, CHR 0xB2,
        CHR 0xE5, CHR 0xA4, CHR 0x96, CHR 0xE3, CHR 0x81, CHR 0xA7, CHR 0xE3, CHR 0x81, CHR 0x99,
        CHR 0xEF, CHR 0xBC, CHR 0x88] @ ''1-5'' @ [CHR 0xEF, CHR 0xBC, CHR 0x89]"
| "errorString (ForbiddenReference phrase) =
     ([CHR 0xE6, CHR 0x95, CHR 0xB0, CHR 0xE5, CHR 0xAD, CHR 0xA6, CHR 0xE5, CHR 0x95, CHR 0x8F,
        CHR 0xE9, CHR 0xA1, CHR 0x8C, CHR 0xE3, CHR 0x81, CHR 0xA7, CHR 0xE6, CHR 0x9E, CHR 0xB6,
        CHR 0xE7, CHR 0xA9, CHR 0xBA, CHR 0xE8, CHR 0xB3, CHR 0x87, CHR 0xE6, CHR 0x96, CHR 0x99,
        CHR 0xE3, CHR 0x81, CHR 0xB8, CHR 0xE3, CHR 0x81, CHR 0xAE, CHR 0xE5, CHR 0x8F, CHR 0x82,
        CHR 0xE7, CHR 0x85, CHR 0xA7, CHR 0xE3, CHR 0x81, CHR 0x8C, CHR 0xE6, CHR 0xA4, CHR 0x9C,
        CHR 0xE5, CHR 0x87, CHR 0xBA, CHR 0xE3, CHR 0x81, CHR 0x95, CHR 0xE3, CHR 0x82, CHR 0x8C,
        CHR 0xE3, CHR 0x81, CHR 0xBE, CHR 0xE3, CHR 0x81, CHR 0x97, CHR 0xE3, CHR 0x81, CHR 0x9F] @
        '': '') @ phrase"
| "errorString (GeometricInconsistency e) =
     ([CHR 0xE4, CHR 0xBA, CHR 0x8C, CHR 0xE7, CHR 0xAD, CHR 0x89, CHR 0xE8, CHR 0xBE, CHR 0xBA,
        CHR 0xE4, CHR 0xB8, CHR 0x89, CHR 0xE8, CHR 0xA7, CHR 0x92, CHR 0xE5, CHR 0xBD, CHR 0xA2,
        CHR 0xE5, CHR 0x95, CHR 0x8F, CHR 0xE9, CHR 0xA1, CHR 0x8C, CHR 0xE3, CHR 0x81, CHR 0xAE,
        CHR 0xE6, CHR 0x95, CHR 0xB0, CHR 0xE5, CHR 0xAD, CHR 0xA6, CHR 0xE7, CHR 0x9A, CHR 0x84,
        CHR 0xE3, CHR 0x82, CHR 0xA8, CHR 0xE3, CHR 0x83, CHR 0xA9, CHR 0xE3, CHR 0x83, CHR 0xBC] @
        '': '') @ errorString e"
| "errorString (IsoscelesAnswerMismatch answer) =
     ([CHR 0xE4, CHR 0xBA, CHR 0x8C, CHR 0xE7, CHR 0xAD, CHR 0x89, CHR 0xE8, CHR 0xBE, CHR 0xBA,
        CHR 0xE4, CHR 0xB8, CHR 0x89, CHR 0xE8, CHR 0xA7, CHR 0x92, CHR 0xE5, CHR 0xBD, CHR 0xA2,
        CHR 0xE3, CHR 0x81, CHR 0xA7, CHR 0xE8, CHR 0xA7, CHR 0x92] @ ''A='' @ [CHR 0xE8, CHR 0xA7,
        CHR 0x92] @ ''C=45'' @ [CHR 0xE5, CHR 0xBA, CHR 0xA6, CHR 0xE3, CHR 0x81, CHR 0xAE,
        CHR 0xE5, CHR 0xA0, CHR 0xB4, CHR 0xE5, CHR 0x90, CHR 0x88, CHR 0xE3, CHR 0x80, CHR 0x81,
        CHR 0xE8, CHR 0xA7, CHR 0x92] @ ''B=90'' @ [CHR 0xE5, CHR 0xBA, CHR 0xA6, CHR 0xE3,
        CHR 0x81, CHR 0x8C, CHR 0xE6, CHR 0xAD, CHR 0xA3, CHR 0xE8, CHR 0xA7, CHR 0xA3, CHR 0xE3,
        CHR 0x81, CHR 0xA7, CHR 0xE3, CHR 0x81, CHR 0x99, CHR 0xE3, CHR 0x81, CHR 0x8C, CHR 0xE3,
        CHR 0x80, CHR 0x81, CHR 0xE8, CHR 0xA8, CHR 0xAD, CHR 0xE5, CHR 0xAE, CHR 0x9A, CHR 0xE3,
        CHR 0x81, CHR 0x95, CHR 0xE3, CHR 0x82, CHR 0x8C, CHR 0xE3, CHR 0x81, CHR 0x9F, CHR 0xE6,
        CHR 0xAD, CHR 0xA3, CHR 0xE8, CHR 0xA7, CHR 0xA3, CHR 0xE3, CHR 0x81, CHR 0xAF] @ '' '') @ answer @
     ('' '' @ [CHR 0xE3, CHR 0x81, CHR 0xA7, CHR 0xE3, CHR 0x81, CHR 0x99])"

text \<open>
  The result of a call: a value with a nil error, an error, or a run-time panic (an
  index out of range).
\<close>

datatype 'a res = Ok 'a | Fail error | Panic

subsection \<open>The health state\<close>

text \<open>
  \<^verbatim>\<open>setOnline\<close>, \<^verbatim>\<open>recordFailure\<close> and \<^verbatim>\<open>recordSuccess\<close>; \<open>now\<close> is the reading of
  \<^verbatim>\<open>time.Now()\<close>. The increment of \<^verbatim>\<open>recordFailure\<close> is the 64-bit one. \<^verbatim>\<open>NewEngine\<close> builds the struct and calls \<^verbatim>\<open>setOnline\<close>; it
  returns no error. \<^verbatim>\<open>shouldTryAI\<close> returns \<^verbatim>\<open>true\<close> in every state.
\<close>

definition setOnline :: "nat \<Rightarrow> Engine \<Rightarrow> Engine" where
  "setOnline now e = e\<lparr>isOnline := True, failureCount := 0, lastCheck := now\<rparr>"

definition recordFailure :: "nat \<Rightarrow> Engine \<Rightarrow> Engine" where
  "recordFailure now e =
     e\<lparr>isOnline := False, failureCount := wrap64 (failureCount e + 1), lastCheck := now\<rparr>"

definition recordSuccess :: "nat \<Rightarrow> Engine \<Rightarrow> Engine" where
  "recordSuccess now e = e\<lparr>isOnline := True, failureCount := 0, lastCheck := now\<rparr>"

definition NewEngine :: "nat \<Rightarrow> Engine" where
  "NewEngine now =
     setOnline now
       \<lparr>isOnline = True, lastCheck = 0, failureCount = 0, problemIndex = Map.empty\<rparr>"

definition shouldTryAI :: "Engine \<Rightarrow> bool" where
  "shouldTryAI e = True"

text \<open>
  The states of the engine that \<^verbatim>\<open>NewEngine\<close> and the three operations on the health
  state reach.
\<close>

inductive reachable :: "Engine \<Rightarrow> bool" where
  new: "reachable (NewEngine now)"
| online: "reachable e \<Longrightarrow> reachable (setOnline now e)"
| failure: "reachable e \<Longrightarrow> reachable (recordFailure now e)"
| success: "reachable e \<Longrightarrow> reachable (recordSuccess now e)"

text \<open>The same states, with the number of operations that led to them.\<close>

inductive reachableIn :: "nat \<Rightarrow> Engine \<Rightarrow> bool" where
  new: "reachableIn 0 (NewEngine now)"
| online: "reachableIn n e \<Longrightarrow> reachableIn (Suc n) (setOnline now e)"
| failure: "reachableIn n e \<Longrightarrow> reachableIn (Suc n) (recordFailure now e)"
| success: "reachableIn n e \<Longrightarrow> reachableIn (Suc n) (recordSuccess now e)"

text \<open>The engine after \<open>n\<close> consecutive failures on a new engine.\<close>

fun failures :: "nat \<Rightarrow> Engine" where
  "failures 0 = NewEngine 0"
| "failures (Suc n) = recordFailure 1 (failures n)"

subsection \<open>The prompts\<close>

text \<open>
  A prompt is a fixed template filled by \<^verbatim>\<open>fmt.Sprintf\<close>. The text goes to the backend
  and no function of the package reads it back, so a prompt is kept as the arguments
  that fill its template. For a problem prompt these are the grade label, the subject,
  the grade (the key of the curriculum outline, with the subject), whether the clause
  on mathematical accuracy is appended, and the difficulty; for a feedback prompt the
  result, the description, the user's answer, the correct option, and whether the
  template that asks for a \<^verbatim>\<open>CALCULATION\<close> field is used.
\<close>

datatype Prompt =
    ProblemPrompt string string int bool int
  | FeedbackPrompt bool string string string bool

text \<open>The subject "mathematics": U+6570 U+5B66.\<close>

definition subject_math :: string where
  "subject_math =
     [CHR 0xE6, CHR 0x95, CHR 0xB0, CHR 0xE5, CHR 0xAD, CHR 0xA6]"

text \<open>The subject "arithmetic": U+7B97 U+6570.\<close>

definition subject_arithmetic :: string where
  "subject_arithmetic =
     [CHR 0xE7, CHR 0xAE, CHR 0x97, CHR 0xE6, CHR 0x95, CHR 0xB0]"

text \<open>The subject "English": U+82F1 U+8A9E.\<close>

definition subject_english :: string where
  "subject_english =
     [CHR 0xE8, CHR 0x8B, CHR 0xB1, CHR 0xE8, CHR 0xAA, CHR 0x9E]"

text \<open>The subject "Japanese": U+56FD U+8A9E.\<close>

definition subject_japanese :: string where
  "subject_japanese =
     [CHR 0xE5, CHR 0x9B, CHR 0xBD, CHR 0xE8, CHR 0xAA, CHR 0x9E]"

text \<open>The subject "science": U+7406 U+79D1.\<close>

definition subject_science :: string where
  "subject_science =
     [CHR 0xE7, CHR 0x90, CHR 0x86, CHR 0xE7, CHR 0xA7, CHR 0x91]"

text \<open>The subject "social studies": U+793E U+4F1A.\<close>

definition subject_social :: string where
  "subject_social =
     [CHR 0xE7, CHR 0xA4, CHR 0xBE, CHR 0xE4, CHR 0xBC, CHR 0x9A]"

text \<open>The slice \<^verbatim>\<open>gradeText\<close>: the empty label, then U+4E2D followed by 1, 2 and 3.\<close>

definition gradeText :: "string list" where
  "gradeText =
     [[], [CHR 0xE4, CHR 0xB8, CHR 0xAD] @ ''1'', [CHR 0xE4, CHR 0xB8, CHR 0xAD] @ ''2'',
      [CHR 0xE4, CHR 0xB8, CHR 0xAD] @ ''3'']"

text \<open>
  \<^verbatim>\<open>buildPersonalizedPrompt\<close>. \<^verbatim>\<open>gradeText[context.Grade]\<close> panics for a grade
  outside \<open>0..3\<close>.
\<close>

definition buildPersonalizedPrompt :: "StudyContext \<Rightarrow> Prompt res" where
  "buildPersonalizedPrompt context =
     (let mathConstraints =
            (Subject context = subject_math \<or> Subject context = subject_arithmetic)
      in if 0 \<le> Grade context \<and> Grade context < int (length gradeText)
         then Ok (ProblemPrompt (gradeText ! nat (Grade context)) (Subject context)
                    (Grade context) mathConstraints (TargetDifficulty context))
         else Panic)"

text \<open>The keyword "angle": U+89D2.\<close>

definition kw_angle :: string where
  "kw_angle =
     [CHR 0xE8, CHR 0xA7, CHR 0x92]"

text \<open>The keyword "triangle": U+4E09 U+89D2 U+5F62.\<close>

definition kw_triangle :: string where
  "kw_triangle =
     [CHR 0xE4, CHR 0xB8, CHR 0x89, CHR 0xE8, CHR 0xA7, CHR 0x92, CHR 0xE5, CHR 0xBD, CHR 0xA2]"

text \<open>The keyword "degree": U+5EA6.\<close>

definition kw_degree :: string where
  "kw_degree =
     [CHR 0xE5, CHR 0xBA, CHR 0xA6]"

text \<open>The keyword "computation": U+8A08 U+7B97.\<close>

definition kw_computation :: string where
  "kw_computation =
     [CHR 0xE8, CHR 0xA8, CHR 0x88, CHR 0xE7, CHR 0xAE, CHR 0x97]"

text \<open>The keyword "equation": U+65B9 U+7A0B U+5F0F.\<close>

definition kw_equation :: string where
  "kw_equation =
     [CHR 0xE6, CHR 0x96, CHR 0xB9, CHR 0xE7, CHR 0xA8, CHR 0x8B, CHR 0xE5, CHR 0xBC, CHR 0x8F]"

text \<open>The keyword "area": U+9762 U+7A4D.\<close>

definition kw_area :: string where
  "kw_area =
     [CHR 0xE9, CHR 0x9D, CHR 0xA2, CHR 0xE7, CHR 0xA9, CHR 0x8D]"

text \<open>The keyword "volume": U+4F53 U+7A4D.\<close>

definition kw_volume :: string where
  "kw_volume =
     [CHR 0xE4, CHR 0xBD, CHR 0x93, CHR 0xE7, CHR 0xA9, CHR 0x8D]"

text \<open>The radical sign: U+221A.\<close>

definition kw_radical :: string where
  "kw_radical =
     [CHR 0xE2, CHR 0x88, CHR 0x9A]"

text \<open>The superscript two: U+00B2.\<close>

definition kw_squared :: string where
  "kw_squared =
     [CHR 0xC2, CHR 0xB2]"

text \<open>The keyword "square": U+5E73 U+65B9.\<close>

definition kw_square :: string where
  "kw_square =
     [CHR 0xE5, CHR 0xB9, CHR 0xB3, CHR 0xE6, CHR 0x96, CHR 0xB9]"

text \<open>
  The test \<^verbatim>\<open>isMathProblem\<close> of \<^verbatim>\<open>buildFeedbackPrompt\<close> (source lines 298 to 308):
  eleven keywords.
\<close>

definition feedback_isMathProblem :: "string \<Rightarrow> bool" where
  "feedback_isMathProblem description =
     (Contains description kw_angle \<or>
      Contains description kw_triangle \<or>
      Contains description kw_degree \<or>
      Contains description kw_computation \<or>
      Contains description kw_equation \<or>
      Contains description kw_area \<or>
      Contains description kw_volume \<or>
      Contains description kw_radical \<or>
      Contains description kw_squared \<or>
      Contains description kw_square \<or>
      Contains description ''='')"

text \<open>
  \<^verbatim>\<open>buildFeedbackPrompt\<close>.
  \<^verbatim>\<open>req.Problem.Options[req.Problem.CorrectAnswer]\<close> panics for an index out of range.
\<close>

definition buildFeedbackPrompt :: "FeedbackRequest \<Rightarrow> Prompt res" where
  "buildFeedbackPrompt req =
     (let problem = AnsweredProblem req;
          isMathProblem = feedback_isMathProblem (Description problem)
      in if 0 \<le> CorrectAnswer problem \<and> CorrectAnswer problem < int (length (Options problem))
         then Ok (FeedbackPrompt (IsCorrect req) (Description problem) (UserAnswer req)
                    (Options problem ! nat (CorrectAnswer problem)) isMathProblem)
         else Panic)"

subsection \<open>The streaming client\<close>

text \<open>
  What the backend does with a request is the environment's: \<^verbatim>\<open>json.Marshal\<close> or
  \<^verbatim>\<open>http.NewRequestWithContext\<close> fails, \<^verbatim>\<open>httpClient.Do\<close> fails, or a response
  arrives. Of a response the model keeps the status code, the body as
  \<^verbatim>\<open>io.ReadAll\<close> returns it (read for a status other than 200), the lines that
  \<^verbatim>\<open>scanner.Scan()\<close> delivers (read for status 200) and what \<^verbatim>\<open>scanner.Err()\<close>
  returns when the loop is over.
\<close>

record HTTPResponse =
  StatusCode :: int
  BodyText :: string
  Lines :: "string list"
  ScanErr :: "string option"

datatype Transport =
    MarshalFailed string
  | NewRequestFailed string
  | DoFailed string
  | Responded HTTPResponse

text \<open>
  The loop of \<^verbatim>\<open>generate\<close> over the lines (source lines 390 to 412). \<open>unmarshal\<close> is
  \<^verbatim>\<open>json.Unmarshal\<close> into a fresh \<^verbatim>\<open>OllamaResponse\<close>: \<open>None\<close> when it returns an
  error. \<open>full\<close> is the text accumulated in \<^verbatim>\<open>fullResponse\<close>. The loop ends with an
  error (\<open>Inl\<close>) or with the accumulated text (\<open>Inr\<close>).
\<close>

fun readStream ::
  "(string \<Rightarrow> OllamaResponse option) \<Rightarrow> string list \<Rightarrow> string \<Rightarrow> error + string" where
  "readStream unmarshal [] full = Inr full"
| "readStream unmarshal (line # rest) full =
     (if line = [] then readStream unmarshal rest full
      else (case unmarshal line of
              None \<Rightarrow> readStream unmarshal rest full
            | Some ollamaResp \<Rightarrow>
                if Error ollamaResp \<noteq> [] then Inl (OllamaProcessingError (Error ollamaResp))
                else if Done ollamaResp then Inr (full @ Response ollamaResp)
                else readStream unmarshal rest (full @ Response ollamaResp)))"

text \<open>\<^verbatim>\<open>generate\<close>.\<close>

definition generate :: "(string \<Rightarrow> OllamaResponse option) \<Rightarrow> Transport \<Rightarrow> string res" where
  "generate unmarshal transport =
     (case transport of
        MarshalFailed m \<Rightarrow> Fail (RequestCreateError m)
      | NewRequestFailed m \<Rightarrow> Fail (HTTPRequestCreateError m)
      | DoFailed m \<Rightarrow> Fail (HTTPRequestError m)
      | Responded resp \<Rightarrow>
          if StatusCode resp \<noteq> 200 then Fail (OllamaAPIError (StatusCode resp) (BodyText resp))
          else (case readStream unmarshal (Lines resp) [] of
                  Inl err \<Rightarrow> Fail err
                | Inr fullResponse \<Rightarrow>
                    (case ScanErr resp of
                       Some m \<Rightarrow> Fail (StreamReadError m)
                     | None \<Rightarrow> Ok (TrimSpace fullResponse))))"

subsection \<open>The response parser\<close>

text \<open>
  The map \<^verbatim>\<open>fields\<close> (\<open>flds\<close> below) is an association list with one pair per key: \<open>put\<close> is the
  assignment \<^verbatim>\<open>fields[key] = value\<close>, \<open>map_of\<close> the lookup, and the map is empty
  (\<^verbatim>\<open>len(fields) == 0\<close>) when the list is.
\<close>

fun put :: "string \<Rightarrow> string \<Rightarrow> (string \<times> string) list \<Rightarrow> (string \<times> string) list" where
  "put key v [] = [(key, v)]"
| "put key v ((k, w) # flds) =
     (if k = key then (key, v) # flds else (k, w) # put key v flds)"

text \<open>The code-fence marker that \<^verbatim>\<open>parseKeyValueResponse\<close> removes: three backquotes.\<close>

definition fence :: string where
  "fence = [CHR 0x60, CHR 0x60, CHR 0x60]"

text \<open>
  One turn of the loop of \<^verbatim>\<open>parseKeyValueResponse\<close> (source lines 485 to 510). The
  state is \<^verbatim>\<open>currentKey\<close>, the text in \<^verbatim>\<open>currentValue\<close>, and \<^verbatim>\<open>fields\<close>.
\<close>

definition parseLine ::
  "string \<times> string \<times> (string \<times> string) list \<Rightarrow> string \<Rightarrow>
   string \<times> string \<times> (string \<times> string) list" where
  "parseLine st raw =
     (case st of (currentKey, currentValue, flds) \<Rightarrow>
        (let line = TrimSpace raw
         in if line = [] then st
            else (let colonIndex = Index line '':''
                  in if colonIndex \<noteq> -1
                     then (TrimSpace (take (nat colonIndex) line),
                           TrimSpace (drop (nat colonIndex + 1) line),
                           if currentKey \<noteq> [] then put currentKey (TrimSpace currentValue) flds
                           else flds)
                     else if currentKey \<noteq> []
                     then (currentKey,
                           (if currentValue \<noteq> [] then currentValue @ [CHR 0x0A] else currentValue)
                             @ line,
                           flds)
                     else st)))"

text \<open>\<^verbatim>\<open>parseKeyValueResponse\<close>.\<close>

definition parseKeyValueResponse :: "string \<Rightarrow> (string \<times> string) list" where
  "parseKeyValueResponse response =
     (case foldl parseLine ([], [], []) (SplitLines (TrimSpace (RemoveAll response fence))) of
        (currentKey, currentValue, flds) \<Rightarrow>
          if currentKey \<noteq> [] then put currentKey (TrimSpace currentValue) flds else flds)"

text \<open>\<^verbatim>\<open>getField\<close> and \<^verbatim>\<open>parseInt\<close>.\<close>

definition getField :: "(string \<times> string) list \<Rightarrow> string \<Rightarrow> string \<Rightarrow> string" where
  "getField flds key defaultValue =
     (case map_of flds key of
        Some v \<Rightarrow> if v \<noteq> [] then v else defaultValue
      | None \<Rightarrow> defaultValue)"

definition parseInt :: "string \<Rightarrow> int" where
  "parseInt v = (case Atoi v of Some result \<Rightarrow> result | None \<Rightarrow> 0)"

subsection \<open>The validator\<close>

text \<open>"from the following sentence": U+6B21 U+306E U+6587 U+4E2D U+304B U+3089.\<close>

definition phrase_from_next_sentence :: string where
  "phrase_from_next_sentence =
     [CHR 0xE6, CHR 0xAC, CHR 0xA1, CHR 0xE3, CHR 0x81, CHR 0xAE, CHR 0xE6, CHR 0x96, CHR 0x87,
     CHR 0xE4, CHR 0xB8, CHR 0xAD, CHR 0xE3, CHR 0x81, CHR 0x8B, CHR 0xE3, CHR 0x82, CHR 0x89]"

text \<open>"the diagram below": U+4E0B U+306E U+56F3.\<close>

definition phrase_diagram_below :: string where
  "phrase_diagram_below =
     [CHR 0xE4, CHR 0xB8, CHR 0x8B, CHR 0xE3, CHR 0x81, CHR 0xAE, CHR 0xE5, CHR 0x9B, CHR 0xB3]"

text \<open>"the text below": U+4EE5 U+4E0B U+306E U+6587.\<close>

definition phrase_following_text :: string where
  "phrase_following_text =
     [CHR 0xE4, CHR 0xBB, CHR 0xA5, CHR 0xE4, CHR 0xB8, CHR 0x8B, CHR 0xE3, CHR 0x81, CHR 0xAE,
     CHR 0xE6, CHR 0x96, CHR 0x87]"

text \<open>"the next character is": U+6B21 U+306E U+6587 U+5B57 U+306F.\<close>

definition phrase_next_character :: string where
  "phrase_next_character =
     [CHR 0xE6, CHR 0xAC, CHR 0xA1, CHR 0xE3, CHR 0x81, CHR 0xAE, CHR 0xE6, CHR 0x96, CHR 0x87,
     CHR 0xE5, CHR 0xAD, CHR 0x97, CHR 0xE3, CHR 0x81, CHR 0xAF]"

text \<open>"the next word is": U+6B21 U+306E U+5358 U+8A9E U+306F.\<close>

definition phrase_next_word :: string where
  "phrase_next_word =
     [CHR 0xE6, CHR 0xAC, CHR 0xA1, CHR 0xE3, CHR 0x81, CHR 0xAE, CHR 0xE5, CHR 0x8D, CHR 0x98,
     CHR 0xE8, CHR 0xAA, CHR 0x9E, CHR 0xE3, CHR 0x81, CHR 0xAF]"

text \<open>"the next formula is": U+6B21 U+306E U+6570 U+5F0F U+306F.\<close>

definition phrase_next_formula :: string where
  "phrase_next_formula =
     [CHR 0xE6, CHR 0xAC, CHR 0xA1, CHR 0xE3, CHR 0x81, CHR 0xAE, CHR 0xE6, CHR 0x95, CHR 0xB0,
     CHR 0xE5, CHR 0xBC, CHR 0x8F, CHR 0xE3, CHR 0x81, CHR 0xAF]"

text \<open>"the next diagram": U+6B21 U+306E U+56F3.\<close>

definition phrase_next_diagram :: string where
  "phrase_next_diagram =
     [CHR 0xE6, CHR 0xAC, CHR 0xA1, CHR 0xE3, CHR 0x81, CHR 0xAE, CHR 0xE5, CHR 0x9B, CHR 0xB3]"

text \<open>"the next table is": U+6B21 U+306E U+8868 U+306F.\<close>

definition phrase_next_table :: string where
  "phrase_next_table =
     [CHR 0xE6, CHR 0xAC, CHR 0xA1, CHR 0xE3, CHR 0x81, CHR 0xAE, CHR 0xE8, CHR 0xA1, CHR 0xA8,
     CHR 0xE3, CHR 0x81, CHR 0xAF]"

text \<open>"the next material": U+6B21 U+306E U+8CC7 U+6599.\<close>

definition phrase_next_material :: string where
  "phrase_next_material =
     [CHR 0xE6, CHR 0xAC, CHR 0xA1, CHR 0xE3, CHR 0x81, CHR 0xAE, CHR 0xE8, CHR 0xB3, CHR 0x87,
     CHR 0xE6, CHR 0x96, CHR 0x99]"

text \<open>The slice \<^verbatim>\<open>forbiddenPhrases\<close> of \<^verbatim>\<open>validateProblem\<close>, in its order.\<close>

definition forbiddenPhrases :: "string list" where
  "forbiddenPhrases =
     [phrase_from_next_sentence, phrase_diagram_below, phrase_following_text,
      phrase_next_character, phrase_next_word, phrase_next_formula, phrase_next_diagram,
      phrase_next_table, phrase_next_material]"

text \<open>"isosceles triangle": U+4E8C U+7B49 U+8FBA U+4E09 U+89D2 U+5F62.\<close>

definition isosceles_triangle :: string where
  "isosceles_triangle =
     [CHR 0xE4, CHR 0xBA, CHR 0x8C, CHR 0xE7, CHR 0xAD, CHR 0x89, CHR 0xE8, CHR 0xBE, CHR 0xBA,
     CHR 0xE4, CHR 0xB8, CHR 0x89, CHR 0xE8, CHR 0xA7, CHR 0x92, CHR 0xE5, CHR 0xBD, CHR 0xA2]"

text \<open>"45 degrees": '4' '5' U+5EA6.\<close>

definition deg45 :: string where
  "deg45 =
     ''45'' @ [CHR 0xE5, CHR 0xBA, CHR 0xA6]"

text \<open>"angle B": U+89D2 'B'.\<close>

definition angle_B :: string where
  "angle_B =
     [CHR 0xE8, CHR 0xA7, CHR 0x92] @ ''B''"

text \<open>
  \<^verbatim>\<open>validateIsoscelesTriangleProblem\<close>. \<^verbatim>\<open>problem.Options[problem.CorrectAnswer]\<close>
  panics for an index out of range.
\<close>

definition validateIsoscelesTriangleProblem :: "Problem \<Rightarrow> unit res" where
  "validateIsoscelesTriangleProblem problem =
     (if Contains (Description problem) deg45 \<and> Contains (Description problem) angle_B
      then (if 0 \<le> CorrectAnswer problem \<and> CorrectAnswer problem < int (length (Options problem))
            then (let correctAnswer = Options problem ! nat (CorrectAnswer problem)
                  in if \<not> Contains correctAnswer ''90''
                     then Fail (IsoscelesAnswerMismatch correctAnswer)
                     else Ok ())
            else Panic)
      else Ok ())"

text \<open>
  The test \<^verbatim>\<open>isMathProblem\<close> of \<^verbatim>\<open>validateProblem\<close> (source lines 558 to 565):
  eight keywords.
\<close>

definition validate_isMathProblem :: "string \<Rightarrow> bool" where
  "validate_isMathProblem description =
     (Contains description kw_angle \<or>
      Contains description kw_triangle \<or>
      Contains description kw_degree \<or>
      Contains description kw_computation \<or>
      Contains description kw_equation \<or>
      Contains description kw_radical \<or>
      Contains description kw_squared \<or>
      Contains description ''='')"

text \<open>
  \<^verbatim>\<open>validateProblem\<close>. The Go function returns an error and writes the default time
  through the pointer; here \<open>Ok\<close> carries the problem as the function leaves it. The
  loop over \<^verbatim>\<open>forbiddenPhrases\<close> returns at the first phrase that the description
  contains.
\<close>

definition validateProblem :: "Problem \<Rightarrow> Problem res" where
  "validateProblem problem =
     (if Title problem = [] then Fail TitleEmpty
      else if Description problem = [] then Fail DescriptionEmpty
      else if length (Options problem) < 2 then Fail InsufficientOptions
      else if CorrectAnswer problem < 0 \<or> CorrectAnswer problem \<ge> int (length (Options problem))
      then Fail IndexOutOfRange
      else if Difficulty problem < 1 \<or> Difficulty problem > 5 then Fail DifficultyOutOfRange
      else (let problem' =
                  (if EstimatedTime problem \<le> 0 then problem\<lparr>EstimatedTime := 300\<rparr>
                   else problem)
            in if validate_isMathProblem (Description problem')
               then (case find (Contains (Description problem')) forbiddenPhrases of
                       Some phrase \<Rightarrow> Fail (ForbiddenReference phrase)
                     | None \<Rightarrow>
                         if Contains (Description problem') isosceles_triangle \<and>
                            Contains (Description problem') kw_angle
                         then (case validateIsoscelesTriangleProblem problem' of
                                 Fail err \<Rightarrow> Fail (GeometricInconsistency err)
                               | Panic \<Rightarrow> Panic
                               | Ok u \<Rightarrow> Ok problem')
                         else Ok problem')
               else Ok problem'))"

text \<open>
  \<^verbatim>\<open>parseProblemResponse\<close>. The index of the correct answer is the parsed number
  less one, in 64-bit arithmetic.
\<close>

definition parseProblemResponse :: "string \<Rightarrow> Problem res" where
  "parseProblemResponse response =
     (let flds = parseKeyValueResponse response
      in if flds = [] then Fail (ResponseParseError response)
         else (case validateProblem
                      \<lparr>Title = getField flds ''TITLE'' [],
                       Description = getField flds ''DESCRIPTION'' [],
                       Options =
                         [getField flds ''OPTION1'' [], getField flds ''OPTION2'' [],
                          getField flds ''OPTION3'' [], getField flds ''OPTION4'' []],
                       CorrectAnswer = wrap64 (parseInt (getField flds ''CORRECT'' ''1'') - 1),
                       Explanation = getField flds ''EXPLANATION'' [],
                       Difficulty = parseInt (getField flds ''DIFFICULTY'' ''3''),
                       EstimatedTime = parseInt (getField flds ''TIME'' ''300''),
                       Encouragement = getField flds ''ENCOURAGEMENT'' [],
                       ProblemType = getField flds ''TYPE'' []\<rparr> of
                 Fail err \<Rightarrow> Fail (ProblemValidationError err)
               | Panic \<Rightarrow> Panic
               | Ok problem \<Rightarrow> Ok problem))"

text \<open>\<^verbatim>\<open>parseFeedbackResponse\<close>.\<close>

definition parseFeedbackResponse :: "string \<Rightarrow> FeedbackResponse res" where
  "parseFeedbackResponse response =
     (let flds = parseKeyValueResponse response
      in if flds = [] then Fail (ResponseParseError response)
         else Ok \<lparr>Message = getField flds ''MESSAGE'' [],
                  FeedbackExplanation = getField flds ''EXPLANATION'' [],
                  FeedbackEncouragement = getField flds ''ENCOURAGEMENT'' [],
                  NextSteps = getField flds ''NEXT_STEPS'' [],
                  TipOfDay = getField flds ''TIP'' []\<rparr>)"

subsection \<open>The offline content bank\<close>

text \<open>
  The problems that \<^verbatim>\<open>getMathProblem\<close>, \<^verbatim>\<open>getEnglishProblem\<close>,
  \<^verbatim>\<open>getJapaneseProblem\<close>, \<^verbatim>\<open>getScienceProblem\<close>, \<^verbatim>\<open>getSocialStudiesProblem\<close> and
  \<^verbatim>\<open>getGeneralProblem\<close> build, literal by literal.
\<close>

text \<open>\<^verbatim>\<open>mathProblems\<close>, grade 1, entry 1 (source line 731).\<close>

definition math1_signed :: Problem where
  "math1_signed =
    \<lparr>Title =
       [CHR 0xE6, CHR 0xAD, CHR 0xA3, CHR 0xE8, CHR 0xB2, CHR 0xA0, CHR 0xE3, CHR 0x81, CHR 0xAE,
       CHR 0xE6, CHR 0x95, CHR 0xB0, CHR 0xE3, CHR 0x81, CHR 0xAE, CHR 0xE8, CHR 0xA8, CHR 0x88,
       CHR 0xE7, CHR 0xAE, CHR 0x97],
     Description =
       [CHR 0xE6, CHR 0xAC, CHR 0xA1, CHR 0xE3, CHR 0x81, CHR 0xAE, CHR 0xE8, CHR 0xA8, CHR 0x88,
       CHR 0xE7, CHR 0xAE, CHR 0x97, CHR 0xE3, CHR 0x82, CHR 0x92, CHR 0xE3, CHR 0x81, CHR 0x97,
       CHR 0xE3, CHR 0x81, CHR 0xA6, CHR 0xE3, CHR 0x81, CHR 0x8F, CHR 0xE3, CHR 0x81, CHR 0xA0,
       CHR 0xE3, CHR 0x81, CHR 0x95, CHR 0xE3, CHR 0x81, CHR 0x84, CHR 0xE3, CHR 0x80, CHR 0x82,
       CHR 0x0A] @ ''(-3) + (+5) = ?'',
     Options =
       [''+2'',
        ''-2'',
        ''+8'',
        ''-8''],
     CorrectAnswer = 0,
     Explanation =
       ''(-3) + (+5) = 5 - 3 = +2 '' @ [CHR 0xE3, CHR 0x81, CHR 0xA7, CHR 0xE3, CHR 0x81, CHR 0x99,
       CHR 0xE3, CHR 0x80, CHR 0x82, CHR 0xE6, CHR 0xAD, CHR 0xA3, CHR 0xE3, CHR 0x81, CHR 0xAE,
       CHR 0xE6, CHR 0x95, CHR 0xB0, CHR 0xE3, CHR 0x81, CHR 0x8B, CHR 0xE3, CHR 0x82, CHR 0x89,
       CHR 0xE8, CHR 0xB2, CHR 0xA0, CHR 0xE3, CHR 0x81, CHR 0xAE, CHR 0xE6, CHR 0x95, CHR 0xB0,
       CHR 0xE3, CHR 0x82, CHR 0x92, CHR 0xE5, CHR 0xBC, CHR 0x95, CHR 0xE3, CHR 0x81, CHR 0x8F,
       CHR 0xE3, CHR 0x81, CHR 0xA8, CHR 0xE3, CHR 0x81, CHR 0x8D, CHR 0xE3, CHR 0x81, CHR 0xAF,
       CHR 0xE3, CHR 0x80, CHR 0x81, CHR 0xE7, CHR 0xAC, CHR 0xA6, CHR 0xE5, CHR 0x8F, CHR 0xB7,
       CHR 0xE3, CHR 0x81, CHR 0xAB, CHR 0xE6, CHR 0xB3, CHR 0xA8, CHR 0xE6, CHR 0x84, CHR 0x8F,
       CHR 0xE3, CHR 0x81, CHR 0x97, CHR 0xE3, CHR 0x81, CHR 0xBE, CHR 0xE3, CHR 0x81, CHR 0x97,
       CHR 0xE3, CHR 0x82, CHR 0x87, CHR 0xE3, CHR 0x81, CHR 0x86, CHR 0xE3, CHR 0x80, CHR 0x82],
     Difficulty = 2,
     EstimatedTime = 180,
     Encouragement =
       [CHR 0xE6, CHR 0xAD, CHR 0xA3, CHR 0xE8, CHR 0xB2, CHR 0xA0, CHR 0xE3, CHR 0x81, CHR 0xAE,
       CHR 0xE6, CHR 0x95, CHR 0xB0, CHR 0xE3, CHR 0x81, CHR 0xAE, CHR 0xE8, CHR 0xA8, CHR 0x88,
       CHR 0xE7, CHR 0xAE, CHR 0x97, CHR 0xE3, CHR 0x81, CHR 0xAF, CHR 0xE6, CHR 0x85, CHR 0xA3,
       CHR 0xE3, CHR 0x82, CHR 0x8C, CHR 0xE3, CHR 0x82, CHR 0x8C, CHR 0xE3, CHR 0x81, CHR 0xB0,
       CHR 0xE7, CHR 0xB0, CHR 0xA1, CHR 0xE5, CHR 0x8D, CHR 0x98, CHR 0xE3, CHR 0x81, CHR 0xA7,
       CHR 0xE3, CHR 0x81, CHR 0x99, CHR 0xEF, CHR 0xBC, CHR 0x81],
     ProblemType =
       [CHR 0xE8, CHR 0xA8, CHR 0x88, CHR 0xE7, CHR 0xAE, CHR 0x97]\<rparr>"

text \<open>\<^verbatim>\<open>mathProblems\<close>, grade 1, entry 2 (source line 742).\<close>

definition math1_expression :: Problem where
  "math1_expression =
    \<lparr>Title =
       [CHR 0xE6, CHR 0x96, CHR 0x87, CHR 0xE5, CHR 0xAD, CHR 0x97, CHR 0xE3, CHR 0x81, CHR 0xA8,
       CHR 0xE5, CHR 0xBC, CHR 0x8F],
     Description =
       ''x = 3 '' @ [CHR 0xE3, CHR 0x81, CHR 0xAE, CHR 0xE3, CHR 0x81, CHR 0xA8, CHR 0xE3,
       CHR 0x81, CHR 0x8D, CHR 0xE3, CHR 0x80, CHR 0x81] @ ''2x + 1 '' @ [CHR 0xE3, CHR 0x81,
       CHR 0xAE, CHR 0xE5, CHR 0x80, CHR 0xA4, CHR 0xE3, CHR 0x82, CHR 0x92, CHR 0xE6, CHR 0xB1,
       CHR 0x82, CHR 0xE3, CHR 0x82, CHR 0x81, CHR 0xE3, CHR 0x81, CHR 0xA6, CHR 0xE3, CHR 0x81,
       CHR 0x8F, CHR 0xE3, CHR 0x81, CHR 0xA0, CHR 0xE3, CHR 0x81, CHR 0x95, CHR 0xE3, CHR 0x81,
       CHR 0x84, CHR 0xE3, CHR 0x80, CHR 0x82],
     Options =
       [''5'',
        ''6'',
        ''7'',
        ''8''],
     CorrectAnswer = 2,
     Explanation =
       ''x = 3 '' @ [CHR 0xE3, CHR 0x82, CHR 0x92, CHR 0xE4, CHR 0xBB, CHR 0xA3, CHR 0xE5,
       CHR 0x85, CHR 0xA5, CHR 0xE3, CHR 0x81, CHR 0x99, CHR 0xE3, CHR 0x82, CHR 0x8B, CHR 0xE3,
       CHR 0x81, CHR 0xA8, CHR 0xE3, CHR 0x80, CHR 0x81] @ ''2'' @ [CHR 0xC3, CHR 0x97] @
       ''3 + 1 = 6 + 1 = 7 '' @ [CHR 0xE3, CHR 0x81, CHR 0xA7, CHR 0xE3, CHR 0x81, CHR 0x99,
       CHR 0xE3, CHR 0x80, CHR 0x82],
     Difficulty = 3,
     EstimatedTime = 200,
     Encouragement =
       [CHR 0xE4, CHR 0xBB, CHR 0xA3, CHR 0xE5, CHR 0x85, CHR 0xA5, CHR 0xE3, CHR 0x81, CHR 0xAE,
       CHR 0xE8, CHR 0xA8, CHR 0x88, CHR 0xE7, CHR 0xAE, CHR 0x97, CHR 0xE3, CHR 0x81, CHR 0xAF,
       CHR 0xE9, CHR 0xA0, CHR 0x86, CHR 0xE5, CHR 0xBA, CHR 0x8F, CHR 0xE3, CHR 0x82, CHR 0x92,
       CHR 0xE5, CHR 0xAE, CHR 0x88, CHR 0xE3, CHR 0x82, CHR 0x8C, CHR 0xE3, CHR 0x81, CHR 0xB0,
       CHR 0xE7, CHR 0xA2, CHR 0xBA, CHR 0xE5, CHR 0xAE, CHR 0x9F, CHR 0xE3, CHR 0x81, CHR 0xAB,
       CHR 0xE8, CHR 0xA7, CHR 0xA3, CHR 0xE3, CHR 0x81, CHR 0x91, CHR 0xE3, CHR 0x81, CHR 0xBE,
       CHR 0xE3, CHR 0x81, CHR 0x99, CHR 0xEF, CHR 0xBC, CHR 0x81],
     ProblemType =
       [CHR 0xE6, CHR 0x96, CHR 0x87, CHR 0xE5, CHR 0xAD, CHR 0x97, CHR 0xE5, CHR 0xBC, CHR 0x8F]\<rparr>"

text \<open>\<^verbatim>\<open>mathProblems\<close>, grade 1, entry 3 (source line 753).\<close>

definition math1_root :: Problem where
  "math1_root =
    \<lparr>Title =
       [CHR 0xE5, CHR 0xB9, CHR 0xB3, CHR 0xE6, CHR 0x96, CHR 0xB9, CHR 0xE6, CHR 0xA0, CHR 0xB9,
       CHR 0xE3, CHR 0x81, CHR 0xAE, CHR 0xE8, CHR 0xA8, CHR 0x88, CHR 0xE7, CHR 0xAE, CHR 0x97],
     Description =
       [CHR 0xE2, CHR 0x9C, CHR 0x93] @ '' 9 '' @ [CHR 0xE3, CHR 0x81, CHR 0xAE, CHR 0xE5,
       CHR 0x80, CHR 0xA4, CHR 0xE3, CHR 0x81, CHR 0xAF, CHR 0xE3, CHR 0x81, CHR 0x84, CHR 0xE3,
       CHR 0x81, CHR 0x8F, CHR 0xE3, CHR 0x81, CHR 0xA4, CHR 0xE3, CHR 0x81, CHR 0xA7, CHR 0xE3,
       CHR 0x81, CHR 0x97, CHR 0xE3, CHR 0x82, CHR 0x87, CHR 0xE3, CHR 0x81, CHR 0x86, CHR 0xE3,
       CHR 0x81, CHR 0x8B, CHR 0xEF, CHR 0xBC, CHR 0x9F],
     Options =
       [''3'',
        ''4'',
        ''6'',
        ''9''],
     CorrectAnswer = 0,
     Explanation =
       [CHR 0xE2, CHR 0x9C, CHR 0x93] @ '' 9 = 3 '' @ [CHR 0xE3, CHR 0x81, CHR 0xA7, CHR 0xE3,
       CHR 0x81, CHR 0x99, CHR 0xE3, CHR 0x80, CHR 0x82, CHR 0xE3, CHR 0x81, CHR 0xAA, CHR 0xE3,
       CHR 0x81, CHR 0x9C, CHR 0xE3, CHR 0x81, CHR 0xAA, CHR 0xE3, CHR 0x82, CHR 0x89] @ ''3 '' @
       [CHR 0xC3, CHR 0x97] @ '' 3 = 9 '' @ [CHR 0xE3, CHR 0x81, CHR 0xA0, CHR 0xE3, CHR 0x81,
       CHR 0x8B, CHR 0xE3, CHR 0x82, CHR 0x89, CHR 0xE3, CHR 0x81, CHR 0xA7, CHR 0xE3, CHR 0x81,
       CHR 0x99, CHR 0xE3, CHR 0x80, CHR 0x82],
     Difficulty = 2,
     EstimatedTime = 160,
     Encouragement =
       [CHR 0xE5, CHR 0xB9, CHR 0xB3, CHR 0xE6, CHR 0x96, CHR 0xB9, CHR 0xE6, CHR 0xA0, CHR 0xB9,
       CHR 0xE3, CHR 0x81, CHR 0xAF, CHR 0xE4, CHR 0xB9, CHR 0x9D, CHR 0xE4, CHR 0xB9, CHR 0x9D,
       CHR 0xE3, CHR 0x82, CHR 0x92, CHR 0xE8, CHR 0xA6, CHR 0x9A, CHR 0xE3, CHR 0x81, CHR 0x88,
       CHR 0xE3, CHR 0x82, CHR 0x8B, CHR 0xE3, CHR 0x81, CHR 0xA8, CHR 0xE3, CHR 0x82, CHR 0x88,
       CHR 0xE3, CHR 0x81, CHR 0x84, CHR 0xE3, CHR 0x81, CHR 0xA7, CHR 0xE3, CHR 0x81, CHR 0x97,
       CHR 0xE3, CHR 0x82, CHR 0x87, CHR 0xE3, CHR 0x81, CHR 0x86, CHR 0xEF, CHR 0xBC, CHR 0x81],
     ProblemType =
       [CHR 0xE5, CHR 0xB9, CHR 0xB3, CHR 0xE6, CHR 0x96, CHR 0xB9, CHR 0xE6, CHR 0xA0, CHR 0xB9]\<rparr>"

text \<open>\<^verbatim>\<open>mathProblems\<close>, grade 2, entry 1 (source line 766).\<close>

definition math2_simultaneous :: Problem where
  "math2_simultaneous =
    \<lparr>Title =
       [CHR 0xE9, CHR 0x80, CHR 0xA3, CHR 0xE7, CHR 0xAB, CHR 0x8B, CHR 0xE6, CHR 0x96, CHR 0xB9,
       CHR 0xE7, CHR 0xA8, CHR 0x8B, CHR 0xE5, CHR 0xBC, CHR 0x8F],
     Description =
       [CHR 0xE6, CHR 0xAC, CHR 0xA1, CHR 0xE3, CHR 0x81, CHR 0xAE, CHR 0xE9, CHR 0x80, CHR 0xA3,
       CHR 0xE7, CHR 0xAB, CHR 0x8B, CHR 0xE6, CHR 0x96, CHR 0xB9, CHR 0xE7, CHR 0xA8, CHR 0x8B,
       CHR 0xE5, CHR 0xBC, CHR 0x8F, CHR 0xE3, CHR 0x82, CHR 0x92, CHR 0xE8, CHR 0xA7, CHR 0xA3,
       CHR 0xE3, CHR 0x81, CHR 0x84, CHR 0xE3, CHR 0x81, CHR 0xA6, CHR 0xE3, CHR 0x81, CHR 0x8F,
       CHR 0xE3, CHR 0x81, CHR 0xA0, CHR 0xE3, CHR 0x81, CHR 0x95, CHR 0xE3, CHR 0x81, CHR 0x84,
       CHR 0xE3, CHR 0x80, CHR 0x82, CHR 0x0A] @ ''x + y = 5'' @ [CHR 0x0A] @ ''x - y = 1'' @
       [CHR 0x0A] @ ''x'' @ [CHR 0xE3, CHR 0x81, CHR 0xAE, CHR 0xE5, CHR 0x80, CHR 0xA4, CHR 0xE3,
       CHR 0x81, CHR 0xAF, CHR 0xEF, CHR 0xBC, CHR 0x9F],
     Options =
       [''1'',
        ''2'',
        ''3'',
        ''4''],
     CorrectAnswer = 2,
     Explanation =
       ''2'' @ [CHR 0xE3, CHR 0x81, CHR 0xA4, CHR 0xE3, CHR 0x81, CHR 0xAE, CHR 0xE5, CHR 0xBC,
       CHR 0x8F, CHR 0xE3, CHR 0x82, CHR 0x92, CHR 0xE8, CHR 0xB6, CHR 0xB3, CHR 0xE3, CHR 0x81,
       CHR 0x99, CHR 0xE3, CHR 0x81, CHR 0xA8] @ '' 2x = 6 '' @ [CHR 0xE3, CHR 0x81, CHR 0xAA,
       CHR 0xE3, CHR 0x81, CHR 0xAE, CHR 0xE3, CHR 0x81, CHR 0xA7] @ '' x = 3 '' @ [CHR 0xE3,
       CHR 0x81, CHR 0xA7, CHR 0xE3, CHR 0x81, CHR 0x99, CHR 0xE3, CHR 0x80, CHR 0x82],
     Difficulty = 3,
     EstimatedTime = 300,
     Encouragement =
       [CHR 0xE9, CHR 0x80, CHR 0xA3, CHR 0xE7, CHR 0xAB, CHR 0x8B, CHR 0xE6, CHR 0x96, CHR 0xB9,
       CHR 0xE7, CHR 0xA8, CHR 0x8B, CHR 0xE5, CHR 0xBC, CHR 0x8F, CHR 0xE3, CHR 0x81, CHR 0xAF,
       CHR 0xE4, CHR 0xBB, CHR 0xA3, CHR 0xE5, CHR 0x85, CHR 0xA5, CHR 0xE6, CHR 0xB3, CHR 0x95,
       CHR 0xE3, CHR 0x82, CHR 0x84, CHR 0xE5, CHR 0x8A, CHR 0xA0, CHR 0xE6, CHR 0xB8, CHR 0x9B,
       CHR 0xE6, CHR 0xB3, CHR 0x95, CHR 0xE3, CHR 0x82, CHR 0x92, CHR 0xE3, CHR 0x83, CHR 0x9E,
       CHR 0xE3, CHR 0x82, CHR 0xB9, CHR 0xE3, CHR 0x82, CHR 0xBF, CHR 0xE3, CHR 0x83, CHR 0xBC,
       CHR 0xE3, CHR 0x81, CHR 0x99, CHR 0xE3, CHR 0x82, CHR 0x8C, CHR 0xE3, CHR 0x81, CHR 0xB0,
       CHR 0xE7, CHR 0xB0, CHR 0xA1, CHR 0xE5, CHR 0x8D, CHR 0x98, CHR 0xE3, CHR 0x81, CHR 0xA7,
       CHR 0xE3, CHR 0x81, CHR 0x99, CHR 0xEF, CHR 0xBC, CHR 0x81],
     ProblemType =
       [CHR 0xE6, CHR 0x96, CHR 0xB9, CHR 0xE7, CHR 0xA8, CHR 0x8B, CHR 0xE5, CHR 0xBC, CHR 0x8F]\<rparr>"

text \<open>\<^verbatim>\<open>mathProblems\<close>, grade 2, entry 2 (source line 777).\<close>

definition math2_linear :: Problem where
  "math2_linear =
    \<lparr>Title =
       [CHR 0xE4, CHR 0xB8, CHR 0x80, CHR 0xE6, CHR 0xAC, CHR 0xA1, CHR 0xE9, CHR 0x96, CHR 0xA2,
       CHR 0xE6, CHR 0x95, CHR 0xB0],
     Description =
       ''y = 2x + 1 '' @ [CHR 0xE3, CHR 0x81, CHR 0xAB, CHR 0xE3, CHR 0x81, CHR 0x8A, CHR 0xE3,
       CHR 0x81, CHR 0x84, CHR 0xE3, CHR 0x81, CHR 0xA6, CHR 0xE3, CHR 0x80, CHR 0x81] @ ''x = 2 ''
       @ [CHR 0xE3, CHR 0x81, CHR 0xAE, CHR 0xE3, CHR 0x81, CHR 0xA8, CHR 0xE3, CHR 0x81, CHR 0x8D,
       CHR 0xE3, CHR 0x81, CHR 0xAE] @ '' y '' @ [CHR 0xE3, CHR 0x81, CHR 0xAE, CHR 0xE5, CHR 0x80,
       CHR 0xA4, CHR 0xE3, CHR 0x81, CHR 0xAF, CHR 0xEF, CHR 0xBC, CHR 0x9F],
     Options =
       [''3'',
        ''4'',
        ''5'',
        ''6''],
     CorrectAnswer = 2,
     Explanation =
       ''y = 2 '' @ [CHR 0xC3, CHR 0x97] @ '' 2 + 1 = 4 + 1 = 5 '' @ [CHR 0xE3, CHR 0x81, CHR 0xA7,
       CHR 0xE3, CHR 0x81, CHR 0x99, CHR 0xE3, CHR 0x80, CHR 0x82],
     Difficulty = 3,
     EstimatedTime = 200,
     Encouragement =
       [CHR 0xE4, CHR 0xB8, CHR 0x80, CHR 0xE6, CHR 0xAC, CHR 0xA1, CHR 0xE9, CHR 0x96, CHR 0xA2,
       CHR 0xE6, CHR 0x95, CHR 0xB0, CHR 0xE3, CHR 0x81, CHR 0xAE, CHR 0xE4, CHR 0xBB, CHR 0xA3,
       CHR 0xE5, CHR 0x85, CHR 0xA5, CHR 0xE3, CHR 0x81, CHR 0xAF, CHR 0xE5, CHR 0x9F, CHR 0xBA,
       CHR 0xE6, CHR 0x9C, CHR 0xAC, CHR 0xE3, CHR 0x81, CHR 0xA7, CHR 0xE3, CHR 0x81, CHR 0x99,
       CHR 0xEF, CHR 0xBC, CHR 0x81],
     ProblemType =
       [CHR 0xE9, CHR 0x96, CHR 0xA2, CHR 0xE6, CHR 0x95, CHR 0xB0]\<rparr>"

text \<open>\<^verbatim>\<open>mathProblems\<close>, grade 3, entry 1 (source line 790).\<close>

definition math3_quadratic :: Problem where
  "math3_quadratic =
    \<lparr>Title =
       [CHR 0xE4, CHR 0xBA, CHR 0x8C, CHR 0xE6, CHR 0xAC, CHR 0xA1, CHR 0xE6, CHR 0x96, CHR 0xB9,
       CHR 0xE7, CHR 0xA8, CHR 0x8B, CHR 0xE5, CHR 0xBC, CHR 0x8F],
     Description =
       [CHR 0xE4, CHR 0xBA, CHR 0x8C, CHR 0xE6, CHR 0xAC, CHR 0xA1, CHR 0xE6, CHR 0x96, CHR 0xB9,
       CHR 0xE7, CHR 0xA8, CHR 0x8B, CHR 0xE5, CHR 0xBC, CHR 0x8F] @ '' x'' @ [CHR 0xC2, CHR 0xB2]
       @ '' - 5x + 6 = 0 '' @ [CHR 0xE3, CHR 0x82, CHR 0x92, CHR 0xE8, CHR 0xA7, CHR 0xA3,
       CHR 0xE3, CHR 0x81, CHR 0x84, CHR 0xE3, CHR 0x81, CHR 0xA6, CHR 0xE3, CHR 0x81, CHR 0x8F,
       CHR 0xE3, CHR 0x81, CHR 0xA0, CHR 0xE3, CHR 0x81, CHR 0x95, CHR 0xE3, CHR 0x81, CHR 0x84,
       CHR 0xE3, CHR 0x80, CHR 0x82, CHR 0x0A, CHR 0xE8, CHR 0xA7, CHR 0xA3, CHR 0xE3, CHR 0x81,
       CHR 0xAE, CHR 0xE3, CHR 0x81, CHR 0x86, CHR 0xE3, CHR 0x81, CHR 0xA1, CHR 0xE5, CHR 0xB0,
       CHR 0x8F, CHR 0xE3, CHR 0x81, CHR 0x95, CHR 0xE3, CHR 0x81, CHR 0x84, CHR 0xE6, CHR 0x96,
       CHR 0xB9, CHR 0xE3, CHR 0x81, CHR 0xAF, CHR 0xEF, CHR 0xBC, CHR 0x9F],
     Options =
       [''1'',
        ''2'',
        ''3'',
        ''6''],
     CorrectAnswer = 1,
     Explanation =
       [CHR 0xE5, CHR 0x9B, CHR 0xA0, CHR 0xE6, CHR 0x95, CHR 0xB0, CHR 0xE5, CHR 0x88, CHR 0x86,
       CHR 0xE8, CHR 0xA7, CHR 0xA3, CHR 0xE3, CHR 0x81, CHR 0x99, CHR 0xE3, CHR 0x82, CHR 0x8B,
       CHR 0xE3, CHR 0x81, CHR 0xA8] @ '' (x-2)(x-3) = 0 '' @ [CHR 0xE3, CHR 0x81, CHR 0xAA,
       CHR 0xE3, CHR 0x81, CHR 0xAE, CHR 0xE3, CHR 0x81, CHR 0xA7, CHR 0xE3, CHR 0x80, CHR 0x81] @
       ''x = 2, 3 '' @ [CHR 0xE3, CHR 0x81, CHR 0xA7, CHR 0xE3, CHR 0x81, CHR 0x99, CHR 0xE3,
       CHR 0x80, CHR 0x82, CHR 0xE5, CHR 0xB0, CHR 0x8F, CHR 0xE3, CHR 0x81, CHR 0x95, CHR 0xE3,
       CHR 0x81, CHR 0x84, CHR 0xE6, CHR 0x96, CHR 0xB9, CHR 0xE3, CHR 0x81, CHR 0xAF] @ '' 2 '' @
       [CHR 0xE3, CHR 0x81, CHR 0xA7, CHR 0xE3, CHR 0x81, CHR 0x99, CHR 0xE3, CHR 0x80, CHR 0x82],
     Difficulty = 4,
     EstimatedTime = 400,
     Encouragement =
       [CHR 0xE4, CHR 0xBA, CHR 0x8C, CHR 0xE6, CHR 0xAC, CHR 0xA1, CHR 0xE6, CHR 0x96, CHR 0xB9,
       CHR 0xE7, CHR 0xA8, CHR 0x8B, CHR 0xE5, CHR 0xBC, CHR 0x8F, CHR 0xE3, CHR 0x81, CHR 0xAF,
       CHR 0xE5, CHR 0x9B, CHR 0xA0, CHR 0xE6, CHR 0x95, CHR 0xB0, CHR 0xE5, CHR 0x88, CHR 0x86,
       CHR 0xE8, CHR 0xA7, CHR 0xA3, CHR 0xE3, CHR 0x81, CHR 0xAE, CHR 0xE5, CHR 0x9F, CHR 0xBA,
       CHR 0xE6, CHR 0x9C, CHR 0xAC, CHR 0xE3, CHR 0x82, CHR 0x92, CHR 0xE3, CHR 0x83, CHR 0x9E,
       CHR 0xE3, CHR 0x82, CHR 0xB9, CHR 0xE3, CHR 0x82, CHR 0xBF, CHR 0xE3, CHR 0x83, CHR 0xBC,
       CHR 0xE3, CHR 0x81, CHR 0x99, CHR 0xE3, CHR 0x82, CHR 0x8C, CHR 0xE3, CHR 0x81, CHR 0xB0,
       CHR 0xE8, CHR 0xA7, CHR 0xA3, CHR 0xE3, CHR 0x81, CHR 0x91, CHR 0xE3, CHR 0x81, CHR 0xBE,
       CHR 0xE3, CHR 0x81, CHR 0x99, CHR 0xEF, CHR 0xBC, CHR 0x81],
     ProblemType =
       [CHR 0xE4, CHR 0xBA, CHR 0x8C, CHR 0xE6, CHR 0xAC, CHR 0xA1, CHR 0xE6, CHR 0x96, CHR 0xB9,
       CHR 0xE7, CHR 0xA8, CHR 0x8B, CHR 0xE5, CHR 0xBC, CHR 0x8F]\<rparr>"

text \<open>\<^verbatim>\<open>mathProblems\<close>, grade 3, entry 2 (source line 801).\<close>

definition math3_root :: Problem where
  "math3_root =
    \<lparr>Title =
       [CHR 0xE5, CHR 0xB9, CHR 0xB3, CHR 0xE6, CHR 0x96, CHR 0xB9, CHR 0xE6, CHR 0xA0, CHR 0xB9,
       CHR 0xE3, CHR 0x81, CHR 0xAE, CHR 0xE5, CHR 0xBA, CHR 0x94, CHR 0xE7, CHR 0x94, CHR 0xA8],
     Description =
       [CHR 0xE2, CHR 0x88, CHR 0x9A] @ ''50 '' @ [CHR 0xE3, CHR 0x82, CHR 0x92, CHR 0xE7,
       CHR 0xB0, CHR 0xA1, CHR 0xE5, CHR 0x8D, CHR 0x98, CHR 0xE3, CHR 0x81, CHR 0xAA, CHR 0xE5,
       CHR 0xBD, CHR 0xA2, CHR 0xE3, CHR 0x81, CHR 0xAB, CHR 0xE8, CHR 0xA1, CHR 0xA8, CHR 0xE3,
       CHR 0x81, CHR 0x99, CHR 0xE3, CHR 0x81, CHR 0xA8, CHR 0xEF, CHR 0xBC, CHR 0x9F],
     Options =
       [''5'' @ [CHR 0xE2, CHR 0x88, CHR 0x9A] @ ''2'',
        ''2'' @ [CHR 0xE2, CHR 0x88, CHR 0x9A] @ ''5'',
        ''25'',
        ''50''],
     CorrectAnswer = 0,
     Explanation =
       [CHR 0xE2, CHR 0x88, CHR 0x9A] @ ''50 = '' @ [CHR 0xE2, CHR 0x88, CHR 0x9A] @ ''(25 '' @
       [CHR 0xC3, CHR 0x97] @ '' 2) = 5'' @ [CHR 0xE2, CHR 0x88, CHR 0x9A] @ ''2 '' @ [CHR 0xE3,
       CHR 0x81, CHR 0xA7, CHR 0xE3, CHR 0x81, CHR 0x99, CHR 0xE3, CHR 0x80, CHR 0x82],
     Difficulty = 4,
     EstimatedTime = 350,
     Encouragement =
       [CHR 0xE5, CHR 0xB9, CHR 0xB3, CHR 0xE6, CHR 0x96, CHR 0xB9, CHR 0xE6, CHR 0xA0, CHR 0xB9,
       CHR 0xE3, CHR 0x81, CHR 0xAE, CHR 0xE7, CHR 0xB0, CHR 0xA1, CHR 0xE5, CHR 0x8D, CHR 0x98,
       CHR 0xE5, CHR 0x8C, CHR 0x96, CHR 0xE3, CHR 0x81, CHR 0xAF, CHR 0xE5, CHR 0x9B, CHR 0xA0,
       CHR 0xE6, CHR 0x95, CHR 0xB0, CHR 0xE5, CHR 0x88, CHR 0x86, CHR 0xE8, CHR 0xA7, CHR 0xA3,
       CHR 0xE3, CHR 0x81, CHR 0x8C, CHR 0xE9, CHR 0x8D, CHR 0xB5, CHR 0xE3, CHR 0x81, CHR 0xA7,
       CHR 0xE3, CHR 0x81, CHR 0x99, CHR 0xEF, CHR 0xBC, CHR 0x81],
     ProblemType =
       [CHR 0xE5, CHR 0xB9, CHR 0xB3, CHR 0xE6, CHR 0x96, CHR 0xB9, CHR 0xE6, CHR 0xA0, CHR 0xB9]\<rparr>"

text \<open>\<^verbatim>\<open>mathProblems\<close>, grade 3, entry 3 (source line 812).\<close>

definition math3_isosceles :: Problem where
  "math3_isosceles =
    \<lparr>Title =
       [CHR 0xE4, CHR 0xBA, CHR 0x8C, CHR 0xE7, CHR 0xAD, CHR 0x89, CHR 0xE8, CHR 0xBE, CHR 0xBA,
       CHR 0xE4, CHR 0xB8, CHR 0x89, CHR 0xE8, CHR 0xA7, CHR 0x92, CHR 0xE5, CHR 0xBD, CHR 0xA2,
       CHR 0xE3, CHR 0x81, CHR 0xAE, CHR 0xE8, CHR 0xA7, CHR 0x92, CHR 0xE5, CHR 0xBA, CHR 0xA6],
     Description =
       [CHR 0xE4, CHR 0xBA, CHR 0x8C, CHR 0xE7, CHR 0xAD, CHR 0x89, CHR 0xE8, CHR 0xBE, CHR 0xBA,
       CHR 0xE4, CHR 0xB8, CHR 0x89, CHR 0xE8, CHR 0xA7, CHR 0x92, CHR 0xE5, CHR 0xBD, CHR 0xA2] @
       ''ABC'' @ [CHR 0xE3, CHR 0x81, CHR 0xA7, CHR 0xE3, CHR 0x80, CHR 0x81, CHR 0xE8, CHR 0xA7,
       CHR 0x92] @ ''A = '' @ [CHR 0xE8, CHR 0xA7, CHR 0x92] @ ''C = 45'' @ [CHR 0xE5, CHR 0xBA,
       CHR 0xA6, CHR 0xE3, CHR 0x81, CHR 0xAE, CHR 0xE3, CHR 0x81, CHR 0xA8, CHR 0xE3, CHR 0x81,
       CHR 0x8D, CHR 0xE3, CHR 0x80, CHR 0x81, CHR 0xE8, CHR 0xA7, CHR 0x92] @ ''B'' @ [CHR 0xE3,
       CHR 0x81, CHR 0xAE, CHR 0xE5, CHR 0xA4, CHR 0xA7, CHR 0xE3, CHR 0x81, CHR 0x8D, CHR 0xE3,
       CHR 0x81, CHR 0x95, CHR 0xE3, CHR 0x81, CHR 0xAF, CHR 0xE4, CHR 0xBD, CHR 0x95, CHR 0xE5,
       CHR 0xBA, CHR 0xA6, CHR 0xE3, CHR 0x81, CHR 0xA7, CHR 0xE3, CHR 0x81, CHR 0x99, CHR 0xE3,
       CHR 0x81, CHR 0x8B, CHR 0xEF, CHR 0xBC, CHR 0x9F],
     Options =
       [''45'' @ [CHR 0xE5, CHR 0xBA, CHR 0xA6],
        ''60'' @ [CHR 0xE5, CHR 0xBA, CHR 0xA6],
        ''90'' @ [CHR 0xE5, CHR 0xBA, CHR 0xA6],
        ''120'' @ [CHR 0xE5, CHR 0xBA, CHR 0xA6]],
     CorrectAnswer = 2,
     Explanation =
       [CHR 0xE4, CHR 0xB8, CHR 0x89, CHR 0xE8, CHR 0xA7, CHR 0x92, CHR 0xE5, CHR 0xBD, CHR 0xA2,
       CHR 0xE3, CHR 0x81, CHR 0xAE, CHR 0xE5, CHR 0x86, CHR 0x85, CHR 0xE8, CHR 0xA7, CHR 0x92,
       CHR 0xE3, CHR 0x81, CHR 0xAE, CHR 0xE5, CHR 0x92, CHR 0x8C, CHR 0xE3, CHR 0x81, CHR 0xAF] @
       ''180'' @ [CHR 0xE5, CHR 0xBA, CHR 0xA6, CHR 0xE3, CHR 0x81, CHR 0xA7, CHR 0xE3, CHR 0x81,
       CHR 0x99, CHR 0xE3, CHR 0x80, CHR 0x82, CHR 0xE8, CHR 0xA7, CHR 0x92] @ ''A + '' @
       [CHR 0xE8, CHR 0xA7, CHR 0x92] @ ''B + '' @ [CHR 0xE8, CHR 0xA7, CHR 0x92] @ ''C = 180'' @
       [CHR 0xE5, CHR 0xBA, CHR 0xA6, CHR 0xE3, CHR 0x81, CHR 0xAA, CHR 0xE3, CHR 0x81, CHR 0xAE,
       CHR 0xE3, CHR 0x81, CHR 0xA7, CHR 0xE3, CHR 0x80, CHR 0x81] @ ''45'' @ [CHR 0xE5, CHR 0xBA,
       CHR 0xA6] @ '' + '' @ [CHR 0xE8, CHR 0xA7, CHR 0x92] @ ''B + 45'' @ [CHR 0xE5, CHR 0xBA,
       CHR 0xA6] @ '' = 180'' @ [CHR 0xE5, CHR 0xBA, CHR 0xA6, CHR 0xE3, CHR 0x80, CHR 0x81,
       CHR 0xE3, CHR 0x82, CHR 0x88, CHR 0xE3, CHR 0x81, CHR 0xA3, CHR 0xE3, CHR 0x81, CHR 0xA6,
       CHR 0xE8, CHR 0xA7, CHR 0x92] @ ''B = 180'' @ [CHR 0xE5, CHR 0xBA, CHR 0xA6] @ '' - 90'' @
       [CHR 0xE5, CHR 0xBA, CHR 0xA6] @ '' = 90'' @ [CHR 0xE5, CHR 0xBA, CHR 0xA6, CHR 0xE3,
       CHR 0x81, CHR 0xA7, CHR 0xE3, CHR 0x81, CHR 0x99, CHR 0xE3, CHR 0x80, CHR 0x82],
     Difficulty = 3,
     EstimatedTime = 250,
     Encouragement =
       [CHR 0xE4, CHR 0xBA, CHR 0x8C, CHR 0xE7, CHR 0xAD, CHR 0x89, CHR 0xE8, CHR 0xBE, CHR 0xBA,
       CHR 0xE4, CHR 0xB8, CHR 0x89, CHR 0xE8, CHR 0xA7, CHR 0x92, CHR 0xE5, CHR 0xBD, CHR 0xA2,
       CHR 0xE3, CHR 0x81, CHR 0xAE, CHR 0xE6, CHR 0x80, CHR 0xA7, CHR 0xE8, CHR 0xB3, CHR 0xAA,
       CHR 0xE3, CHR 0x81, CHR 0xA8, CHR 0xE4, CHR 0xB8, CHR 0x89, CHR 0xE8, CHR 0xA7, CHR 0x92,
       CHR 0xE5, CHR 0xBD, CHR 0xA2, CHR 0xE3, CHR 0x81, CHR 0xAE, CHR 0xE5, CHR 0x86, CHR 0x85,
       CHR 0xE8, CHR 0xA7, CHR 0x92, CHR 0xE3, CHR 0x81, CHR 0xAE, CHR 0xE5, CHR 0x92, CHR 0x8C,
       CHR 0xE3, CHR 0x82, CHR 0x92, CHR 0xE7, CHR 0x90, CHR 0x86, CHR 0xE8, CHR 0xA7, CHR 0xA3,
       CHR 0xE3, CHR 0x81, CHR 0x99, CHR 0xE3, CHR 0x82, CHR 0x8C, CHR 0xE3, CHR 0x81, CHR 0xB0,
       CHR 0xE8, CHR 0xA7, CHR 0xA3, CHR 0xE3, CHR 0x81, CHR 0x91, CHR 0xE3, CHR 0x81, CHR 0xBE,
       CHR 0xE3, CHR 0x81, CHR 0x99, CHR 0xEF, CHR 0xBC, CHR 0x81],
     ProblemType =
       [CHR 0xE5, CHR 0x9B, CHR 0xB3, CHR 0xE5, CHR 0xBD, CHR 0xA2]\<rparr>"

text \<open>The default problem of \<^verbatim>\<open>getMathProblem\<close> (source line 836).\<close>

definition math_default :: Problem where
  "math_default =
    \<lparr>Title =
       [CHR 0xE5, CHR 0x9F, CHR 0xBA, CHR 0xE6, CHR 0x9C, CHR 0xAC, CHR 0xE8, CHR 0xA8, CHR 0x88,
       CHR 0xE7, CHR 0xAE, CHR 0x97],
     Description =
       ''7 + 8 = ?'',
     Options =
       [''14'',
        ''15'',
        ''16'',
        ''17''],
     CorrectAnswer = 1,
     Explanation =
       ''7 + 8 = 15 '' @ [CHR 0xE3, CHR 0x81, CHR 0xA7, CHR 0xE3, CHR 0x81, CHR 0x99, CHR 0xE3,
       CHR 0x80, CHR 0x82],
     Difficulty = 1,
     EstimatedTime = 120,
     Encouragement =
       [CHR 0xE8, CHR 0xA8, CHR 0x88, CHR 0xE7, CHR 0xAE, CHR 0x97, CHR 0xE3, CHR 0x81, CHR 0xAE,
       CHR 0xE5, CHR 0x9F, CHR 0xBA, CHR 0xE6, CHR 0x9C, CHR 0xAC, CHR 0xE3, CHR 0x81, CHR 0x8B,
       CHR 0xE3, CHR 0x82, CHR 0x89, CHR 0xE5, CHR 0xA7, CHR 0x8B, CHR 0xE3, CHR 0x82, CHR 0x81,
       CHR 0xE3, CHR 0x81, CHR 0xBE, CHR 0xE3, CHR 0x81, CHR 0x97, CHR 0xE3, CHR 0x82, CHR 0x87,
       CHR 0xE3, CHR 0x81, CHR 0x86, CHR 0xEF, CHR 0xBC, CHR 0x81],
     ProblemType =
       [CHR 0xE5, CHR 0x9F, CHR 0xBA, CHR 0xE6, CHR 0x9C, CHR 0xAC, CHR 0xE8, CHR 0xA8, CHR 0x88,
       CHR 0xE7, CHR 0xAE, CHR 0x97]\<rparr>"

text \<open>\<^verbatim>\<open>englishProblems\<close>, entry 1 (source line 852).\<close>

definition english_book :: Problem where
  "english_book =
    \<lparr>Title =
       [CHR 0xE5, CHR 0x9F, CHR 0xBA, CHR 0xE6, CHR 0x9C, CHR 0xAC, CHR 0xE8, CHR 0x8B, CHR 0xB1,
       CHR 0xE5, CHR 0x8D, CHR 0x98, CHR 0xE8, CHR 0xAA, CHR 0x9E],
     Description =
       [CHR 0xE6, CHR 0xAC, CHR 0xA1, CHR 0xE3, CHR 0x81, CHR 0xAE, CHR 0xE8, CHR 0x8B, CHR 0xB1,
       CHR 0xE5, CHR 0x8D, CHR 0x98, CHR 0xE8, CHR 0xAA, CHR 0x9E, CHR 0xE3, CHR 0x81, CHR 0xAE,
       CHR 0xE6, CHR 0x84, CHR 0x8F, CHR 0xE5, CHR 0x91, CHR 0xB3, CHR 0xE3, CHR 0x81, CHR 0xA8,
       CHR 0xE3, CHR 0x81, CHR 0x97, CHR 0xE3, CHR 0x81, CHR 0xA6, CHR 0xE6, CHR 0xAD, CHR 0xA3,
       CHR 0xE3, CHR 0x81, CHR 0x97, CHR 0xE3, CHR 0x81, CHR 0x84, CHR 0xE3, CHR 0x82, CHR 0x82,
       CHR 0xE3, CHR 0x81, CHR 0xAE, CHR 0xE3, CHR 0x82, CHR 0x92, CHR 0xE9, CHR 0x81, CHR 0xB8,
       CHR 0xE3, CHR 0x82, CHR 0x93, CHR 0xE3, CHR 0x81, CHR 0xA7, CHR 0xE3, CHR 0x81, CHR 0x8F,
       CHR 0xE3, CHR 0x81, CHR 0xA0, CHR 0xE3, CHR 0x81, CHR 0x95, CHR 0xE3, CHR 0x81, CHR 0x84,
       CHR 0xE3, CHR 0x80, CHR 0x82, CHR 0x0A, CHR 0xE3, CHR 0x80, CHR 0x8C] @ ''book'' @
       [CHR 0xE3, CHR 0x80, CHR 0x8D, CHR 0xE3, CHR 0x81, CHR 0xAE, CHR 0xE6, CHR 0x84, CHR 0x8F,
       CHR 0xE5, CHR 0x91, CHR 0xB3, CHR 0xE3, CHR 0x81, CHR 0xAF, CHR 0xEF, CHR 0xBC, CHR 0x9F],
     Options =
       [[CHR 0xE6, CHR 0x9C, CHR 0xAC],
        [CHR 0xE3, CHR 0x83, CHR 0x9A, CHR 0xE3, CHR 0x83, CHR 0xB3],
        [CHR 0xE6, CHR 0x9C, CHR 0xBA],
        [CHR 0xE6, CHR 0xA4, CHR 0x85, CHR 0xE5, CHR 0xAD, CHR 0x90]],
     CorrectAnswer = 0,
     Explanation =
       [CHR 0xE3, CHR 0x80, CHR 0x8C] @ ''book'' @ [CHR 0xE3, CHR 0x80, CHR 0x8D, CHR 0xE3,
       CHR 0x81, CHR 0xAF, CHR 0xE3, CHR 0x80, CHR 0x8C, CHR 0xE6, CHR 0x9C, CHR 0xAC, CHR 0xE3,
       CHR 0x80, CHR 0x8D, CHR 0xE3, CHR 0x81, CHR 0xA8, CHR 0xE3, CHR 0x81, CHR 0x84, CHR 0xE3,
       CHR 0x81, CHR 0x86, CHR 0xE6, CHR 0x84, CHR 0x8F, CHR 0xE5, CHR 0x91, CHR 0xB3, CHR 0xE3,
       CHR 0x81, CHR 0xA7, CHR 0xE3, CHR 0x81, CHR 0x99, CHR 0xE3, CHR 0x80, CHR 0x82, CHR 0xE5,
       CHR 0x9F, CHR 0xBA, CHR 0xE6, CHR 0x9C, CHR 0xAC, CHR 0xE7, CHR 0x9A, CHR 0x84, CHR 0xE3,
       CHR 0x81, CHR 0xAA, CHR 0xE8, CHR 0x8B, CHR 0xB1, CHR 0xE5, CHR 0x8D, CHR 0x98, CHR 0xE8,
       CHR 0xAA, CHR 0x9E, CHR 0xE3, CHR 0x81, CHR 0xA7, CHR 0xE3, CHR 0x81, CHR 0x99, CHR 0xE3,
       CHR 0x81, CHR 0xAD, CHR 0xE3, CHR 0x80, CHR 0x82],
     Difficulty = 2,
     EstimatedTime = 150,
     Encouragement =
       [CHR 0xE8, CHR 0x8B, CHR 0xB1, CHR 0xE5, CHR 0x8D, CHR 0x98, CHR 0xE8, CHR 0xAA, CHR 0x9E,
       CHR 0xE3, CHR 0x82, CHR 0x92, CHR 0xE8, CHR 0xA6, CHR 0x9A, CHR 0xE3, CHR 0x81, CHR 0x88,
       CHR 0xE3, CHR 0x82, CHR 0x8B, CHR 0xE3, CHR 0x81, CHR 0x93, CHR 0xE3, CHR 0x81, CHR 0xA8,
       CHR 0xE3, CHR 0x81, CHR 0xA7, CHR 0xE8, CHR 0x8B, CHR 0xB1, CHR 0xE8, CHR 0xAA, CHR 0x9E,
       CHR 0xE3, CHR 0x81, CHR 0xAE, CHR 0xE7, CHR 0x90, CHR 0x86, CHR 0xE8, CHR 0xA7, CHR 0xA3,
       CHR 0xE3, CHR 0x81, CHR 0x8C, CHR 0xE6, CHR 0xB7, CHR 0xB1, CHR 0xE3, CHR 0x81, CHR 0xBE,
       CHR 0xE3, CHR 0x82, CHR 0x8A, CHR 0xE3, CHR 0x81, CHR 0xBE, CHR 0xE3, CHR 0x81, CHR 0x99,
       CHR 0xEF, CHR 0xBC, CHR 0x81],
     ProblemType =
       [CHR 0xE8, CHR 0xAA, CHR 0x9E, CHR 0xE5, CHR 0xBD, CHR 0x99]\<rparr>"

text \<open>\<^verbatim>\<open>englishProblems\<close>, entry 2 (source line 863).\<close>

definition english_play :: Problem where
  "english_play =
    \<lparr>Title =
       [CHR 0xE5, CHR 0x8B, CHR 0x95, CHR 0xE8, CHR 0xA9, CHR 0x9E, CHR 0xE3, CHR 0x81, CHR 0xAE,
       CHR 0xE6, CHR 0x84, CHR 0x8F, CHR 0xE5, CHR 0x91, CHR 0xB3],
     Description =
       [CHR 0xE3, CHR 0x80, CHR 0x8C] @ ''play'' @ [CHR 0xE3, CHR 0x80, CHR 0x8D, CHR 0xE3,
       CHR 0x81, CHR 0xAE, CHR 0xE6, CHR 0x84, CHR 0x8F, CHR 0xE5, CHR 0x91, CHR 0xB3, CHR 0xE3,
       CHR 0x81, CHR 0xA8, CHR 0xE3, CHR 0x81, CHR 0x97, CHR 0xE3, CHR 0x81, CHR 0xA6, CHR 0xE6,
       CHR 0xAD, CHR 0xA3, CHR 0xE3, CHR 0x81, CHR 0x97, CHR 0xE3, CHR 0x81, CHR 0x84, CHR 0xE3,
       CHR 0x82, CHR 0x82, CHR 0xE3, CHR 0x81, CHR 0xAE, CHR 0xE3, CHR 0x81, CHR 0xAF, CHR 0xEF,
       CHR 0xBC, CHR 0x9F],
     Options =
       [[CHR 0xE9, CHR 0x81, CHR 0x8A, CHR 0xE3, CHR 0x81, CHR 0xB6],
        [CHR 0xE9, CHR 0xA3, CHR 0x9F, CHR 0xE3, CHR 0x81, CHR 0xB9, CHR 0xE3, CHR 0x82, CHR 0x8B],
        [CHR 0xE6, CHR 0xAD, CHR 0xA9, CHR 0xE3, CHR 0x81, CHR 0x8F],
        [CHR 0xE5, CHR 0xAF, CHR 0x9D, CHR 0xE3, CHR 0x82, CHR 0x8B]],
     CorrectAnswer = 0,
     Explanation =
       [CHR 0xE3, CHR 0x80, CHR 0x8C] @ ''play'' @ [CHR 0xE3, CHR 0x80, CHR 0x8D, CHR 0xE3,
       CHR 0x81, CHR 0xAF, CHR 0xE3, CHR 0x80, CHR 0x8C, CHR 0xE9, CHR 0x81, CHR 0x8A, CHR 0xE3,
       CHR 0x81, CHR 0xB6, CHR 0xE3, CHR 0x80, CHR 0x8D, CHR 0xE3, CHR 0x81, CHR 0xA8, CHR 0xE3,
       CHR 0x81, CHR 0x84, CHR 0xE3, CHR 0x81, CHR 0x86, CHR 0xE6, CHR 0x84, CHR 0x8F, CHR 0xE5,
       CHR 0x91, CHR 0xB3, CHR 0xE3, CHR 0x81, CHR 0xA7, CHR 0xE3, CHR 0x81, CHR 0x99, CHR 0xE3,
       CHR 0x80, CHR 0x82],
     Difficulty = 2,
     EstimatedTime = 140,
     Encouragement =
       [CHR 0xE5, CHR 0x8B, CHR 0x95, CHR 0xE8, CHR 0xA9, CHR 0x9E, CHR 0xE3, CHR 0x82, CHR 0x92,
       CHR 0xE7, CHR 0x90, CHR 0x86, CHR 0xE8, CHR 0xA7, CHR 0xA3, CHR 0xE3, CHR 0x81, CHR 0x99,
       CHR 0xE3, CHR 0x82, CHR 0x8B, CHR 0xE3, CHR 0x81, CHR 0x93, CHR 0xE3, CHR 0x81, CHR 0xA8,
       CHR 0xE3, CHR 0x81, CHR 0x8C, CHR 0xE8, CHR 0x8B, CHR 0xB1, CHR 0xE8, CHR 0xAA, CHR 0x9E,
       CHR 0xE4, CHR 0xB8, CHR 0x8A, CHR 0xE9, CHR 0x81, CHR 0x94, CHR 0xE3, CHR 0x81, CHR 0xAE,
       CHR 0xE9, CHR 0x8D, CHR 0xB5, CHR 0xE3, CHR 0x81, CHR 0xA7, CHR 0xE3, CHR 0x81, CHR 0x99,
       CHR 0xEF, CHR 0xBC, CHR 0x81],
     ProblemType =
       [CHR 0xE5, CHR 0x8B, CHR 0x95, CHR 0xE8, CHR 0xA9, CHR 0x9E]\<rparr>"

text \<open>\<^verbatim>\<open>englishProblems\<close>, entry 3 (source line 874).\<close>

definition english_big :: Problem where
  "english_big =
    \<lparr>Title =
       [CHR 0xE5, CHR 0xBD, CHR 0xA2, CHR 0xE5, CHR 0xAE, CHR 0xB9, CHR 0xE8, CHR 0xA9, CHR 0x9E,
       CHR 0xE3, CHR 0x81, CHR 0xAE, CHR 0xE5, CHR 0x88, CHR 0xA9, CHR 0xE7, CHR 0x94, CHR 0xA8],
     Description =
       [CHR 0xE3, CHR 0x80, CHR 0x8C] @ ''big'' @ [CHR 0xE3, CHR 0x80, CHR 0x8D, CHR 0xE3,
       CHR 0x81, CHR 0xAE, CHR 0xE5, CHR 0x8F, CHR 0x8D, CHR 0xE5, CHR 0xAF, CHR 0xBE, CHR 0xE3,
       CHR 0x81, CHR 0xAE, CHR 0xE6, CHR 0x84, CHR 0x8F, CHR 0xE5, CHR 0x91, CHR 0xB3, CHR 0xE3,
       CHR 0x81, CHR 0xAE, CHR 0xE5, CHR 0x8D, CHR 0x98, CHR 0xE8, CHR 0xAA, CHR 0x9E, CHR 0xE3,
       CHR 0x81, CHR 0xAF, CHR 0xEF, CHR 0xBC, CHR 0x9F],
     Options =
       [''small'',
        ''fast'',
        ''good'',
        ''new''],
     CorrectAnswer = 0,
     Explanation =
       [CHR 0xE3, CHR 0x80, CHR 0x8C] @ ''big'' @ [CHR 0xE3, CHR 0x80, CHR 0x8D, CHR 0xE3,
       CHR 0x81, CHR 0xAE, CHR 0xE5, CHR 0x8F, CHR 0x8D, CHR 0xE5, CHR 0xAF, CHR 0xBE, CHR 0xE3,
       CHR 0x81, CHR 0xAF, CHR 0xE3, CHR 0x80, CHR 0x8C] @ ''small'' @ [CHR 0xE3, CHR 0x80,
       CHR 0x8D, CHR 0xE3, CHR 0x81, CHR 0xA7, CHR 0xE3, CHR 0x81, CHR 0x99, CHR 0xE3, CHR 0x80,
       CHR 0x82],
     Difficulty = 2,
     EstimatedTime = 130,
     Encouragement =
       [CHR 0xE5, CHR 0x8F, CHR 0x8D, CHR 0xE5, CHR 0xAF, CHR 0xBE, CHR 0xE8, CHR 0xAA, CHR 0x9E,
       CHR 0xE3, CHR 0x82, CHR 0x92, CHR 0xE8, CHR 0xA6, CHR 0x9A, CHR 0xE3, CHR 0x81, CHR 0x88,
       CHR 0xE3, CHR 0x82, CHR 0x8B, CHR 0xE3, CHR 0x81, CHR 0xA8, CHR 0xE8, CHR 0xAA, CHR 0x9E,
       CHR 0xE5, CHR 0xBD, CHR 0x99, CHR 0xE3, CHR 0x81, CHR 0x8C, CHR 0xE5, CHR 0xA2, CHR 0x97,
       CHR 0xE3, CHR 0x81, CHR 0x88, CHR 0xE3, CHR 0x81, CHR 0xBE, CHR 0xE3, CHR 0x81, CHR 0x99,
       CHR 0xEF, CHR 0xBC, CHR 0x81],
     ProblemType =
       [CHR 0xE5, CHR 0xBD, CHR 0xA2, CHR 0xE5, CHR 0xAE, CHR 0xB9, CHR 0xE8, CHR 0xA9, CHR 0x9E]\<rparr>"

text \<open>The problem of \<^verbatim>\<open>getJapaneseProblem\<close> (source line 897).\<close>

definition japanese_problem :: Problem where
  "japanese_problem =
    \<lparr>Title =
       [CHR 0xE6, CHR 0xBC, CHR 0xA2, CHR 0xE5, CHR 0xAD, CHR 0x97, CHR 0xE3, CHR 0x81, CHR 0xAE,
       CHR 0xE8, CHR 0xAA, CHR 0xAD, CHR 0xE3, CHR 0x81, CHR 0xBF],
     Description =
       [CHR 0xE6, CHR 0xAC, CHR 0xA1, CHR 0xE3, CHR 0x81, CHR 0xAE, CHR 0xE6, CHR 0xBC, CHR 0xA2,
       CHR 0xE5, CHR 0xAD, CHR 0x97, CHR 0xE3, CHR 0x81, CHR 0xAE, CHR 0xE8, CHR 0xAA, CHR 0xAD,
       CHR 0xE3, CHR 0x81, CHR 0xBF, CHR 0xE6, CHR 0x96, CHR 0xB9, CHR 0xE3, CHR 0x81, CHR 0xA8,
       CHR 0xE3, CHR 0x81, CHR 0x97, CHR 0xE3, CHR 0x81, CHR 0xA6, CHR 0xE6, CHR 0xAD, CHR 0xA3,
       CHR 0xE3, CHR 0x81, CHR 0x97, CHR 0xE3, CHR 0x81, CHR 0x84, CHR 0xE3, CHR 0x82, CHR 0x82,
       CHR 0xE3, CHR 0x81, CHR 0xAE, CHR 0xE3, CHR 0x82, CHR 0x92, CHR 0xE9, CHR 0x81, CHR 0xB8,
       CHR 0xE3, CHR 0x82, CHR 0x93, CHR 0xE3, CHR 0x81, CHR 0xA7, CHR 0xE3, CHR 0x81, CHR 0x8F,
       CHR 0xE3, CHR 0x81, CHR 0xA0, CHR 0xE3, CHR 0x81, CHR 0x95, CHR 0xE3, CHR 0x81, CHR 0x84,
       CHR 0xE3, CHR 0x80, CHR 0x82, CHR 0x0A, CHR 0xE3, CHR 0x80, CHR 0x8C, CHR 0xE5, CHR 0xAD,
       CHR 0xA6, CHR 0xE7, CHR 0xBF, CHR 0x92, CHR 0xE3, CHR 0x80, CHR 0x8D, CHR 0xE3, CHR 0x81,
       CHR 0xAE, CHR 0xE8, CHR 0xAA, CHR 0xAD, CHR 0xE3, CHR 0x81, CHR 0xBF, CHR 0xE6, CHR 0x96,
       CHR 0xB9, CHR 0xE3, CHR 0x81, CHR 0xAF, CHR 0xEF, CHR 0xBC, CHR 0x9F],
     Options =
       [[CHR 0xE3, CHR 0x81, CHR 0x8C, CHR 0xE3, CHR 0x81, CHR 0x8F, CHR 0xE3, CHR 0x81, CHR 0x97,
         CHR 0xE3, CHR 0x82, CHR 0x85, CHR 0xE3, CHR 0x81, CHR 0x86],
        [CHR 0xE3, CHR 0x81, CHR 0x8C, CHR 0xE3, CHR 0x81, CHR 0x8F, CHR 0xE3, CHR 0x81, CHR 0x97,
         CHR 0xE3, CHR 0x82, CHR 0x85],
        [CHR 0xE3, CHR 0x81, CHR 0x8C, CHR 0xE3, CHR 0x81, CHR 0x8F, CHR 0xE3, CHR 0x81, CHR 0x97,
         CHR 0xE3, CHR 0x82, CHR 0x86, CHR 0xE3, CHR 0x81, CHR 0x86],
        [CHR 0xE3, CHR 0x81, CHR 0x8C, CHR 0xE3, CHR 0x81, CHR 0x8F, CHR 0xE3, CHR 0x81, CHR 0x97]],
     CorrectAnswer = 0,
     Explanation =
       [CHR 0xE3, CHR 0x80, CHR 0x8C, CHR 0xE5, CHR 0xAD, CHR 0xA6, CHR 0xE7, CHR 0xBF, CHR 0x92,
       CHR 0xE3, CHR 0x80, CHR 0x8D, CHR 0xE3, CHR 0x81, CHR 0xAF, CHR 0xE3, CHR 0x80, CHR 0x8C,
       CHR 0xE3, CHR 0x81, CHR 0x8C, CHR 0xE3, CHR 0x81, CHR 0x8F, CHR 0xE3, CHR 0x81, CHR 0x97,
       CHR 0xE3, CHR 0x82, CHR 0x85, CHR 0xE3, CHR 0x81, CHR 0x86, CHR 0xE3, CHR 0x80, CHR 0x8D,
       CHR 0xE3, CHR 0x81, CHR 0xA8, CHR 0xE8, CHR 0xAA, CHR 0xAD, CHR 0xE3, CHR 0x81, CHR 0xBF,
       CHR 0xE3, CHR 0x81, CHR 0xBE, CHR 0xE3, CHR 0x81, CHR 0x99, CHR 0xE3, CHR 0x80, CHR 0x82,
       CHR 0xE6, CHR 0x97, CHR 0xA5, CHR 0xE3, CHR 0x80, CHR 0x85, CHR 0xE3, CHR 0x81, CHR 0xAE,
       CHR 0xE5, CHR 0xAD, CHR 0xA6, CHR 0xE7, CHR 0xBF, CHR 0x92, CHR 0xE3, CHR 0x81, CHR 0xA7,
       CHR 0xE8, CHR 0xBA, CHR 0xAB, CHR 0xE3, CHR 0x81, CHR 0xAB, CHR 0xE3, CHR 0x81, CHR 0xA4,
       CHR 0xE3, CHR 0x81, CHR 0x91, CHR 0xE3, CHR 0x81, CHR 0xBE, CHR 0xE3, CHR 0x81, CHR 0x97,
       CHR 0xE3, CHR 0x82, CHR 0x87, CHR 0xE3, CHR 0x81, CHR 0x86, CHR 0xE3, CHR 0x80, CHR 0x82],
     Difficulty = 2,
     EstimatedTime = 150,
     Encouragement =
       [CHR 0xE6, CHR 0xBC, CHR 0xA2, CHR 0xE5, CHR 0xAD, CHR 0x97, CHR 0xE3, CHR 0x81, CHR 0xAE,
       CHR 0xE8, CHR 0xAA, CHR 0xAD, CHR 0xE3, CHR 0x81, CHR 0xBF, CHR 0xE6, CHR 0x96, CHR 0xB9,
       CHR 0xE3, CHR 0x81, CHR 0xAF, CHR 0xE7, CHR 0xB7, CHR 0xB4, CHR 0xE7, CHR 0xBF, CHR 0x92,
       CHR 0xE3, CHR 0x81, CHR 0x99, CHR 0xE3, CHR 0x82, CHR 0x8C, CHR 0xE3, CHR 0x81, CHR 0xB0,
       CHR 0xE5, CHR 0xBF, CHR 0x85, CHR 0xE3, CHR 0x81, CHR 0x9A, CHR 0xE8, CHR 0xA6, CHR 0x9A,
       CHR 0xE3, CHR 0x81, CHR 0x88, CHR 0xE3, CHR 0x82, CHR 0x89, CHR 0xE3, CHR 0x82, CHR 0x8C,
       CHR 0xE3, CHR 0x81, CHR 0xBE, CHR 0xE3, CHR 0x81, CHR 0x99, CHR 0xEF, CHR 0xBC, CHR 0x81],
     ProblemType =
       [CHR 0xE6, CHR 0xBC, CHR 0xA2, CHR 0xE5, CHR 0xAD, CHR 0x97]\<rparr>"

text \<open>The problem of \<^verbatim>\<open>getScienceProblem\<close> (source line 912).\<close>

definition science_problem :: Problem where
  "science_problem =
    \<lparr>Title =
       [CHR 0xE6, CHR 0xA4, CHR 0x8D, CHR 0xE7, CHR 0x89, CHR 0xA9, CHR 0xE3, CHR 0x81, CHR 0xAE,
       CHR 0xE5, CHR 0x9F, CHR 0xBA, CHR 0xE6, CHR 0x9C, CHR 0xAC],
     Description =
       [CHR 0xE6, CHR 0xA4, CHR 0x8D, CHR 0xE7, CHR 0x89, CHR 0xA9, CHR 0xE3, CHR 0x81, CHR 0x8C,
       CHR 0xE5, CHR 0x85, CHR 0x89, CHR 0xE5, CHR 0x90, CHR 0x88, CHR 0xE6, CHR 0x88, CHR 0x90,
       CHR 0xE3, CHR 0x82, CHR 0x92, CHR 0xE8, CHR 0xA1, CHR 0x8C, CHR 0xE3, CHR 0x81, CHR 0x86,
       CHR 0xE3, CHR 0x81, CHR 0x9F, CHR 0xE3, CHR 0x82, CHR 0x81, CHR 0xE3, CHR 0x81, CHR 0xAB,
       CHR 0xE5, CHR 0xBF, CHR 0x85, CHR 0xE8, CHR 0xA6, CHR 0x81, CHR 0xE3, CHR 0x81, CHR 0xAA,
       CHR 0xE3, CHR 0x82, CHR 0x82, CHR 0xE3, CHR 0x81, CHR 0xAE, CHR 0xE3, CHR 0x81, CHR 0xA8,
       CHR 0xE3, CHR 0x81, CHR 0x97, CHR 0xE3, CHR 0x81, CHR 0xA6, CHR 0xE6, CHR 0xAD, CHR 0xA3,
       CHR 0xE3, CHR 0x81, CHR 0x97, CHR 0xE3, CHR 0x81, CHR 0x8F, CHR 0xE3, CHR 0x81, CHR 0xAA,
       CHR 0xE3, CHR 0x81, CHR 0x84, CHR 0xE3, CHR 0x82, CHR 0x82, CHR 0xE3, CHR 0x81, CHR 0xAE,
       CHR 0xE3, CHR 0x81, CHR 0xAF, CHR 0xE3, CHR 0x81, CHR 0xA9, CHR 0xE3, CHR 0x82, CHR 0x8C,
       CHR 0xE3, CHR 0x81, CHR 0xA7, CHR 0xE3, CHR 0x81, CHR 0x99, CHR 0xE3, CHR 0x81, CHR 0x8B,
       CHR 0xEF, CHR 0xBC, CHR 0x9F],
     Options =
       [[CHR 0xE4, CHR 0xBA, CHR 0x8C, CHR 0xE9, CHR 0x85, CHR 0xB8, CHR 0xE5, CHR 0x8C, CHR 0x96,
         CHR 0xE7, CHR 0x82, CHR 0xAD, CHR 0xE7, CHR 0xB4, CHR 0xA0],
        [CHR 0xE6, CHR 0xB0, CHR 0xB4],
        [CHR 0xE5, CHR 0x85, CHR 0x89],
        [CHR 0xE9, CHR 0x85, CHR 0xB8, CHR 0xE7, CHR 0xB4, CHR 0xA0]],
     CorrectAnswer = 3,
     Explanation =
       [CHR 0xE5, CHR 0x85, CHR 0x89, CHR 0xE5, CHR 0x90, CHR 0x88, CHR 0xE6, CHR 0x88, CHR 0x90,
       CHR 0xE3, CHR 0x81, CHR 0xAB, CHR 0xE3, CHR 0x81, CHR 0xAF, CHR 0xE4, CHR 0xBA, CHR 0x8C,
       CHR 0xE9, CHR 0x85, CHR 0xB8, CHR 0xE5, CHR 0x8C, CHR 0x96, CHR 0xE7, CHR 0x82, CHR 0xAD,
       CHR 0xE7, CHR 0xB4, CHR 0xA0, CHR 0xE3, CHR 0x80, CHR 0x81, CHR 0xE6, CHR 0xB0, CHR 0xB4,
       CHR 0xE3, CHR 0x80, CHR 0x81, CHR 0xE5, CHR 0x85, CHR 0x89, CHR 0xE3, CHR 0x81, CHR 0x8C,
       CHR 0xE5, CHR 0xBF, CHR 0x85, CHR 0xE8, CHR 0xA6, CHR 0x81, CHR 0xE3, CHR 0x81, CHR 0xA7,
       CHR 0xE3, CHR 0x81, CHR 0x99, CHR 0xE3, CHR 0x80, CHR 0x82, CHR 0xE9, CHR 0x85, CHR 0xB8,
       CHR 0xE7, CHR 0xB4, CHR 0xA0, CHR 0xE3, CHR 0x81, CHR 0xAF, CHR 0xE5, CHR 0x85, CHR 0x89,
       CHR 0xE5, CHR 0x90, CHR 0x88, CHR 0xE6, CHR 0x88, CHR 0x90, CHR 0xE3, CHR 0x81, CHR 0xAE,
       CHR 0xE7, CHR 0x94, CHR 0xA3, CHR 0xE7, CHR 0x89, CHR 0xA9, CHR 0xE3, CHR 0x81, CHR 0xA7,
       CHR 0xE3, CHR 0x81, CHR 0x99, CHR 0xE3, CHR 0x80, CHR 0x82],
     Difficulty = 3,
     EstimatedTime = 200,
     Encouragement =
       [CHR 0xE7, CHR 0x94, CHR 0x9F, CHR 0xE7, CHR 0x89, CHR 0xA9, CHR 0xE3, CHR 0x81, CHR 0xAE,
       CHR 0xE4, CHR 0xBB, CHR 0x95, CHR 0xE7, CHR 0xB5, CHR 0x84, CHR 0xE3, CHR 0x81, CHR 0xBF,
       CHR 0xE3, CHR 0x82, CHR 0x92, CHR 0xE7, CHR 0x90, CHR 0x86, CHR 0xE8, CHR 0xA7, CHR 0xA3,
       CHR 0xE3, CHR 0x81, CHR 0x99, CHR 0xE3, CHR 0x82, CHR 0x8B, CHR 0xE3, CHR 0x81, CHR 0x93,
       CHR 0xE3, CHR 0x81, CHR 0xA8, CHR 0xE3, CHR 0x81, CHR 0xA7, CHR 0xE8, CHR 0x87, CHR 0xAA,
       CHR 0xE7, CHR 0x84, CHR 0xB6, CHR 0xE3, CHR 0x81, CHR 0xB8, CHR 0xE3, CHR 0x81, CHR 0xAE,
       CHR 0xE7, CHR 0x90, CHR 0x86, CHR 0xE8, CHR 0xA7, CHR 0xA3, CHR 0xE3, CHR 0x81, CHR 0x8C,
       CHR 0xE6, CHR 0xB7, CHR 0xB1, CHR 0xE3, CHR 0x81, CHR 0xBE, CHR 0xE3, CHR 0x82, CHR 0x8A,
       CHR 0xE3, CHR 0x81, CHR 0xBE, CHR 0xE3, CHR 0x81, CHR 0x99, CHR 0xEF, CHR 0xBC, CHR 0x81],
     ProblemType =
       [CHR 0xE7, CHR 0x94, CHR 0x9F, CHR 0xE7, CHR 0x89, CHR 0xA9]\<rparr>"

text \<open>The problem of \<^verbatim>\<open>getSocialStudiesProblem\<close> (source line 927).\<close>

definition social_problem :: Problem where
  "social_problem =
    \<lparr>Title =
       [CHR 0xE6, CHR 0x97, CHR 0xA5, CHR 0xE6, CHR 0x9C, CHR 0xAC, CHR 0xE3, CHR 0x81, CHR 0xAE,
       CHR 0xE5, CHR 0x9C, CHR 0xB0, CHR 0xE7, CHR 0x90, CHR 0x86],
     Description =
       [CHR 0xE6, CHR 0x97, CHR 0xA5, CHR 0xE6, CHR 0x9C, CHR 0xAC, CHR 0xE3, CHR 0x81, CHR 0xAE,
       CHR 0xE9, CHR 0xA6, CHR 0x96, CHR 0xE9, CHR 0x83, CHR 0xBD, CHR 0xE3, CHR 0x81, CHR 0xAF,
       CHR 0xE3, CHR 0x81, CHR 0xA9, CHR 0xE3, CHR 0x81, CHR 0x93, CHR 0xE3, CHR 0x81, CHR 0xA7,
       CHR 0xE3, CHR 0x81, CHR 0x99, CHR 0xE3, CHR 0x81, CHR 0x8B, CHR 0xEF, CHR 0xBC, CHR 0x9F],
     Options =
       [[CHR 0xE5, CHR 0xA4, CHR 0xA7, CHR 0xE9, CHR 0x98, CHR 0xAA],
        [CHR 0xE4, CHR 0xBA, CHR 0xAC, CHR 0xE9, CHR 0x83, CHR 0xBD],
        [CHR 0xE6, CHR 0x9D, CHR 0xB1, CHR 0xE4, CHR 0xBA, CHR 0xAC],
        [CHR 0xE5, CHR 0x90, CHR 0x8D, CHR 0xE5, CHR 0x8F, CHR 0xA4, CHR 0xE5, CHR 0xB1, CHR 0x8B]],
     CorrectAnswer = 2,
     Explanation =
       [CHR 0xE6, CHR 0x97, CHR 0xA5, CHR 0xE6, CHR 0x9C, CHR 0xAC, CHR 0xE3, CHR 0x81, CHR 0xAE,
       CHR 0xE9, CHR 0xA6, CHR 0x96, CHR 0xE9, CHR 0x83, CHR 0xBD, CHR 0xE3, CHR 0x81, CHR 0xAF,
       CHR 0xE6, CHR 0x9D, CHR 0xB1, CHR 0xE4, CHR 0xBA, CHR 0xAC, CHR 0xE3, CHR 0x81, CHR 0xA7,
       CHR 0xE3, CHR 0x81, CHR 0x99, CHR 0xE3, CHR 0x80, CHR 0x82, CHR 0xE6, CHR 0x94, CHR 0xBF,
       CHR 0xE6, CHR 0xB2, CHR 0xBB, CHR 0xE3, CHR 0x82, CHR 0x84, CHR 0xE7, CHR 0xB5, CHR 0x8C,
       CHR 0xE6, CHR 0xB8, CHR 0x88, CHR 0xE3, CHR 0x81, CHR 0xAE, CHR 0xE4, CHR 0xB8, CHR 0xAD,
       CHR 0xE5, CHR 0xBF, CHR 0x83, CHR 0xE5, CHR 0x9C, CHR 0xB0, CHR 0xE3, CHR 0x81, CHR 0xA7,
       CHR 0xE3, CHR 0x81, CHR 0x99, CHR 0xE3, CHR 0x80, CHR 0x82],
     Difficulty = 1,
     EstimatedTime = 120,
     Encouragement =
       [CHR 0xE5, CHR 0x9C, CHR 0xB0, CHR 0xE7, CHR 0x90, CHR 0x86, CHR 0xE3, CHR 0x81, CHR 0xAE,
       CHR 0xE7, CHR 0x9F, CHR 0xA5, CHR 0xE8, CHR 0xAD, CHR 0x98, CHR 0xE3, CHR 0x81, CHR 0xAF,
       CHR 0xE4, CHR 0xB8, CHR 0x96, CHR 0xE7, CHR 0x95, CHR 0x8C, CHR 0xE3, CHR 0x82, CHR 0x92,
       CHR 0xE7, CHR 0x90, CHR 0x86, CHR 0xE8, CHR 0xA7, CHR 0xA3, CHR 0xE3, CHR 0x81, CHR 0x99,
       CHR 0xE3, CHR 0x82, CHR 0x8B, CHR 0xE7, CHR 0xAC, CHR 0xAC, CHR 0xE4, CHR 0xB8, CHR 0x80,
       CHR 0xE6, CHR 0xAD, CHR 0xA9, CHR 0xE3, CHR 0x81, CHR 0xA7, CHR 0xE3, CHR 0x81, CHR 0x99,
       CHR 0xEF, CHR 0xBC, CHR 0x81],
     ProblemType =
       [CHR 0xE5, CHR 0x9C, CHR 0xB0, CHR 0xE7, CHR 0x90, CHR 0x86]\<rparr>"

text \<open>The problem of \<^verbatim>\<open>getGeneralProblem\<close> (source line 942).\<close>

definition general_problem :: Problem where
  "general_problem =
    \<lparr>Title =
       [CHR 0xE4, CHR 0xB8, CHR 0x80, CHR 0xE8, CHR 0x88, CHR 0xAC, CHR 0xE5, CHR 0xB8, CHR 0xB8,
       CHR 0xE8, CHR 0xAD, CHR 0x98],
     Description =
       ''1'' @ [CHR 0xE5, CHR 0xB9, CHR 0xB4, CHR 0xE3, CHR 0x81, CHR 0xAF, CHR 0xE4, CHR 0xBD,
       CHR 0x95, CHR 0xE6, CHR 0x97, CHR 0xA5, CHR 0xE3, CHR 0x81, CHR 0xA7, CHR 0xE3, CHR 0x81,
       CHR 0x97, CHR 0xE3, CHR 0x82, CHR 0x87, CHR 0xE3, CHR 0x81, CHR 0x86, CHR 0xE3, CHR 0x81,
       CHR 0x8B, CHR 0xEF, CHR 0xBC, CHR 0x9F, CHR 0xEF, CHR 0xBC, CHR 0x88, CHR 0xE5, CHR 0xB9,
       CHR 0xB3, CHR 0xE5, CHR 0xB9, CHR 0xB4, CHR 0xE3, CHR 0x81, CHR 0xAE, CHR 0xE5, CHR 0xA0,
       CHR 0xB4, CHR 0xE5, CHR 0x90, CHR 0x88, CHR 0xEF, CHR 0xBC, CHR 0x89],
     Options =
       [''364'' @ [CHR 0xE6, CHR 0x97, CHR 0xA5],
        ''365'' @ [CHR 0xE6, CHR 0x97, CHR 0xA5],
        ''366'' @ [CHR 0xE6, CHR 0x97, CHR 0xA5],
        ''367'' @ [CHR 0xE6, CHR 0x97, CHR 0xA5]],
     CorrectAnswer = 1,
     Explanation =
       [CHR 0xE5, CHR 0xB9, CHR 0xB3, CHR 0xE5, CHR 0xB9, CHR 0xB4, CHR 0xE3, CHR 0x81, CHR 0xAF] @
       ''365'' @ [CHR 0xE6, CHR 0x97, CHR 0xA5, CHR 0xE3, CHR 0x81, CHR 0xA7, CHR 0xE3, CHR 0x81,
       CHR 0x99, CHR 0xE3, CHR 0x80, CHR 0x82, CHR 0xE3, CHR 0x81, CHR 0x86, CHR 0xE3, CHR 0x82,
       CHR 0x8B, CHR 0xE3, CHR 0x81, CHR 0x86, CHR 0xE5, CHR 0xB9, CHR 0xB4, CHR 0xE3, CHR 0x81,
       CHR 0xAF] @ ''366'' @ [CHR 0xE6, CHR 0x97, CHR 0xA5, CHR 0xE3, CHR 0x81, CHR 0xAB, CHR 0xE3,
       CHR 0x81, CHR 0xAA, CHR 0xE3, CHR 0x82, CHR 0x8A, CHR 0xE3, CHR 0x81, CHR 0xBE, CHR 0xE3,
       CHR 0x81, CHR 0x99, CHR 0xE3, CHR 0x80, CHR 0x82],
     Difficulty = 1,
     EstimatedTime = 120,
     Encouragement =
       [CHR 0xE5, CHR 0x9F, CHR 0xBA, CHR 0xE6, CHR 0x9C, CHR 0xAC, CHR 0xE7, CHR 0x9A, CHR 0x84,
       CHR 0xE3, CHR 0x81, CHR 0xAA, CHR 0xE7, CHR 0x9F, CHR 0xA5, CHR 0xE8, CHR 0xAD, CHR 0x98,
       CHR 0xE3, CHR 0x81, CHR 0x8B, CHR 0xE3, CHR 0x82, CHR 0x89, CHR 0xE5, CHR 0xAD, CHR 0xA6,
       CHR 0xE7, CHR 0xBF, CHR 0x92, CHR 0xE3, CHR 0x82, CHR 0x92, CHR 0xE5, CHR 0xA7, CHR 0x8B,
       CHR 0xE3, CHR 0x82, CHR 0x81, CHR 0xE3, CHR 0x81, CHR 0xBE, CHR 0xE3, CHR 0x81, CHR 0x97,
       CHR 0xE3, CHR 0x82, CHR 0x87, CHR 0xE3, CHR 0x81, CHR 0x86, CHR 0xEF, CHR 0xBC, CHR 0x81],
     ProblemType =
       [CHR 0xE4, CHR 0xB8, CHR 0x80, CHR 0xE8, CHR 0x88, CHR 0xAC, CHR 0xE5, CHR 0xB8, CHR 0xB8,
       CHR 0xE8, CHR 0xAD, CHR 0x98]\<rparr>"


text \<open>The map \<^verbatim>\<open>mathProblems\<close> of \<^verbatim>\<open>getMathProblem\<close>: the grades 1, 2 and 3.\<close>

definition mathProblems :: "int \<rightharpoonup> Problem list" where
  "mathProblems grade =
     (if grade = 1 then Some [math1_signed, math1_expression, math1_root]
      else if grade = 2 then Some [math2_simultaneous, math2_linear]
      else if grade = 3 then Some [math3_quadratic, math3_root, math3_isosceles]
      else None)"

text \<open>The slice \<^verbatim>\<open>englishProblems\<close> of \<^verbatim>\<open>getEnglishProblem\<close>.\<close>

definition englishProblems :: "Problem list" where
  "englishProblems = [english_book, english_play, english_big]"

text \<open>
  The keys of the rotation counters:
  \<^verbatim>\<open>fmt.Sprintf\<close> of the subject (U+6570 U+5B66, U+82F1 U+8A9E), \<^verbatim>\<open>_G\<close> and the grade.
\<close>

definition mathKey :: "int \<Rightarrow> string" where
  "mathKey grade = subject_math @ ''_G'' @ itoa grade"

definition englishKey :: "int \<Rightarrow> string" where
  "englishKey grade = subject_english @ ''_G'' @ itoa grade"

text \<open>
  The block under the mutex, the same in \<^verbatim>\<open>getMathProblem\<close> (source lines 827 to 831)
  and \<^verbatim>\<open>getEnglishProblem\<close> (lines 887 to 891), for a list that is not empty: read
  the counter (\<open>0\<close> for an absent key), take it modulo the length, store the index plus
  one, return the entry at the index.
\<close>

definition counter :: "Engine \<Rightarrow> string \<Rightarrow> nat" where
  "counter e subjectKey = (case problemIndex e subjectKey of None \<Rightarrow> 0 | Some c \<Rightarrow> c)"

definition nextProblem :: "string \<Rightarrow> Problem list \<Rightarrow> Engine \<Rightarrow> Problem \<times> Engine" where
  "nextProblem subjectKey problems e =
     (let index = counter e subjectKey mod length problems
      in (problems ! index,
          e\<lparr>problemIndex := (problemIndex e)(subjectKey \<mapsto> index + 1)\<rparr>))"

text \<open>\<^verbatim>\<open>getMathProblem\<close> and \<^verbatim>\<open>getEnglishProblem\<close>. The difficulty argument is ignored.\<close>

definition getMathProblem :: "int \<Rightarrow> Engine \<Rightarrow> Problem \<times> Engine" where
  "getMathProblem grade e =
     (case mathProblems grade of
        Some problems \<Rightarrow>
          if length problems > 0 then nextProblem (mathKey grade) problems e
          else (math_default, e)
      | None \<Rightarrow> (math_default, e))"

definition getEnglishProblem :: "int \<Rightarrow> Engine \<Rightarrow> Problem \<times> Engine" where
  "getEnglishProblem grade e = nextProblem (englishKey grade) englishProblems e"

text \<open>\<^verbatim>\<open>generateOfflineProblem\<close>: the switch on the subject.\<close>

definition generateOfflineProblem :: "StudyContext \<Rightarrow> Engine \<Rightarrow> Problem \<times> Engine" where
  "generateOfflineProblem context e =
     (if Subject context = subject_math \<or> Subject context = subject_arithmetic
      then getMathProblem (Grade context) e
      else if Subject context = subject_english then getEnglishProblem (Grade context) e
      else if Subject context = subject_japanese then (japanese_problem, e)
      else if Subject context = subject_science then (science_problem, e)
      else if Subject context = subject_social then (social_problem, e)
      else (general_problem, e))"

text \<open>\<^verbatim>\<open>generateOfflineFeedback\<close>: one fixed response for a correct answer, one for a wrong one.\<close>

definition generateOfflineFeedback :: "FeedbackRequest \<Rightarrow> FeedbackResponse" where
  "generateOfflineFeedback req =
     (if IsCorrect req
      then \<lparr>Message =
               [CHR 0xF0, CHR 0x9F, CHR 0x8E, CHR 0x89] @ '' '' @ [CHR 0xE6, CHR 0xAD, CHR 0xA3, CHR 0xE8,
               CHR 0xA7, CHR 0xA3, CHR 0xE3, CHR 0x81, CHR 0xA7, CHR 0xE3, CHR 0x81, CHR 0x99, CHR 0xEF,
               CHR 0xBC, CHR 0x81, CHR 0xE3, CHR 0x82, CHR 0x88, CHR 0xE3, CHR 0x81, CHR 0x8F, CHR 0xE9,
               CHR 0xA0, CHR 0x91, CHR 0xE5, CHR 0xBC, CHR 0xB5, CHR 0xE3, CHR 0x82, CHR 0x8A, CHR 0xE3,
               CHR 0x81, CHR 0xBE, CHR 0xE3, CHR 0x81, CHR 0x97, CHR 0xE3, CHR 0x81, CHR 0x9F, CHR 0xEF,
               CHR 0xBC, CHR 0x81],
             FeedbackExplanation =
               [CHR 0xE7, CHR 0xB4, CHR 0xA0, CHR 0xE6, CHR 0x99, CHR 0xB4, CHR 0xE3, CHR 0x82, CHR 0x89,
               CHR 0xE3, CHR 0x81, CHR 0x97, CHR 0xE3, CHR 0x81, CHR 0x84, CHR 0xE7, CHR 0x90, CHR 0x86,
               CHR 0xE8, CHR 0xA7, CHR 0xA3, CHR 0xE5, CHR 0x8A, CHR 0x9B, CHR 0xE3, CHR 0x81, CHR 0xA7,
               CHR 0xE3, CHR 0x81, CHR 0x99, CHR 0xE3, CHR 0x80, CHR 0x82, CHR 0xE3, CHR 0x81, CHR 0x93,
               CHR 0xE3, CHR 0x81, CHR 0xAE, CHR 0xE8, CHR 0xAA, CHR 0xBF, CHR 0xE5, CHR 0xAD, CHR 0x90,
               CHR 0xE3, CHR 0x81, CHR 0xA7, CHR 0xE5, CHR 0xAD, CHR 0xA6, CHR 0xE7, CHR 0xBF, CHR 0x92,
               CHR 0xE3, CHR 0x82, CHR 0x92, CHR 0xE7, CHR 0xB6, CHR 0x9A, CHR 0xE3, CHR 0x81, CHR 0x91,
               CHR 0xE3, CHR 0x81, CHR 0xA6, CHR 0xE3, CHR 0x81, CHR 0x84, CHR 0xE3, CHR 0x81, CHR 0x8D,
               CHR 0xE3, CHR 0x81, CHR 0xBE, CHR 0xE3, CHR 0x81, CHR 0x97, CHR 0xE3, CHR 0x82, CHR 0x87,
               CHR 0xE3, CHR 0x81, CHR 0x86, CHR 0xE3, CHR 0x80, CHR 0x82],
             FeedbackEncouragement =
               [CHR 0xE3, CHR 0x81, CHR 0x82, CHR 0xE3, CHR 0x81, CHR 0xAA, CHR 0xE3, CHR 0x81, CHR 0x9F,
               CHR 0xE3, CHR 0x81, CHR 0xAE, CHR 0xE5, CHR 0x8A, CHR 0xAA, CHR 0xE5, CHR 0x8A, CHR 0x9B,
               CHR 0xE3, CHR 0x81, CHR 0x8C, CHR 0xE5, CHR 0xAE, CHR 0x9F, CHR 0xE3, CHR 0x81, CHR 0xA3,
               CHR 0xE3, CHR 0x81, CHR 0xA6, CHR 0xE3, CHR 0x81, CHR 0x84, CHR 0xE3, CHR 0x81, CHR 0xBE,
               CHR 0xE3, CHR 0x81, CHR 0x99, CHR 0xE3, CHR 0x80, CHR 0x82, CHR 0xE3, CHR 0x81, CHR 0x93,
               CHR 0xE3, CHR 0x81, CHR 0xAE, CHR 0xE8, CHR 0xAA, CHR 0xBF, CHR 0xE5, CHR 0xAD, CHR 0x90,
               CHR 0xE3, CHR 0x81, CHR 0xA7, CHR 0xE9, CHR 0xA0, CHR 0x91, CHR 0xE5, CHR 0xBC, CHR 0xB5,
               CHR 0xE3, CHR 0x82, CHR 0x8A, CHR 0xE3, CHR 0x81, CHR 0xBE, CHR 0xE3, CHR 0x81, CHR 0x97,
               CHR 0xE3, CHR 0x82, CHR 0x87, CHR 0xE3, CHR 0x81, CHR 0x86, CHR 0xEF, CHR 0xBC, CHR 0x81],
             NextSteps =
               [CHR 0xE6, CHR 0xAC, CHR 0xA1, CHR 0xE3, CHR 0x81, CHR 0xAF, CHR 0xE3, CHR 0x82, CHR 0x82,
               CHR 0xE3, CHR 0x81, CHR 0x86, CHR 0xE5, CHR 0xB0, CHR 0x91, CHR 0xE3, CHR 0x81, CHR 0x97,
               CHR 0xE9, CHR 0x9B, CHR 0xA3, CHR 0xE3, CHR 0x81, CHR 0x97, CHR 0xE3, CHR 0x81, CHR 0x84,
               CHR 0xE5, CHR 0x95, CHR 0x8F, CHR 0xE9, CHR 0xA1, CHR 0x8C, CHR 0xE3, CHR 0x81, CHR 0xAB,
               CHR 0xE3, CHR 0x83, CHR 0x81, CHR 0xE3, CHR 0x83, CHR 0xA3, CHR 0xE3, CHR 0x83, CHR 0xAC,
               CHR 0xE3, CHR 0x83, CHR 0xB3, CHR 0xE3, CHR 0x82, CHR 0xB8, CHR 0xE3, CHR 0x81, CHR 0x97,
               CHR 0xE3, CHR 0x81, CHR 0xA6, CHR 0xE3, CHR 0x81, CHR 0xBF, CHR 0xE3, CHR 0x81, CHR 0xBE,
               CHR 0xE3, CHR 0x81, CHR 0x97, CHR 0xE3, CHR 0x82, CHR 0x87, CHR 0xE3, CHR 0x81, CHR 0x86,
               CHR 0xE3, CHR 0x80, CHR 0x82],
             TipOfDay =
               [CHR 0xE7, CHR 0x90, CHR 0x86, CHR 0xE8, CHR 0xA7, CHR 0xA3, CHR 0xE3, CHR 0x81, CHR 0x97,
               CHR 0xE3, CHR 0x81, CHR 0x9F, CHR 0xE3, CHR 0x81, CHR 0x93, CHR 0xE3, CHR 0x81, CHR 0xA8,
               CHR 0xE3, CHR 0x82, CHR 0x92, CHR 0xE8, CHR 0x87, CHR 0xAA, CHR 0xE5, CHR 0x88, CHR 0x86,
               CHR 0xE3, CHR 0x81, CHR 0xAE, CHR 0xE8, CHR 0xA8, CHR 0x80, CHR 0xE8, CHR 0x91, CHR 0x89,
               CHR 0xE3, CHR 0x81, CHR 0xA7, CHR 0xE8, CHR 0xAA, CHR 0xAC, CHR 0xE6, CHR 0x98, CHR 0x8E,
               CHR 0xE3, CHR 0x81, CHR 0x97, CHR 0xE3, CHR 0x81, CHR 0xA6, CHR 0xE3, CHR 0x81, CHR 0xBF,
               CHR 0xE3, CHR 0x82, CHR 0x8B, CHR 0xE3, CHR 0x81, CHR 0xA8, CHR 0xE3, CHR 0x80, CHR 0x81,
               CHR 0xE3, CHR 0x81, CHR 0x95, CHR 0xE3, CHR 0x82, CHR 0x89, CHR 0xE3, CHR 0x81, CHR 0xAB,
               CHR 0xE8, CHR 0xA8, CHR 0x98, CHR 0xE6, CHR 0x86, CHR 0xB6, CHR 0xE3, CHR 0x81, CHR 0xAB,
               CHR 0xE5, CHR 0xAE, CHR 0x9A, CHR 0xE7, CHR 0x9D, CHR 0x80, CHR 0xE3, CHR 0x81, CHR 0x97,
               CHR 0xE3, CHR 0x82, CHR 0x84, CHR 0xE3, CHR 0x81, CHR 0x99, CHR 0xE3, CHR 0x81, CHR 0x8F,
               CHR 0xE3, CHR 0x81, CHR 0xAA, CHR 0xE3, CHR 0x82, CHR 0x8A, CHR 0xE3, CHR 0x81, CHR 0xBE,
               CHR 0xE3, CHR 0x81, CHR 0x99, CHR 0xE3, CHR 0x80, CHR 0x82]\<rparr>
      else \<lparr>Message =
               [CHR 0xF0, CHR 0x9F, CHR 0x93, CHR 0x9A] @ '' '' @ [CHR 0xE3, CHR 0x81, CHR 0x8A, CHR 0xE3,
               CHR 0x81, CHR 0x97, CHR 0xE3, CHR 0x81, CHR 0x84, CHR 0xEF, CHR 0xBC, CHR 0x81, CHR 0xE9,
               CHR 0x96, CHR 0x93, CHR 0xE9, CHR 0x81, CHR 0x95, CHR 0xE3, CHR 0x81, CHR 0x84, CHR 0xE3,
               CHR 0x82, CHR 0x82, CHR 0xE5, CHR 0xAD, CHR 0xA6, CHR 0xE7, CHR 0xBF, CHR 0x92, CHR 0xE3,
               CHR 0x81, CHR 0xAE, CHR 0xE5, CHR 0xA4, CHR 0xA7, CHR 0xE5, CHR 0x88, CHR 0x87, CHR 0xE3,
               CHR 0x81, CHR 0xAA, CHR 0xE4, CHR 0xB8, CHR 0x80, CHR 0xE6, CHR 0xAD, CHR 0xA9, CHR 0xE3,
               CHR 0x81, CHR 0xA7, CHR 0xE3, CHR 0x81, CHR 0x99, CHR 0xE3, CHR 0x80, CHR 0x82],
             FeedbackExplanation =
               [CHR 0xE4, CHR 0xBB, CHR 0x8A, CHR 0xE5, CHR 0x9B, CHR 0x9E, CHR 0xE3, CHR 0x81, CHR 0xAF,
               CHR 0xE9, CHR 0x96, CHR 0x93, CHR 0xE9, CHR 0x81, CHR 0x95, CHR 0xE3, CHR 0x81, CHR 0x88,
               CHR 0xE3, CHR 0x81, CHR 0xBE, CHR 0xE3, CHR 0x81, CHR 0x97, CHR 0xE3, CHR 0x81, CHR 0x9F,
               CHR 0xE3, CHR 0x81, CHR 0x8C, CHR 0xE3, CHR 0x80, CHR 0x81, CHR 0xE3, CHR 0x81, CHR 0x93,
               CHR 0xE3, CHR 0x82, CHR 0x8C, CHR 0xE3, CHR 0x82, CHR 0x82, CHR 0xE8, CHR 0xB2, CHR 0xB4,
               CHR 0xE9, CHR 0x87, CHR 0x8D, CHR 0xE3, CHR 0x81, CHR 0xAA, CHR 0xE5, CHR 0xAD, CHR 0xA6,
               CHR 0xE7, CHR 0xBF, CHR 0x92, CHR 0xE7, CHR 0xB5, CHR 0x8C, CHR 0xE9, CHR 0xA8, CHR 0x93,
               CHR 0xE3, CHR 0x81, CHR 0xA7, CHR 0xE3, CHR 0x81, CHR 0x99, CHR 0xE3, CHR 0x80, CHR 0x82,
               CHR 0xE6, CHR 0xAD, CHR 0xA3, CHR 0xE8, CHR 0xA7, CHR 0xA3, CHR 0xE3, CHR 0x82, CHR 0x92,
               CHR 0xE7, CHR 0xA2, CHR 0xBA, CHR 0xE8, CHR 0xAA, CHR 0x8D, CHR 0xE3, CHR 0x81, CHR 0x97,
               CHR 0xE3, CHR 0x81, CHR 0xA6, CHR 0xE7, CHR 0x90, CHR 0x86, CHR 0xE8, CHR 0xA7, CHR 0xA3,
               CHR 0xE3, CHR 0x82, CHR 0x92, CHR 0xE6, CHR 0xB7, CHR 0xB1, CHR 0xE3, CHR 0x82, CHR 0x81,
               CHR 0xE3, CHR 0x81, CHR 0xBE, CHR 0xE3, CHR 0x81, CHR 0x97, CHR 0xE3, CHR 0x82, CHR 0x87,
               CHR 0xE3, CHR 0x81, CHR 0x86, CHR 0xE3, CHR 0x80, CHR 0x82],
             FeedbackEncouragement =
               [CHR 0xE5, CHR 0xA4, CHR 0xB1, CHR 0xE6, CHR 0x95, CHR 0x97, CHR 0xE3, CHR 0x81, CHR 0xAF,
               CHR 0xE6, CHR 0x88, CHR 0x90, CHR 0xE5, CHR 0x8A, CHR 0x9F, CHR 0xE3, CHR 0x81, CHR 0xAE,
               CHR 0xE6, CHR 0xAF, CHR 0x8D, CHR 0xE3, CHR 0x81, CHR 0xA7, CHR 0xE3, CHR 0x81, CHR 0x99,
               CHR 0xE3, CHR 0x80, CHR 0x82, CHR 0xE8, CHR 0xAB, CHR 0xA6, CHR 0xE3, CHR 0x82, CHR 0x81,
               CHR 0xE3, CHR 0x81, CHR 0x9A, CHR 0xE3, CHR 0x81, CHR 0xAB, CHR 0xE7, CHR 0xB6, CHR 0x9A,
               CHR 0xE3, CHR 0x81, CHR 0x91, CHR 0xE3, CHR 0x81, CHR 0xA6, CHR 0xE3, CHR 0x81, CHR 0x84,
               CHR 0xE3, CHR 0x81, CHR 0x91, CHR 0xE3, CHR 0x81, CHR 0xB0, CHR 0xE5, CHR 0xBF, CHR 0x85,
               CHR 0xE3, CHR 0x81, CHR 0x9A, CHR 0xE7, CHR 0x90, CHR 0x86, CHR 0xE8, CHR 0xA7, CHR 0xA3,
               CHR 0xE3, CHR 0x81, CHR 0xA7, CHR 0xE3, CHR 0x81, CHR 0x8D, CHR 0xE3, CHR 0x81, CHR 0xBE,
               CHR 0xE3, CHR 0x81, CHR 0x99, CHR 0xEF, CHR 0xBC, CHR 0x81],
             NextSteps =
               [CHR 0xE5, CHR 0x90, CHR 0x8C, CHR 0xE3, CHR 0x81, CHR 0x98, CHR 0xE5, CHR 0x95, CHR 0x8F,
               CHR 0xE9, CHR 0xA1, CHR 0x8C, CHR 0xE3, CHR 0x82, CHR 0x92, CHR 0xE6, CHR 0x99, CHR 0x82,
               CHR 0xE9, CHR 0x96, CHR 0x93, CHR 0xE3, CHR 0x82, CHR 0x92, CHR 0xE7, CHR 0xBD, CHR 0xAE,
               CHR 0xE3, CHR 0x81, CHR 0x84, CHR 0xE3, CHR 0x81, CHR 0xA6, CHR 0xE3, CHR 0x82, CHR 0x82,
               CHR 0xE3, CHR 0x81, CHR 0x86, CHR 0xE4, CHR 0xB8, CHR 0x80, CHR 0xE5, CHR 0xBA, CHR 0xA6,
               CHR 0xE6, CHR 0x8C, CHR 0x91, CHR 0xE6, CHR 0x88, CHR 0xA6, CHR 0xE3, CHR 0x81, CHR 0x97,
               CHR 0xE3, CHR 0x81, CHR 0xA6, CHR 0xE3, CHR 0x81, CHR 0xBF, CHR 0xE3, CHR 0x81, CHR 0xBE,
               CHR 0xE3, CHR 0x81, CHR 0x97, CHR 0xE3, CHR 0x82, CHR 0x87, CHR 0xE3, CHR 0x81, CHR 0x86,
               CHR 0xE3, CHR 0x80, CHR 0x82],
             TipOfDay =
               [CHR 0xE9, CHR 0x96, CHR 0x93, CHR 0xE9, CHR 0x81, CHR 0x95, CHR 0xE3, CHR 0x81, CHR 0x88,
               CHR 0xE3, CHR 0x81, CHR 0x9F, CHR 0xE5, CHR 0x95, CHR 0x8F, CHR 0xE9, CHR 0xA1, CHR 0x8C,
               CHR 0xE3, CHR 0x81, CHR 0xAF, CHR 0xE8, CHR 0xA8, CHR 0x98, CHR 0xE9, CHR 0x8C, CHR 0xB2,
               CHR 0xE3, CHR 0x81, CHR 0x97, CHR 0xE3, CHR 0x81, CHR 0xA6, CHR 0xE3, CHR 0x81, CHR 0x8A,
               CHR 0xE3, CHR 0x81, CHR 0x8D, CHR 0xE3, CHR 0x80, CHR 0x81, CHR 0xE5, CHR 0xBE, CHR 0x8C,
               CHR 0xE3, CHR 0x81, CHR 0xA7, CHR 0xE5, CHR 0xBE, CHR 0xA9, CHR 0xE7, CHR 0xBF, CHR 0x92,
               CHR 0xE3, CHR 0x81, CHR 0x99, CHR 0xE3, CHR 0x82, CHR 0x8B, CHR 0xE3, CHR 0x81, CHR 0xA8,
               CHR 0xE7, CHR 0x90, CHR 0x86, CHR 0xE8, CHR 0xA7, CHR 0xA3, CHR 0xE3, CHR 0x81, CHR 0x8C,
               CHR 0xE6, CHR 0xB7, CHR 0xB1, CHR 0xE3, CHR 0x81, CHR 0xBE, CHR 0xE3, CHR 0x82, CHR 0x8A,
               CHR 0xE3, CHR 0x81, CHR 0xBE, CHR 0xE3, CHR 0x81, CHR 0x99, CHR 0xE3, CHR 0x80, CHR 0x82]\<rparr>)"

subsection \<open>The public operations\<close>

text \<open>
  \<^verbatim>\<open>GeneratePersonalizedProblem\<close> and \<^verbatim>\<open>GenerateFeedback\<close>. \<open>backend\<close> is what the
  environment does with the request that carries the prompt, \<open>now\<close> the reading of the
  clock when the outcome is recorded. The result is the returned pair (as a \<open>res\<close>) and
  the engine after the call. (\<^verbatim>\<open>generate\<close> and the two prompt builders have no
  \<open>Fail\<close> and no \<open>Panic\<close> outcome respectively; the \<open>case\<close> is total all the same.)
\<close>

definition GeneratePersonalizedProblem ::
  "(string \<Rightarrow> OllamaResponse option) \<Rightarrow> (Prompt \<Rightarrow> Transport) \<Rightarrow> nat \<Rightarrow>
   StudyContext \<Rightarrow> Engine \<Rightarrow> Problem res \<times> Engine" where
  "GeneratePersonalizedProblem unmarshal backend now studyContext e =
     (if \<not> shouldTryAI e
      then (case generateOfflineProblem studyContext e of (p, e') \<Rightarrow> (Ok p, e'))
      else (case buildPersonalizedPrompt studyContext of
              Panic \<Rightarrow> (Panic, e)
            | Fail err \<Rightarrow> (Fail err, e)
            | Ok prompt \<Rightarrow>
                (case generate unmarshal (backend prompt) of
                   Fail err \<Rightarrow>
                     (case generateOfflineProblem studyContext (recordFailure now e) of
                        (p, e') \<Rightarrow> (Ok p, e'))
                 | Panic \<Rightarrow> (Panic, e)
                 | Ok response \<Rightarrow> (parseProblemResponse response, recordSuccess now e))))"

definition GenerateFeedback ::
  "(string \<Rightarrow> OllamaResponse option) \<Rightarrow> (Prompt \<Rightarrow> Transport) \<Rightarrow> nat \<Rightarrow>
   FeedbackRequest \<Rightarrow> Engine \<Rightarrow> FeedbackResponse res \<times> Engine" where
  "GenerateFeedback unmarshal backend now req e =
     (if \<not> shouldTryAI e then (Ok (generateOfflineFeedback req), e)
      else (case buildFeedbackPrompt req of
              Panic \<Rightarrow> (Panic, e)
            | Fail err \<Rightarrow> (Fail err, e)
            | Ok prompt \<Rightarrow>
                (case generate unmarshal (backend prompt) of
                   Fail err \<Rightarrow> (Ok (generateOfflineFeedback req), recordFailure now e)
                 | Panic \<Rightarrow> (Panic, e)
                 | Ok response \<Rightarrow> (parseFeedbackResponse response, recordSuccess now e))))"

section \<open>Vocabulary of the properties\<close>

text \<open>
  The definitions of this section are not functions of the package: they name what the
  properties below talk about.
\<close>

text \<open>
  The fragments of a stream in arrival order: the lines that \<^verbatim>\<open>json.Unmarshal\<close>
  decodes; an empty line and a line that does not decode carry no fragment.
\<close>

definition fragments :: "(string \<Rightarrow> OllamaResponse option) \<Rightarrow> string list \<Rightarrow> OllamaResponse list" where
  "fragments unmarshal lines =
     List.map_filter (\<lambda>line. if line = [] then None else unmarshal line) lines"

text \<open>The fragments up to and including the first one whose \<open>Done\<close> flag is set.\<close>

fun upToDone :: "OllamaResponse list \<Rightarrow> OllamaResponse list" where
  "upToDone [] = []"
| "upToDone (r # rs) = (if Done r then [r] else r # upToDone rs)"

text \<open>
  A line that the loop of \<^verbatim>\<open>generate\<close> passes without leaving: an empty line, a line
  that does not decode, or a fragment with no error and no \<open>Done\<close> flag.
\<close>

definition passed :: "(string \<Rightarrow> OllamaResponse option) \<Rightarrow> string \<Rightarrow> bool" where
  "passed unmarshal line =
     (line = [] \<or> (case unmarshal line of None \<Rightarrow> True | Some r \<Rightarrow> Error r = [] \<and> \<not> Done r))"

text \<open>
  What \<^verbatim>\<open>json.Unmarshal\<close> returns for the lines of the examples: each line of the
  table decodes to the fragment beside it (an absent \<^verbatim>\<open>error\<close> is the empty
  string), and \<^verbatim>\<open>this is not JSON\<close>, like every line outside the table, does not
  decode.
\<close>

definition unmarshal_examples :: "string \<Rightarrow> OllamaResponse option" where
  \<open>unmarshal_examples =
     map_of
       [(''{"response":"A","done":false}'', \<lparr>Response = ''A'', Done = False, Error = []\<rparr>),
        (''{"response":"B","done":false}'', \<lparr>Response = ''B'', Done = False, Error = []\<rparr>),
        (''{"response":"C","done":true}'', \<lparr>Response = ''C'', Done = True, Error = []\<rparr>),
        (''{"response":"D","done":false}'', \<lparr>Response = ''D'', Done = False, Error = []\<rparr>),
        (''{"response":" A ","done":true}'', \<lparr>Response = '' A '', Done = True, Error = []\<rparr>),
        (''{"response":"no fields here","done":true}'',
           \<lparr>Response = ''no fields here'', Done = True, Error = []\<rparr>),
        (''{"error":"model not found"}'',
           \<lparr>Response = [], Done = False, Error = ''model not found''\<rparr>)]\<close>

text \<open>
  Inputs of the examples: a study context for mathematics in grade 3, a feedback request
  on the general problem, a backend that cannot be reached (\<^verbatim>\<open>httpClient.Do\<close> fails)
  and a backend whose answer holds no \<^verbatim>\<open>KEY: value\<close> line.
\<close>

definition math_grade3 :: StudyContext where
  "math_grade3 = \<lparr>Subject = subject_math, Grade = 3, TargetDifficulty = 3\<rparr>"

definition general_request :: FeedbackRequest where
  "general_request = \<lparr>AnsweredProblem = general_problem, UserAnswer = ''365'', IsCorrect = True\<rparr>"

definition unreachable :: "Prompt \<Rightarrow> Transport" where
  "unreachable prompt = DoFailed ''connection refused''"

definition answers_without_fields :: "Prompt \<Rightarrow> Transport" where
  \<open>answers_without_fields prompt =
     Responded \<lparr>StatusCode = 200, BodyText = [],
       Lines = [''{"response":"no fields here","done":true}''], ScanErr = None\<rparr>\<close>

text \<open>
  The checks of \<^verbatim>\<open>validateProblem\<close> that reject whatever the description says: the
  title and the description are not empty, there are two options or more, the index of
  the correct answer is a position of the options, the difficulty is between 1 and 5.
\<close>

definition passesHardChecks :: "Problem \<Rightarrow> bool" where
  "passesHardChecks p =
     (Title p \<noteq> [] \<and> Description p \<noteq> [] \<and> 2 \<le> length (Options p) \<and>
      0 \<le> CorrectAnswer p \<and> CorrectAnswer p < int (length (Options p)) \<and>
      1 \<le> Difficulty p \<and> Difficulty p \<le> 5)"

text \<open>The problem with the default time of 300 seconds in place of a time that is not positive.\<close>

definition withDefaultTime :: "Problem \<Rightarrow> Problem" where
  "withDefaultTime p = (if EstimatedTime p \<le> 0 then p\<lparr>EstimatedTime := 300\<rparr> else p)"

text \<open>The invariant of a returned problem.\<close>

definition problemInvariant :: "Problem \<Rightarrow> bool" where
  "problemInvariant p =
     (0 \<le> CorrectAnswer p \<and> CorrectAnswer p < int (length (Options p)) \<and>
      2 \<le> length (Options p) \<and> 1 \<le> Difficulty p \<and> Difficulty p \<le> 5 \<and>
      0 < EstimatedTime p)"

text \<open>
  Two problems whose description contains the phrase "the diagram below" (U+4E0B U+306E
  U+56F3): the first asks for an angle in the diagram (its description has the keyword
  "angle"), the second says to look at the diagram and answer (no keyword).
\<close>

definition diagram_angle_problem :: Problem where
  "diagram_angle_problem =
     \<lparr>Title = ''Angle'',
      Description =
        [CHR 0xE4, CHR 0xB8, CHR 0x8B, CHR 0xE3, CHR 0x81, CHR 0xAE, CHR 0xE5, CHR 0x9B, CHR 0xB3,
        CHR 0xE3, CHR 0x81, CHR 0xAE, CHR 0xE8, CHR 0xA7, CHR 0x92] @ ''A'' @ [CHR 0xE3, CHR 0x81,
        CHR 0xAF, CHR 0xE4, CHR 0xBD, CHR 0x95, CHR 0xE5, CHR 0xBA, CHR 0xA6, CHR 0xE3, CHR 0x81,
        CHR 0xA7, CHR 0xE3, CHR 0x81, CHR 0x99, CHR 0xE3, CHR 0x81, CHR 0x8B, CHR 0xEF, CHR 0xBC,
        CHR 0x9F],
      Options = [''30'', ''60''], CorrectAnswer = 0, Explanation = [], Difficulty = 2,
      EstimatedTime = 60, Encouragement = [], ProblemType = []\<rparr>"

definition diagram_plain_problem :: Problem where
  "diagram_plain_problem =
     \<lparr>Title = ''Look'',
      Description =
        [CHR 0xE4, CHR 0xB8, CHR 0x8B, CHR 0xE3, CHR 0x81, CHR 0xAE, CHR 0xE5, CHR 0x9B, CHR 0xB3,
        CHR 0xE3, CHR 0x82, CHR 0x92, CHR 0xE8, CHR 0xA6, CHR 0x8B, CHR 0xE3, CHR 0x81, CHR 0xA6,
        CHR 0xE7, CHR 0xAD, CHR 0x94, CHR 0xE3, CHR 0x81, CHR 0x88, CHR 0xE3, CHR 0x81, CHR 0xAA,
        CHR 0xE3, CHR 0x81, CHR 0x95, CHR 0xE3, CHR 0x81, CHR 0x84, CHR 0xE3, CHR 0x80, CHR 0x82],
      Options = [''yes'', ''no''], CorrectAnswer = 0, Explanation = [], Difficulty = 2,
      EstimatedTime = 60, Encouragement = [], ProblemType = []\<rparr>"

text \<open>
  A backend whose answer is one fragment that holds a problem in the \<^verbatim>\<open>KEY: value\<close>
  layout, with a time of \<open>-5\<close>. In the JSON line a line feed of the text is written
  \<^verbatim>\<open>\n\<close> (\<open>CHR 0x5C\<close> is the backslash).
\<close>

definition sum_problem_text :: string where
  "sum_problem_text =
     ''TITLE: Sum'' @ [CHR 0x0A] @ ''DESCRIPTION: What is one plus one?'' @ [CHR 0x0A] @
     ''OPTION1: 1'' @ [CHR 0x0A] @ ''OPTION2: 2'' @ [CHR 0x0A] @ ''CORRECT: 2'' @ [CHR 0x0A] @
     ''DIFFICULTY: 1'' @ [CHR 0x0A] @ ''TIME: -5''"

definition sum_problem_line :: string where
  \<open>sum_problem_line =
     ''{"response":"TITLE: Sum'' @ [CHR 0x5C] @ ''nDESCRIPTION: What is one plus one?'' @
     [CHR 0x5C] @ ''nOPTION1: 1'' @ [CHR 0x5C] @ ''nOPTION2: 2'' @ [CHR 0x5C] @
     ''nCORRECT: 2'' @ [CHR 0x5C] @ ''nDIFFICULTY: 1'' @ [CHR 0x5C] @
     ''nTIME: -5","done":true}''\<close>

definition unmarshal_sum :: "string \<Rightarrow> OllamaResponse option" where
  "unmarshal_sum line =
     (if line = sum_problem_line
      then Some \<lparr>Response = sum_problem_text, Done = True, Error = []\<rparr>
      else None)"

definition answers_sum :: "Prompt \<Rightarrow> Transport" where
  "answers_sum prompt =
     Responded \<lparr>StatusCode = 200, BodyText = [], Lines = [sum_problem_line], ScanErr = None\<rparr>"

definition sum_problem :: Problem where
  "sum_problem =
     \<lparr>Title = ''Sum'', Description = ''What is one plus one?'',
      Options = [''1'', ''2'', [], []], CorrectAnswer = 1, Explanation = [], Difficulty = 1,
      EstimatedTime = 300, Encouragement = [], ProblemType = []\<rparr>"

text \<open>
  The problems that \<open>n\<close> consecutive calls of \<^verbatim>\<open>generateOfflineProblem\<close> return, each
  call running on the engine that the one before has left.
\<close>

fun offlineSequence :: "nat \<Rightarrow> StudyContext \<Rightarrow> Engine \<Rightarrow> Problem list" where
  "offlineSequence 0 sc e = []"
| "offlineSequence (Suc n) sc e =
     (case generateOfflineProblem sc e of (p, e') \<Rightarrow> p # offlineSequence n sc e')"

text \<open>
  The counter key and the entry list that the offline bank rotates through for a study
  context: those of \<^verbatim>\<open>getMathProblem\<close> for mathematics and arithmetic in the grades
  1 to 3, those of \<^verbatim>\<open>getEnglishProblem\<close> for English in any grade, none otherwise (a
  single fixed problem is returned).
\<close>

definition rotation :: "StudyContext \<Rightarrow> (string \<times> Problem list) option" where
  "rotation sc =
     (if Subject sc = subject_math \<or> Subject sc = subject_arithmetic
      then map_option (Pair (mathKey (Grade sc))) (mathProblems (Grade sc))
      else if Subject sc = subject_english then Some (englishKey (Grade sc), englishProblems)
      else None)"

text \<open>
  A problem on an area whose description refers to a diagram that the problem does not
  hold: "find the area of the rectangle in the diagram below" (U+4E0B U+306E U+56F3
  U+306E U+9577 U+65B9 U+5F62 U+306E U+9762 U+7A4D U+3092 U+6C42 U+3081 U+306A U+3055
  U+3044 U+3002).
\<close>

definition area_problem :: Problem where
  "area_problem =
     \<lparr>Title = ''Area'',
      Description =
        [CHR 0xE4, CHR 0xB8, CHR 0x8B, CHR 0xE3, CHR 0x81, CHR 0xAE, CHR 0xE5, CHR 0x9B, CHR 0xB3,
        CHR 0xE3, CHR 0x81, CHR 0xAE, CHR 0xE9, CHR 0x95, CHR 0xB7, CHR 0xE6, CHR 0x96, CHR 0xB9,
        CHR 0xE5, CHR 0xBD, CHR 0xA2, CHR 0xE3, CHR 0x81, CHR 0xAE, CHR 0xE9, CHR 0x9D, CHR 0xA2,
        CHR 0xE7, CHR 0xA9, CHR 0x8D, CHR 0xE3, CHR 0x82, CHR 0x92, CHR 0xE6, CHR 0xB1, CHR 0x82,
        CHR 0xE3, CHR 0x82, CHR 0x81, CHR 0xE3, CHR 0x81, CHR 0xAA, CHR 0xE3, CHR 0x81, CHR 0x95,
        CHR 0xE3, CHR 0x81, CHR 0x84, CHR 0xE3, CHR 0x80, CHR 0x82],
      Options = [''6'', ''8''], CorrectAnswer = 0, Explanation = [], Difficulty = 2,
      EstimatedTime = 60, Encouragement = [], ProblemType = []\<rparr>"

text \<open>
  The \<^verbatim>\<open>KEY: value\<close> layout of a record, given as the list of its fields: one line
  \<^verbatim>\<open>KEY: value\<close> per field, the lines joined by line feeds. A value of several lines
  holds line feeds itself: its second and later lines are the continuation lines.
\<close>

fun joinLines :: "string list \<Rightarrow> string" where
  "joinLines [] = []"
| "joinLines [l] = l"
| "joinLines (l # m # ls) = l @ CHR 0x0A # joinLines (m # ls)"

definition renderField :: "string \<times> string \<Rightarrow> string" where
  "renderField f = fst f @ '': '' @ snd f"

definition renderRecord :: "(string \<times> string) list \<Rightarrow> string" where
  "renderRecord fs = joinLines (map renderField fs)"

text \<open>
  A key of the layout is not empty, has no white space around it and holds no colon
  and no line feed. A value of the layout consists of lines that are not empty and have
  no white space around them, with no colon on a continuation line.
\<close>

definition layoutKey :: "string \<Rightarrow> bool" where
  "layoutKey k = (k \<noteq> [] \<and> TrimSpace k = k \<and> CHR '':'' \<notin> set k \<and> CHR 0x0A \<notin> set k)"

definition layoutValue :: "string \<Rightarrow> bool" where
  "layoutValue v =
     (list_all (\<lambda>l. l \<noteq> [] \<and> TrimSpace l = l) (SplitLines v) \<and>
      list_all (\<lambda>l. CHR '':'' \<notin> set l) (tl (SplitLines v)))"

definition layoutRecord :: "(string \<times> string) list \<Rightarrow> bool" where
  "layoutRecord fs =
     (distinct (map fst fs) \<and> list_all (\<lambda>f. layoutKey (fst f) \<and> layoutValue (snd f)) fs \<and>
      \<not> Contains (renderRecord fs) fence)"

text \<open>
  In the proofs: a string that starts with none of the runes \<open>ws\<close>, and a list of
  runes each of which is one byte or made of bytes above the ASCII range.
\<close>

definition startsWithNone :: "string list \<Rightarrow> string \<Rightarrow> bool" where
  "startsWithNone ws s = (\<not> list_ex (HasPrefix s) ws)"

definition runesOk :: "string list \<Rightarrow> bool" where
  "runesOk ws =
     list_all (\<lambda>w. w \<noteq> [] \<and> (length w = 1 \<or> list_all (\<lambda>c. (128::nat) \<le> of_char c) w)) ws"

text \<open>
  In the proofs: the lines that a field takes in the layout (its \<^verbatim>\<open>KEY: value\<close> line,
  then the continuation lines).
\<close>

definition fieldLines :: "string \<times> string \<Rightarrow> string list" where
  "fieldLines f = (fst f @ '': '' @ hd (SplitLines (snd f))) # tl (SplitLines (snd f))"

text \<open>
  A record of the examples, with a value of three lines (its first line holds a colon),
  and its text in the layout.
\<close>

definition example_record :: "(string \<times> string) list" where
  "example_record =
     [(''TITLE'', ''Sum of angles''),
      (''EXPLANATION'',
         ''Step 1: add the two angles'' @ [CHR 0x0A] @ ''then subtract from 180'' @ [CHR 0x0A] @
         ''the rest is angle B''),
      (''CORRECT'', ''3'')]"

definition example_text :: string where
  "example_text =
     ''TITLE: Sum of angles'' @ [CHR 0x0A] @
     ''EXPLANATION: Step 1: add the two angles'' @ [CHR 0x0A] @
     ''then subtract from 180'' @ [CHR 0x0A] @
     ''the rest is angle B'' @ [CHR 0x0A] @
     ''CORRECT: 3''"

section \<open>Properties\<close>

subsection \<open>The health state\<close>

lemma wrap64_small: "- (2 ^ 63) \<le> i \<Longrightarrow> i < 2 ^ 63 \<Longrightarrow> wrap64 i = i"
  by (simp add: wrap64_def)

lemma wrap64_Suc: "wrap64 (wrap64 i + 1) = wrap64 (i + 1)"
proof -
  have "((i + 2 ^ 63) mod 2 ^ 64 + 1) mod 2 ^ 64 = (i + 2 ^ 63 + 1) mod (2 ^ 64 :: int)"
    by (rule mod_add_left_eq)
  then show ?thesis by (simp add: wrap64_def ac_simps)
qed

lemma reachable_reachableIn: "reachable e \<longleftrightarrow> (\<exists>n. reachableIn n e)"
proof
  assume "reachable e"
  then show "\<exists>n. reachableIn n e"
    by (induction rule: reachable.induct) (auto intro: reachableIn.intros)
next
  assume "\<exists>n. reachableIn n e"
  then obtain n where "reachableIn n e" by blast
  then show "reachable e"
    by (induction rule: reachableIn.induct) (auto intro: reachable.intros)
qed

text \<open>
  While fewer than \<open>2 ^ 63\<close> operations have run, the count is between zero and the
  number of operations, and the engine is online exactly when the count is zero.
\<close>

lemma failureCount_bounded:
  "reachableIn n e \<Longrightarrow> n < 2 ^ 63 \<Longrightarrow>
   0 \<le> failureCount e \<and> failureCount e \<le> int n \<and> (isOnline e \<longleftrightarrow> failureCount e = 0)"
proof (induction rule: reachableIn.induct)
  case (new t)
  show ?case by (simp add: NewEngine_def setOnline_def)
next
  case (online n e t)
  show ?case by (simp add: setOnline_def)
next
  case (failure n e t)
  then have b: "0 \<le> failureCount e" "failureCount e \<le> int n" and n: "int n + 1 < 2 ^ 63"
    by simp_all
  then have "wrap64 (failureCount e + 1) = failureCount e + 1"
    by (intro wrap64_small) simp_all
  with b show ?case by (simp add: recordFailure_def)
next
  case (success n e t)
  show ?case by (simp add: recordSuccess_def)
qed

lemma failures_reachable: "reachable (failures n)"
  by (induction n) (auto intro: reachable.intros)

lemma failures_count: "failureCount (failures n) = wrap64 (int n)"
proof (induction n)
  case 0
  show ?case by (simp add: NewEngine_def setOnline_def wrap64_def)
next
  case (Suc n)
  have "failureCount (failures (Suc n)) = wrap64 (wrap64 (int n) + 1)"
    by (simp add: recordFailure_def Suc)
  also have "\<dots> = wrap64 (int n + 1)" by (rule wrap64_Suc)
  finally show ?case by (simp add: ac_simps)
qed

lemma failures_count_next: "failureCount (recordFailure t (failures n)) = wrap64 (int n + 1)"
  by (simp add: recordFailure_def failures_count wrap64_Suc)

lemma failures_offline: "0 < n \<Longrightarrow> \<not> isOnline (failures n)"
  by (cases n) (simp_all add: recordFailure_def)

declare failures.simps [simp del]

text \<open>
  Claim C10, as amended. In every state that \<^verbatim>\<open>NewEngine\<close> and a sequence of fewer
  than \<open>2 ^ 63 - 1\<close> operations \<^verbatim>\<open>recordSuccess\<close>, \<^verbatim>\<open>recordFailure\<close> and \<^verbatim>\<open>setOnline\<close>
  reach, the engine is online exactly when the failure count is zero;
  \<^verbatim>\<open>recordFailure\<close> adds one to the count (the new count is strictly larger, and the
  engine is offline), and \<^verbatim>\<open>recordSuccess\<close> sets it to zero (and the engine online).
\<close>

theorem C10_health_state_invariant:
  assumes "reachableIn n e" and "n < 2 ^ 63 - 1"
  shows "(isOnline e \<longleftrightarrow> failureCount e = 0)
       \<and> failureCount (recordFailure now e) = failureCount e + 1
       \<and> failureCount e < failureCount (recordFailure now e)
       \<and> \<not> isOnline (recordFailure now e)
       \<and> failureCount (recordSuccess now e) = 0
       \<and> isOnline (recordSuccess now e)"
proof -
  from assms(2) have "n < 2 ^ 63" by simp
  with assms(1) have b: "0 \<le> failureCount e" "failureCount e \<le> int n"
    and inv: "isOnline e \<longleftrightarrow> failureCount e = 0"
    by (simp_all add: failureCount_bounded)
  from assms(2) have "int n + 1 < 2 ^ 63" by simp
  with b have "wrap64 (failureCount e + 1) = failureCount e + 1"
    by (intro wrap64_small) simp_all
  with inv show ?thesis by (simp add: recordFailure_def recordSuccess_def)
qed

theorem C10_health_state_witness:
  "reachableIn 2 (recordFailure 7 (recordFailure 5 (NewEngine 1)))
   \<and> \<not> isOnline (recordFailure 7 (recordFailure 5 (NewEngine 1)))
   \<and> failureCount (recordFailure 7 (recordFailure 5 (NewEngine 1))) = 2
   \<and> failureCount (recordFailure 9 (recordFailure 7 (recordFailure 5 (NewEngine 1)))) = 3
   \<and> failureCount (recordSuccess 9 (recordFailure 7 (recordFailure 5 (NewEngine 1)))) = 0
   \<and> isOnline (recordSuccess 9 (recordFailure 7 (recordFailure 5 (NewEngine 1))))"
proof -
  have "reachableIn (Suc (Suc 0)) (recordFailure 7 (recordFailure 5 (NewEngine 1)))"
    by (intro reachableIn.intros)
  then have r: "reachableIn 2 (recordFailure 7 (recordFailure 5 (NewEngine 1)))"
    by (simp add: numeral_2_eq_2)
  have c: "failureCount (recordFailure 7 (recordFailure 5 (NewEngine 1))) = 2"
    by (simp add: recordFailure_def NewEngine_def setOnline_def wrap64_def)
  have "(2::nat) < 2 ^ 63 - 1" by simp
  from C10_health_state_invariant [OF r this, of 9] r c show ?thesis by simp
qed

text \<open>
  The claim as stated, for every reachable state, fails where the 64-bit count wraps.
  After \<open>2 ^ 63 - 1\<close> consecutive failures the count is \<open>2 ^ 63 - 1\<close>, and one more
  \<^verbatim>\<open>recordFailure\<close> makes it \<open>- (2 ^ 63)\<close>, which is smaller; after \<open>2 ^ 64\<close>
  consecutive failures the count is zero again and the engine is offline.
\<close>

theorem C10_wrap_counterexample:
  "reachable (failures (2 ^ 63 - 1))
   \<and> failureCount (failures (2 ^ 63 - 1)) = 2 ^ 63 - 1
   \<and> failureCount (recordFailure 1 (failures (2 ^ 63 - 1))) = - (2 ^ 63)
   \<and> failureCount (recordFailure 1 (failures (2 ^ 63 - 1))) < failureCount (failures (2 ^ 63 - 1))
   \<and> reachable (failures (2 ^ 64))
   \<and> \<not> isOnline (failures (2 ^ 64))
   \<and> failureCount (failures (2 ^ 64)) = 0"
proof -
  have a: "failureCount (failures (2 ^ 63 - 1)) = 2 ^ 63 - 1"
    unfolding failures_count by (simp add: wrap64_def)
  have b: "failureCount (recordFailure 1 (failures (2 ^ 63 - 1))) = - (2 ^ 63)"
    unfolding failures_count_next by (simp add: wrap64_def)
  have c: "failureCount (failures (2 ^ 64)) = 0"
    unfolding failures_count by (simp add: wrap64_def)
  have d: "\<not> isOnline (failures (2 ^ 64))"
    by (rule failures_offline) simp
  from a b c d failures_reachable [of "2 ^ 63 - 1"] failures_reachable [of "2 ^ 64"]
  show ?thesis by simp
qed

subsection \<open>Evaluation and byte strings\<close>

lemmas trim_eval =
  TrimSpace_def TrimLeft_def TrimRight_def trimLeading.simps leadWidth_def space_runes_def

lemma HasPrefix_append: "HasPrefix (p @ s) p"
  by (induction p) simp_all

lemma Contains_self_prefix: "Contains (p @ s) p"
  using HasPrefix_append [of p s] by (cases "p @ s") auto

lemma Contains_Cons: "Contains s sub \<Longrightarrow> Contains (c # s) sub"
  by simp

lemma Contains_append_left: "Contains s sub \<Longrightarrow> Contains (a @ s) sub"
  by (induction a) simp_all

subsection \<open>The streaming client\<close>

lemma readStream_passed:
  "\<forall>l\<in>set pre. passed unmarshal l \<Longrightarrow>
   readStream unmarshal (pre @ rest) full =
   readStream unmarshal rest (full @ concat (map Response (fragments unmarshal pre)))"
proof (induction pre arbitrary: full)
  case Nil
  show ?case by (simp add: fragments_def)
next
  case (Cons l pre)
  from Cons.prems have tl: "\<forall>l\<in>set pre. passed unmarshal l" and hd: "passed unmarshal l"
    by simp_all
  show ?case
  proof (cases "l = []")
    case True
    with Cons.IH [OF tl] show ?thesis by (simp add: fragments_def map_filter_simps)
  next
    case False
    show ?thesis
    proof (cases "unmarshal l")
      case None
      with False Cons.IH [OF tl] show ?thesis by (simp add: fragments_def map_filter_simps)
    next
      case (Some r)
      with hd False have "Error r = []" and "\<not> Done r" by (simp_all add: passed_def)
      with Some False Cons.IH [OF tl, of "full @ Response r"] show ?thesis
        by (simp add: fragments_def map_filter_simps)
    qed
  qed
qed

lemma readStream_no_error:
  "\<forall>r\<in>set (fragments unmarshal lines). Error r = [] \<Longrightarrow>
   readStream unmarshal lines full =
   Inr (full @ concat (map Response (upToDone (fragments unmarshal lines))))"
proof (induction lines arbitrary: full)
  case Nil
  show ?case by (simp add: fragments_def map_filter_simps)
next
  case (Cons l lines)
  show ?case
  proof (cases "l = [] \<or> unmarshal l = None")
    case True
    with Cons.prems have "\<forall>r\<in>set (fragments unmarshal lines). Error r = []"
      by (auto simp: fragments_def map_filter_simps)
    from Cons.IH [OF this] True show ?thesis
      by (auto simp: fragments_def map_filter_simps)
  next
    case False
    then obtain r where r: "unmarshal l = Some r" and ne: "l \<noteq> []" by auto
    with Cons.prems have e: "Error r = []"
      and rest: "\<forall>r\<in>set (fragments unmarshal lines). Error r = []"
      by (simp_all add: fragments_def map_filter_simps)
    from Cons.IH [OF rest, of "full @ Response r"] r ne e show ?thesis
      by (simp add: fragments_def map_filter_simps)
  qed
qed

text \<open>
  Claim C5. When the response has status 200 and the loop reaches a line that decodes
  to a fragment with a non-empty error field (every line before it is passed: empty,
  not decoded, or a fragment with no error and no \<open>Done\<close> flag), \<^verbatim>\<open>generate\<close> fails
  with the error \<^verbatim>\<open>ollama...: <message>\<close>, whose text contains the message of the
  fragment. The result is the error alone: nothing of the text accumulated from the
  earlier fragments is returned, and the lines after the fragment are not read.
\<close>

theorem C5_error_fragment_fails:
  assumes "StatusCode resp = 200"
    and "Lines resp = pre @ line # post"
    and "\<forall>l\<in>set pre. passed unmarshal l"
    and "line \<noteq> []"
    and "unmarshal line = Some r"
    and "Error r \<noteq> []"
  shows "generate unmarshal (Responded resp) = Fail (OllamaProcessingError (Error r))
       \<and> Contains (errorString (OllamaProcessingError (Error r))) (Error r)"
proof -
  have "readStream unmarshal (pre @ line # post) [] =
        readStream unmarshal (line # post) ([] @ concat (map Response (fragments unmarshal pre)))"
    using assms(3) by (rule readStream_passed)
  also have "\<dots> = Inl (OllamaProcessingError (Error r))"
    using assms(4-6) by simp
  finally have "generate unmarshal (Responded resp) = Fail (OllamaProcessingError (Error r))"
    using assms(1,2) by (simp add: generate_def)
  moreover have "Contains (errorString (OllamaProcessingError (Error r))) (Error r)"
    by (simp only: errorString.simps) (intro Contains_append_left Contains_self_prefix [of _ "[]", simplified])
  ultimately show ?thesis by simp
qed

theorem C5_error_fragment_witness:
  \<open>generate unmarshal_examples
     (Responded \<lparr>StatusCode = 200, BodyText = [],
        Lines = [''{"response":"A","done":false}'', [], ''this is not JSON'',
                 ''{"response":"B","done":false}'', ''{"error":"model not found"}'',
                 ''{"response":"C","done":true}''],
        ScanErr = None\<rparr>)
   = Fail (OllamaProcessingError ''model not found'')
   \<and> Contains (errorString (OllamaProcessingError ''model not found'')) ''model not found''\<close>
  using C5_error_fragment_fails
    [where unmarshal = unmarshal_examples
       and pre = \<open>[''{"response":"A","done":false}'', [], ''this is not JSON'',
                    ''{"response":"B","done":false}'']\<close>
       and line = \<open>''{"error":"model not found"}''\<close>
       and post = \<open>[''{"response":"C","done":true}'']\<close>
       and r = "\<lparr>Response = [], Done = False, Error = ''model not found''\<rparr>"
       and resp = \<open>\<lparr>StatusCode = 200, BodyText = [],
          Lines = [''{"response":"A","done":false}'', [], ''this is not JSON'',
                   ''{"response":"B","done":false}'', ''{"error":"model not found"}'',
                   ''{"response":"C","done":true}''],
          ScanErr = None\<rparr>\<close>]
  by (simp add: passed_def unmarshal_examples_def)

text \<open>
  Claim C6, as amended. When the response has status 200, the scanner reports no error
  and no fragment of the stream carries an error, \<^verbatim>\<open>generate\<close> returns the
  concatenation of the \<open>Response\<close> fields of the fragments in arrival order, up to and
  including the first fragment whose \<open>Done\<close> flag is set, with leading and trailing
  white space removed (\<^verbatim>\<open>strings.TrimSpace\<close>). Empty lines and lines that do not
  decode contribute nothing, and neither do the fragments after the first \<open>Done\<close>.
\<close>

theorem C6_generate_trimmed_concatenation:
  assumes "StatusCode resp = 200"
    and "ScanErr resp = None"
    and "\<forall>r\<in>set (fragments unmarshal (Lines resp)). Error r = []"
  shows "generate unmarshal (Responded resp) =
         Ok (TrimSpace (concat (map Response (upToDone (fragments unmarshal (Lines resp))))))"
proof -
  from assms(3)
  have "readStream unmarshal (Lines resp) [] =
        Inr ([] @ concat (map Response (upToDone (fragments unmarshal (Lines resp)))))"
    by (rule readStream_no_error)
  with assms(1,2) show ?thesis by (simp add: generate_def)
qed

text \<open>
  The three fragments \<open>A\<close>, \<open>B\<close>, \<open>C\<close> (the last one done) give exactly \<open>ABC\<close>, also
  with a line that is not JSON between them and a fragment after the last.
\<close>

theorem C6_generate_ABC_witness:
  \<open>generate unmarshal_examples
     (Responded \<lparr>StatusCode = 200, BodyText = [],
        Lines = [''{"response":"A","done":false}'', ''this is not JSON'',
                 ''{"response":"B","done":false}'', ''{"response":"C","done":true}'',
                 ''{"response":"D","done":false}''],
        ScanErr = None\<rparr>)
   = Ok ''ABC''\<close>
  using C6_generate_trimmed_concatenation
    [where unmarshal = unmarshal_examples
       and resp = \<open>\<lparr>StatusCode = 200, BodyText = [],
          Lines = [''{"response":"A","done":false}'', ''this is not JSON'',
                   ''{"response":"B","done":false}'', ''{"response":"C","done":true}'',
                   ''{"response":"D","done":false}''],
          ScanErr = None\<rparr>\<close>]
  by (simp add: fragments_def map_filter_simps unmarshal_examples_def trim_eval)

text \<open>
  The claim as stated (the result is the concatenation itself) fails for a fragment
  whose text starts or ends with white space: the single fragment \<open>'' A ''\<close> gives
  \<open>''A''\<close>.
\<close>

theorem C6_concatenation_counterexample:
  \<open>generate unmarshal_examples
     (Responded \<lparr>StatusCode = 200, BodyText = [],
        Lines = [''{"response":" A ","done":true}''], ScanErr = None\<rparr>)
   = Ok ''A''
   \<and> concat (map Response (upToDone (fragments unmarshal_examples
         [''{"response":" A ","done":true}'']))) = '' A ''\<close>
  by (simp add: generate_def fragments_def map_filter_simps unmarshal_examples_def trim_eval)

subsection \<open>The public operations: failure handling\<close>

lemma nextProblem_health:
  "isOnline (snd (nextProblem k ps e)) = isOnline e
   \<and> failureCount (snd (nextProblem k ps e)) = failureCount e
   \<and> lastCheck (snd (nextProblem k ps e)) = lastCheck e"
  by (simp add: nextProblem_def Let_def)

lemma generateOfflineProblem_health:
  "isOnline (snd (generateOfflineProblem sc e)) = isOnline e
   \<and> failureCount (snd (generateOfflineProblem sc e)) = failureCount e
   \<and> lastCheck (snd (generateOfflineProblem sc e)) = lastCheck e"
  by (simp add: generateOfflineProblem_def getMathProblem_def getEnglishProblem_def
        nextProblem_health split: option.split)

text \<open>
  Claim C1. In a call of \<^verbatim>\<open>GeneratePersonalizedProblem\<close> whose request reaches the
  backend (the prompt is built): when \<^verbatim>\<open>generate\<close> returns an error, the call
  returns the problem of the offline bank with a nil error, and the engine has recorded
  the failure (the count is incremented, in 64 bits, and the engine is offline); when \<^verbatim>\<open>generate\<close>
  returns a text and \<^verbatim>\<open>parseProblemResponse\<close> fails on it, the call returns that
  error, and the engine is the one after \<^verbatim>\<open>recordSuccess\<close>: no offline lookup has
  taken place. \<^verbatim>\<open>GenerateFeedback\<close> does the same with the offline feedback and
  \<^verbatim>\<open>parseFeedbackResponse\<close>.
\<close>

theorem C1_failure_asymmetry:
  "(buildPersonalizedPrompt sc = Ok prompt \<and> generate unmarshal (backend prompt) = Fail err \<longrightarrow>
      GeneratePersonalizedProblem unmarshal backend now sc e =
        (Ok (fst (generateOfflineProblem sc (recordFailure now e))),
         snd (generateOfflineProblem sc (recordFailure now e)))
      \<and> failureCount (snd (GeneratePersonalizedProblem unmarshal backend now sc e)) =
          wrap64 (failureCount e + 1)
      \<and> \<not> isOnline (snd (GeneratePersonalizedProblem unmarshal backend now sc e)))
   \<and> (buildPersonalizedPrompt sc = Ok prompt \<and> generate unmarshal (backend prompt) = Ok response
        \<and> parseProblemResponse response = Fail perr \<longrightarrow>
      GeneratePersonalizedProblem unmarshal backend now sc e = (Fail perr, recordSuccess now e))
   \<and> (buildFeedbackPrompt req = Ok fprompt \<and> generate unmarshal (backend fprompt) = Fail err \<longrightarrow>
      GenerateFeedback unmarshal backend now req e =
        (Ok (generateOfflineFeedback req), recordFailure now e))
   \<and> (buildFeedbackPrompt req = Ok fprompt \<and> generate unmarshal (backend fprompt) = Ok response
        \<and> parseFeedbackResponse response = Fail perr \<longrightarrow>
      GenerateFeedback unmarshal backend now req e = (Fail perr, recordSuccess now e))"
proof (intro conjI impI)
  assume a: "buildPersonalizedPrompt sc = Ok prompt \<and> generate unmarshal (backend prompt) = Fail err"
  then show r: "GeneratePersonalizedProblem unmarshal backend now sc e =
        (Ok (fst (generateOfflineProblem sc (recordFailure now e))),
         snd (generateOfflineProblem sc (recordFailure now e)))"
    by (simp add: GeneratePersonalizedProblem_def shouldTryAI_def split: prod.split)
  show "failureCount (snd (GeneratePersonalizedProblem unmarshal backend now sc e)) =
          wrap64 (failureCount e + 1)"
    by (simp add: r generateOfflineProblem_health) (simp add: recordFailure_def)
  show "\<not> isOnline (snd (GeneratePersonalizedProblem unmarshal backend now sc e))"
    by (simp add: r generateOfflineProblem_health) (simp add: recordFailure_def)
next
  assume "buildPersonalizedPrompt sc = Ok prompt \<and> generate unmarshal (backend prompt) = Ok response
        \<and> parseProblemResponse response = Fail perr"
  then show "GeneratePersonalizedProblem unmarshal backend now sc e = (Fail perr, recordSuccess now e)"
    by (simp add: GeneratePersonalizedProblem_def shouldTryAI_def)
next
  assume "buildFeedbackPrompt req = Ok fprompt \<and> generate unmarshal (backend fprompt) = Fail err"
  then show "GenerateFeedback unmarshal backend now req e =
        (Ok (generateOfflineFeedback req), recordFailure now e)"
    by (simp add: GenerateFeedback_def shouldTryAI_def)
next
  assume "buildFeedbackPrompt req = Ok fprompt \<and> generate unmarshal (backend fprompt) = Ok response
        \<and> parseFeedbackResponse response = Fail perr"
  then show "GenerateFeedback unmarshal backend now req e = (Fail perr, recordSuccess now e)"
    by (simp add: GenerateFeedback_def shouldTryAI_def)
qed

lemma generate_unreachable:
  "generate unmarshal (unreachable prompt) = Fail (HTTPRequestError ''connection refused'')"
  by (simp add: generate_def unreachable_def)

lemma generate_answers_without_fields:
  "generate unmarshal_examples (answers_without_fields prompt) = Ok ''no fields here''"
  by (simp add: generate_def answers_without_fields_def unmarshal_examples_def trim_eval)

lemma parseKeyValueResponse_no_fields: "parseKeyValueResponse ''no fields here'' = []"
  by (simp add: parseKeyValueResponse_def fence_def parseLine_def trim_eval)

lemma buildPersonalizedPrompt_math_grade3:
  "buildPersonalizedPrompt math_grade3 =
   Ok (ProblemPrompt (gradeText ! 3) subject_math 3 True 3)"
  by (simp add: buildPersonalizedPrompt_def math_grade3_def gradeText_def)

lemma buildFeedbackPrompt_general_request:
  "buildFeedbackPrompt general_request =
   Ok (FeedbackPrompt True (Description general_problem) ''365''
         (Options general_problem ! 1) (feedback_isMathProblem (Description general_problem)))"
  by (simp add: buildFeedbackPrompt_def general_request_def Let_def) (simp add: general_problem_def)

lemma offline_math_grade3_first:
  "counter e (mathKey 3) = 0 \<Longrightarrow> fst (generateOfflineProblem math_grade3 e) = math3_quadratic"
  by (simp add: generateOfflineProblem_def math_grade3_def getMathProblem_def mathProblems_def
        nextProblem_def)

theorem C1_failure_asymmetry_witness:
  "fst (GeneratePersonalizedProblem unmarshal_examples unreachable 10 math_grade3 (NewEngine 0))
     = Ok math3_quadratic
   \<and> failureCount
       (snd (GeneratePersonalizedProblem unmarshal_examples unreachable 10 math_grade3 (NewEngine 0)))
     = 1
   \<and> GeneratePersonalizedProblem unmarshal_examples answers_without_fields 10 math_grade3
       (NewEngine 0)
     = (Fail (ResponseParseError ''no fields here''), recordSuccess 10 (NewEngine 0))
   \<and> GenerateFeedback unmarshal_examples unreachable 10 general_request (NewEngine 0)
     = (Ok (generateOfflineFeedback general_request), recordFailure 10 (NewEngine 0))
   \<and> GenerateFeedback unmarshal_examples answers_without_fields 10 general_request (NewEngine 0)
     = (Fail (ResponseParseError ''no fields here''), recordSuccess 10 (NewEngine 0))"
proof -
  have c: "counter (recordFailure 10 (NewEngine 0)) (mathKey 3) = 0"
    by (simp add: counter_def recordFailure_def NewEngine_def setOnline_def)
  have f: "failureCount (recordFailure 10 (NewEngine 0)) = 1"
    by (simp add: recordFailure_def NewEngine_def setOnline_def wrap64_def)
  have pp: "parseProblemResponse ''no fields here'' = Fail (ResponseParseError ''no fields here'')"
    by (simp add: parseProblemResponse_def parseKeyValueResponse_no_fields)
  have pf: "parseFeedbackResponse ''no fields here'' = Fail (ResponseParseError ''no fields here'')"
    by (simp add: parseFeedbackResponse_def parseKeyValueResponse_no_fields)
  note down =
    C1_failure_asymmetry
      [where sc = math_grade3 and req = general_request and unmarshal = unmarshal_examples
         and backend = unreachable and now = 10 and e = "NewEngine 0"
         and prompt = "ProblemPrompt (gradeText ! 3) subject_math 3 True 3"
         and fprompt = "FeedbackPrompt True (Description general_problem) ''365''
           (Options general_problem ! 1) (feedback_isMathProblem (Description general_problem))"
         and err = "HTTPRequestError ''connection refused''"]
  note up =
    C1_failure_asymmetry
      [where sc = math_grade3 and req = general_request and unmarshal = unmarshal_examples
         and backend = answers_without_fields and now = 10 and e = "NewEngine 0"
         and prompt = "ProblemPrompt (gradeText ! 3) subject_math 3 True 3"
         and fprompt = "FeedbackPrompt True (Description general_problem) ''365''
           (Options general_problem ! 1) (feedback_isMathProblem (Description general_problem))"
         and response = "''no fields here''"
         and perr = "ResponseParseError ''no fields here''"]
  from down have
    "fst (GeneratePersonalizedProblem unmarshal_examples unreachable 10 math_grade3 (NewEngine 0))
       = Ok math3_quadratic"
    "failureCount
       (snd (GeneratePersonalizedProblem unmarshal_examples unreachable 10 math_grade3 (NewEngine 0)))
       = 1"
    "GenerateFeedback unmarshal_examples unreachable 10 general_request (NewEngine 0)
       = (Ok (generateOfflineFeedback general_request), recordFailure 10 (NewEngine 0))"
    by (simp_all add: buildPersonalizedPrompt_math_grade3 buildFeedbackPrompt_general_request
          generate_unreachable offline_math_grade3_first [OF c] f generateOfflineProblem_health)
  moreover from up have
    "GeneratePersonalizedProblem unmarshal_examples answers_without_fields 10 math_grade3
       (NewEngine 0)
       = (Fail (ResponseParseError ''no fields here''), recordSuccess 10 (NewEngine 0))"
    "GenerateFeedback unmarshal_examples answers_without_fields 10 general_request (NewEngine 0)
       = (Fail (ResponseParseError ''no fields here''), recordSuccess 10 (NewEngine 0))"
    by (simp_all add: buildPersonalizedPrompt_math_grade3 buildFeedbackPrompt_general_request
          generate_answers_without_fields pp pf)
  ultimately show ?thesis by simp
qed

subsection \<open>The validator\<close>

lemma HasPrefix_append_sub: "HasPrefix s (a @ b) \<Longrightarrow> HasPrefix s a"
  by (induction s a rule: HasPrefix.induct) simp_all

lemma Contains_append_sub: "Contains s (a @ b) \<Longrightarrow> Contains s a"
proof (induction s)
  case Nil
  then show ?case by simp
next
  case (Cons c s)
  then show ?case by (auto dest: HasPrefix_append_sub)
qed

lemma Description_withDefaultTime [simp]: "Description (withDefaultTime p) = Description p"
  and Options_withDefaultTime [simp]: "Options (withDefaultTime p) = Options p"
  and CorrectAnswer_withDefaultTime [simp]: "CorrectAnswer (withDefaultTime p) = CorrectAnswer p"
  and Difficulty_withDefaultTime [simp]: "Difficulty (withDefaultTime p) = Difficulty p"
  by (simp_all add: withDefaultTime_def)

lemma validateProblem_hard:
  "passesHardChecks p \<Longrightarrow>
   validateProblem p =
     (if validate_isMathProblem (Description p)
      then (case find (Contains (Description p)) forbiddenPhrases of
              Some phrase \<Rightarrow> Fail (ForbiddenReference phrase)
            | None \<Rightarrow>
                if Contains (Description p) isosceles_triangle \<and> Contains (Description p) kw_angle
                then (case validateIsoscelesTriangleProblem (withDefaultTime p) of
                        Fail err \<Rightarrow> Fail (GeometricInconsistency err)
                      | Panic \<Rightarrow> Panic
                      | Ok u \<Rightarrow> Ok (withDefaultTime p))
                else Ok (withDefaultTime p))
      else Ok (withDefaultTime p))"
  unfolding validateProblem_def passesHardChecks_def Let_def withDefaultTime_def [symmetric]
  by (auto split: option.split)

lemma validateProblem_Ok:
  "validateProblem q = Ok p \<Longrightarrow> passesHardChecks q \<and> p = withDefaultTime q"
proof -
  assume ok: "validateProblem q = Ok p"
  have hard: "passesHardChecks q"
  proof (rule ccontr)
    assume "\<not> passesHardChecks q"
    then have "\<exists>err. validateProblem q = Fail err"
      unfolding validateProblem_def passesHardChecks_def by auto
    with ok show False by simp
  qed
  from ok have "p = withDefaultTime q"
    unfolding validateProblem_hard [OF hard]
    by (simp split: if_splits option.splits res.splits)
  with hard show ?thesis by simp
qed

text \<open>
  Claim C3 fails on the code: the test of \<^verbatim>\<open>buildFeedbackPrompt\<close> has the keywords
  "area", "volume" and "square", and the test of \<^verbatim>\<open>validateProblem\<close> has not. For the
  description of the area problem (it holds "area", U+9762 U+7A4D, and none of the
  eight keywords of the validator) the first test holds and the second does not; the
  validator then accepts the problem although its description contains the blocklisted
  phrase "the diagram below".
\<close>

theorem C3_area_is_math_for_feedback_only:
  "feedback_isMathProblem (Description area_problem)
   \<and> \<not> validate_isMathProblem (Description area_problem)
   \<and> Contains (Description area_problem) phrase_diagram_below
   \<and> validateProblem area_problem = Ok area_problem"
proof -
  have f: "feedback_isMathProblem (Description area_problem)"
    by (simp add: feedback_isMathProblem_def area_problem_def kw_area_def)
  have v: "\<not> validate_isMathProblem (Description area_problem)"
    by (simp add: validate_isMathProblem_def area_problem_def kw_angle_def kw_triangle_def
          kw_degree_def kw_computation_def kw_equation_def kw_radical_def kw_squared_def)
  have c: "Contains (Description area_problem) phrase_diagram_below"
    by (simp add: area_problem_def phrase_diagram_below_def)
  have h: "passesHardChecks area_problem"
    by (simp add: passesHardChecks_def area_problem_def)
  have "withDefaultTime area_problem = area_problem"
    by (simp add: withDefaultTime_def area_problem_def)
  with v have "validateProblem area_problem = Ok area_problem"
    by (simp add: validateProblem_hard [OF h])
  with f v c show ?thesis by simp
qed

text \<open>The two tests agree in one direction, and differ by the three keywords only.\<close>

lemma isMathProblem_tests:
  "feedback_isMathProblem d \<longleftrightarrow>
     validate_isMathProblem d \<or> Contains d kw_area \<or> Contains d kw_volume \<or> Contains d kw_square"
  by (auto simp: feedback_isMathProblem_def validate_isMathProblem_def)

text \<open>
  Claim C9. For a problem that passes the hard checks: when the validator judges the
  description quantitative and the description contains a phrase of the blocklist
  (the diagram below, for one), \<^verbatim>\<open>validateProblem\<close> rejects it with the error of a
  forbidden reference, naming a phrase of the blocklist that the description contains;
  when the validator does not judge the description quantitative, the problem is
  accepted (with the default time where the time is not positive), whatever phrase the
  description contains.
\<close>

theorem C9_blocklist_only_for_quantitative:
  assumes "passesHardChecks p"
  shows "(validate_isMathProblem (Description p)
            \<and> (\<exists>phrase\<in>set forbiddenPhrases. Contains (Description p) phrase) \<longrightarrow>
          (\<exists>phrase\<in>set forbiddenPhrases.
             Contains (Description p) phrase \<and> validateProblem p = Fail (ForbiddenReference phrase)))
       \<and> (\<not> validate_isMathProblem (Description p) \<longrightarrow> validateProblem p = Ok (withDefaultTime p))"
proof (intro conjI impI)
  assume a: "validate_isMathProblem (Description p)
            \<and> (\<exists>phrase\<in>set forbiddenPhrases. Contains (Description p) phrase)"
  then have "find (Contains (Description p)) forbiddenPhrases \<noteq> None"
    by (auto simp: find_None_iff)
  then obtain phrase where f: "find (Contains (Description p)) forbiddenPhrases = Some phrase"
    by auto
  then have "phrase \<in> set forbiddenPhrases" and "Contains (Description p) phrase"
    by (auto simp: find_Some_iff)
  moreover from a f have "validateProblem p = Fail (ForbiddenReference phrase)"
    by (simp add: validateProblem_hard [OF assms])
  ultimately show "\<exists>phrase\<in>set forbiddenPhrases.
             Contains (Description p) phrase \<and> validateProblem p = Fail (ForbiddenReference phrase)"
    by blast
next
  assume "\<not> validate_isMathProblem (Description p)"
  then show "validateProblem p = Ok (withDefaultTime p)"
    by (simp add: validateProblem_hard [OF assms])
qed

lemmas keyword_defs =
  kw_angle_def kw_triangle_def kw_degree_def kw_computation_def kw_equation_def kw_radical_def
  kw_squared_def

lemmas phrase_defs =
  forbiddenPhrases_def phrase_from_next_sentence_def phrase_diagram_below_def
  phrase_following_text_def phrase_next_character_def phrase_next_word_def
  phrase_next_formula_def phrase_next_diagram_def phrase_next_table_def phrase_next_material_def

theorem C9_blocklist_witness:
  "validateProblem diagram_angle_problem = Fail (ForbiddenReference phrase_diagram_below)
   \<and> validateProblem diagram_plain_problem = Ok diagram_plain_problem"
proof -
  have "passesHardChecks diagram_angle_problem"
    by (simp add: passesHardChecks_def diagram_angle_problem_def)
  from C9_blocklist_only_for_quantitative [OF this]
  have "validateProblem diagram_angle_problem = Fail (ForbiddenReference phrase_diagram_below)"
    by (simp add: diagram_angle_problem_def validate_isMathProblem_def keyword_defs phrase_defs)
  moreover have "passesHardChecks diagram_plain_problem"
    by (simp add: passesHardChecks_def diagram_plain_problem_def)
  from C9_blocklist_only_for_quantitative [OF this]
  have "validateProblem diagram_plain_problem = Ok diagram_plain_problem"
    by (simp add: withDefaultTime_def)
       (simp add: diagram_plain_problem_def validate_isMathProblem_def keyword_defs)
  ultimately show ?thesis by simp
qed

text \<open>
  Claim C8. For a problem that passes the hard checks, whose description mentions the
  isosceles triangle, 45 degrees and angle B, and contains no phrase of the blocklist:
  when the option at the index of the correct answer is \<open>60\<close> followed by "degrees"
  (U+5EA6), \<^verbatim>\<open>validateProblem\<close> rejects the problem with the error of the isosceles
  check (which names the option); when it is \<open>90\<close> followed by "degrees", the problem is
  accepted.
\<close>

theorem C8_isosceles_oracle:
  assumes "passesHardChecks p"
    and "Contains (Description p) isosceles_triangle"
    and "Contains (Description p) deg45"
    and "Contains (Description p) angle_B"
    and "\<forall>phrase\<in>set forbiddenPhrases. \<not> Contains (Description p) phrase"
  shows "(Options p ! nat (CorrectAnswer p) = ''60'' @ kw_degree \<longrightarrow>
            validateProblem p =
              Fail (GeometricInconsistency (IsoscelesAnswerMismatch (''60'' @ kw_degree))))
       \<and> (Options p ! nat (CorrectAnswer p) = ''90'' @ kw_degree \<longrightarrow>
            validateProblem p = Ok (withDefaultTime p))"
proof -
  have "angle_B = kw_angle @ ''B''"
    by (simp add: angle_B_def kw_angle_def)
  with assms(4) have "Contains (Description p) (kw_angle @ ''B'')"
    by (simp only:)
  then have angle: "Contains (Description p) kw_angle"
    by (rule Contains_append_sub)
  then have math: "validate_isMathProblem (Description p)"
    by (simp add: validate_isMathProblem_def)
  from assms(5) have none: "find (Contains (Description p)) forbiddenPhrases = None"
    by (simp add: find_None_iff)
  from assms(1) have range: "0 \<le> CorrectAnswer p \<and> CorrectAnswer p < int (length (Options p))"
    by (simp add: passesHardChecks_def)
  have v: "validateProblem p =
        (case validateIsoscelesTriangleProblem (withDefaultTime p) of
           Fail err \<Rightarrow> Fail (GeometricInconsistency err)
         | Panic \<Rightarrow> Panic
         | Ok u \<Rightarrow> Ok (withDefaultTime p))"
    using math none angle assms(2) by (simp add: validateProblem_hard [OF assms(1)])
  have n60: "\<not> Contains (''60'' @ kw_degree) ''90''" and y90: "Contains (''90'' @ kw_degree) ''90''"
    by (simp_all add: kw_degree_def)
  show ?thesis
    unfolding v using assms(3,4) range n60 y90
    by (simp add: validateIsoscelesTriangleProblem_def)
qed

theorem C8_isosceles_witness:
  "validateProblem (math3_isosceles\<lparr>CorrectAnswer := 1\<rparr>) =
     Fail (GeometricInconsistency (IsoscelesAnswerMismatch (''60'' @ kw_degree)))
   \<and> validateProblem math3_isosceles = Ok math3_isosceles"
proof -
  have d: "Description (math3_isosceles\<lparr>CorrectAnswer := 1\<rparr>) = Description math3_isosceles"
    by simp
  have h: "passesHardChecks math3_isosceles" "passesHardChecks (math3_isosceles\<lparr>CorrectAnswer := 1\<rparr>)"
    by (simp_all add: passesHardChecks_def math3_isosceles_def)
  have c: "Contains (Description math3_isosceles) isosceles_triangle"
    "Contains (Description math3_isosceles) deg45"
    "Contains (Description math3_isosceles) angle_B"
    by (simp_all add: math3_isosceles_def isosceles_triangle_def deg45_def angle_B_def)
  have f: "\<forall>phrase\<in>set forbiddenPhrases. \<not> Contains (Description math3_isosceles) phrase"
    by (simp add: math3_isosceles_def phrase_defs)
  have o: "Options math3_isosceles ! nat 1 = ''60'' @ kw_degree"
    "Options math3_isosceles ! nat (CorrectAnswer math3_isosceles) = ''90'' @ kw_degree"
    "withDefaultTime math3_isosceles = math3_isosceles"
    by (simp_all add: math3_isosceles_def kw_degree_def withDefaultTime_def)
  from C8_isosceles_oracle [of "math3_isosceles\<lparr>CorrectAnswer := 1\<rparr>", unfolded d, OF h(2) c f]
    C8_isosceles_oracle [OF h(1) c f] o
  show ?thesis by simp
qed

subsection \<open>The invariant of the returned problems\<close>

lemma bank_invariant:
  "problemInvariant math1_signed" "problemInvariant math1_expression"
  "problemInvariant math1_root" "problemInvariant math2_simultaneous"
  "problemInvariant math2_linear" "problemInvariant math3_quadratic"
  "problemInvariant math3_root" "problemInvariant math3_isosceles"
  "problemInvariant math_default" "problemInvariant english_book"
  "problemInvariant english_play" "problemInvariant english_big"
  "problemInvariant japanese_problem" "problemInvariant science_problem"
  "problemInvariant social_problem" "problemInvariant general_problem"
  by (simp_all add: problemInvariant_def math1_signed_def math1_expression_def math1_root_def
        math2_simultaneous_def math2_linear_def math3_quadratic_def math3_root_def
        math3_isosceles_def math_default_def english_book_def english_play_def english_big_def
        japanese_problem_def science_problem_def social_problem_def general_problem_def)

lemma nextProblem_invariant:
  assumes "\<forall>p\<in>set ps. problemInvariant p" and "ps \<noteq> []"
  shows "problemInvariant (fst (nextProblem k ps e))"
proof -
  from assms(2) have "counter e k mod length ps < length ps" by simp
  then have "ps ! (counter e k mod length ps) \<in> set ps" by (rule nth_mem)
  with assms(1) show ?thesis by (simp add: nextProblem_def Let_def)
qed

lemma generateOfflineProblem_invariant: "problemInvariant (fst (generateOfflineProblem sc e))"
  by (simp add: generateOfflineProblem_def getMathProblem_def getEnglishProblem_def
        mathProblems_def englishProblems_def nextProblem_invariant bank_invariant)

lemma validateProblem_invariant:
  assumes "validateProblem q = Ok p"
  shows "problemInvariant p"
proof -
  from assms have "passesHardChecks q" and "p = withDefaultTime q"
    by (simp_all add: validateProblem_Ok)
  then show ?thesis
    by (simp add: problemInvariant_def passesHardChecks_def withDefaultTime_def)
qed

lemma validateIsoscelesTriangleProblem_time:
  "validateIsoscelesTriangleProblem (withDefaultTime p) = validateIsoscelesTriangleProblem p"
  by (simp add: validateIsoscelesTriangleProblem_def)

lemma validateProblem_any_time:
  assumes "validateProblem q = Ok p"
  shows "validateProblem (q\<lparr>EstimatedTime := t\<rparr>) = Ok (withDefaultTime (q\<lparr>EstimatedTime := t\<rparr>))"
proof -
  from assms have h: "passesHardChecks q" and p: "validateProblem q = Ok (withDefaultTime q)"
    by (simp_all add: validateProblem_Ok)
  from h have h': "passesHardChecks (q\<lparr>EstimatedTime := t\<rparr>)"
    by (simp add: passesHardChecks_def)
  have i: "validateIsoscelesTriangleProblem (withDefaultTime (q\<lparr>EstimatedTime := t\<rparr>)) =
           validateIsoscelesTriangleProblem (withDefaultTime q)"
    unfolding validateIsoscelesTriangleProblem_time
    by (simp add: validateIsoscelesTriangleProblem_def)
  from p show ?thesis
    unfolding validateProblem_hard [OF h] validateProblem_hard [OF h'] i
    by (simp split: if_splits option.splits res.splits)
qed

lemma parseProblemResponse_Ok:
  "parseProblemResponse response = Ok p \<Longrightarrow> \<exists>q. validateProblem q = Ok p"
  unfolding parseProblemResponse_def Let_def
  by (auto split: if_splits res.splits)

lemma GeneratePersonalizedProblem_Fail:
  "buildPersonalizedPrompt sc = Ok prompt \<Longrightarrow> generate unmarshal (backend prompt) = Fail err \<Longrightarrow>
   GeneratePersonalizedProblem unmarshal backend now sc e =
     (Ok (fst (generateOfflineProblem sc (recordFailure now e))),
      snd (generateOfflineProblem sc (recordFailure now e)))"
  by (simp add: GeneratePersonalizedProblem_def shouldTryAI_def split: prod.split)

lemma GeneratePersonalizedProblem_Ok:
  "buildPersonalizedPrompt sc = Ok prompt \<Longrightarrow> generate unmarshal (backend prompt) = Ok response \<Longrightarrow>
   GeneratePersonalizedProblem unmarshal backend now sc e =
     (parseProblemResponse response, recordSuccess now e)"
  by (simp add: GeneratePersonalizedProblem_def shouldTryAI_def)

lemma GeneratePersonalizedProblem_cases:
  assumes "GeneratePersonalizedProblem unmarshal backend now sc e = (Ok p, e')"
  shows "(\<exists>e1. p = fst (generateOfflineProblem sc e1))
       \<or> (\<exists>response. parseProblemResponse response = Ok p)"
proof (cases "buildPersonalizedPrompt sc")
  case (Ok prompt)
  show ?thesis
  proof (cases "generate unmarshal (backend prompt)")
    case (Ok response)
    with \<open>buildPersonalizedPrompt sc = Ok prompt\<close> assms show ?thesis
      by (auto simp: GeneratePersonalizedProblem_Ok)
  next
    case (Fail err)
    with \<open>buildPersonalizedPrompt sc = Ok prompt\<close> assms show ?thesis
      by (auto simp: GeneratePersonalizedProblem_Fail)
  next
    case Panic
    with \<open>buildPersonalizedPrompt sc = Ok prompt\<close> assms show ?thesis
      by (simp add: GeneratePersonalizedProblem_def shouldTryAI_def)
  qed
next
  case (Fail err)
  with assms show ?thesis by (simp add: GeneratePersonalizedProblem_def shouldTryAI_def)
next
  case Panic
  with assms show ?thesis by (simp add: GeneratePersonalizedProblem_def shouldTryAI_def)
qed

text \<open>
  Claim C2. Every problem that \<^verbatim>\<open>GeneratePersonalizedProblem\<close> returns with a nil
  error, parsed from the backend's answer or taken from the offline bank, has a correct
  answer index that is a position of its options, two options or more, a difficulty
  between 1 and 5 and a positive time. A time that is not positive does not make
  \<^verbatim>\<open>validateProblem\<close> reject: where it accepts, the time of the accepted problem is
  300 when the time given was not positive and the time given otherwise; and a problem
  that it accepts is accepted with any other parsed time \<open>t\<close> as well, with the time
  300 when \<open>t\<close> is not positive.
\<close>

theorem C2_returned_problem_invariant:
  "(GeneratePersonalizedProblem unmarshal backend now sc e = (Ok p, e') \<longrightarrow>
      0 \<le> CorrectAnswer p \<and> CorrectAnswer p < int (length (Options p))
      \<and> 2 \<le> length (Options p) \<and> 1 \<le> Difficulty p \<and> Difficulty p \<le> 5
      \<and> 0 < EstimatedTime p)
   \<and> (validateProblem q = Ok p' \<longrightarrow>
        EstimatedTime p' = (if EstimatedTime q \<le> 0 then 300 else EstimatedTime q)
        \<and> (\<exists>p''. validateProblem (q\<lparr>EstimatedTime := t\<rparr>) = Ok p''
                 \<and> EstimatedTime p'' = (if t \<le> 0 then 300 else t)))"
proof -
  have a: "problemInvariant p"
    if "GeneratePersonalizedProblem unmarshal backend now sc e = (Ok p, e')"
  proof -
    from that have "(\<exists>e1. p = fst (generateOfflineProblem sc e1))
         \<or> (\<exists>response. parseProblemResponse response = Ok p)"
      by (rule GeneratePersonalizedProblem_cases)
    then show ?thesis
    proof
      assume "\<exists>e1. p = fst (generateOfflineProblem sc e1)"
      then show ?thesis by (auto simp: generateOfflineProblem_invariant)
    next
      assume "\<exists>response. parseProblemResponse response = Ok p"
      then obtain q where "validateProblem q = Ok p" by (auto dest: parseProblemResponse_Ok)
      then show ?thesis by (rule validateProblem_invariant)
    qed
  qed
  have b: "EstimatedTime p' = (if EstimatedTime q \<le> 0 then 300 else EstimatedTime q)"
    if "validateProblem q = Ok p'"
  proof -
    from that have "p' = withDefaultTime q" by (simp add: validateProblem_Ok)
    then show ?thesis by (simp add: withDefaultTime_def)
  qed
  have c: "\<exists>p''. validateProblem (q\<lparr>EstimatedTime := t\<rparr>) = Ok p''
                 \<and> EstimatedTime p'' = (if t \<le> 0 then 300 else t)"
    if "validateProblem q = Ok p'"
    using validateProblem_any_time [OF that, of t] by (simp add: withDefaultTime_def)
  from a b c show ?thesis by (simp add: problemInvariant_def)
qed

lemma parseKeyValueResponse_sum:
  "parseKeyValueResponse sum_problem_text =
   [(''TITLE'', ''Sum''), (''DESCRIPTION'', ''What is one plus one?''), (''OPTION1'', ''1''),
    (''OPTION2'', ''2''), (''CORRECT'', ''2''), (''DIFFICULTY'', ''1''), (''TIME'', ''-5'')]"
  by (simp add: parseKeyValueResponse_def sum_problem_text_def fence_def parseLine_def trim_eval)

lemma sum_problem_before_validation:
  "validateProblem
     \<lparr>Title = ''Sum'', Description = ''What is one plus one?'',
      Options = [''1'', ''2'', [], []], CorrectAnswer = 1, Explanation = [], Difficulty = 1,
      EstimatedTime = -5, Encouragement = [], ProblemType = []\<rparr> = Ok sum_problem"
  by (simp add: validateProblem_def validate_isMathProblem_def keyword_defs sum_problem_def)

lemma parseProblemResponse_sum: "parseProblemResponse sum_problem_text = Ok sum_problem"
  by (simp add: parseProblemResponse_def parseKeyValueResponse_sum getField_def parseInt_def
        Atoi_def digitVal_def wrap64_def sum_problem_before_validation)

lemma generate_answers_sum: "generate unmarshal_sum (answers_sum prompt) = Ok sum_problem_text"
proof -
  have "TrimSpace sum_problem_text = sum_problem_text"
    by (simp add: sum_problem_text_def trim_eval)
  moreover have "sum_problem_line \<noteq> []"
    by (simp add: sum_problem_line_def)
  ultimately show ?thesis by (simp add: generate_def answers_sum_def unmarshal_sum_def)
qed

theorem C2_returned_problem_witness:
  "GeneratePersonalizedProblem unmarshal_sum answers_sum 10 math_grade3 (NewEngine 0) =
     (Ok sum_problem, recordSuccess 10 (NewEngine 0))
   \<and> 0 \<le> CorrectAnswer sum_problem \<and> CorrectAnswer sum_problem < int (length (Options sum_problem))
   \<and> 2 \<le> length (Options sum_problem) \<and> 1 \<le> Difficulty sum_problem
   \<and> Difficulty sum_problem \<le> 5 \<and> 0 < EstimatedTime sum_problem
   \<and> EstimatedTime sum_problem = 300"
proof -
  have g: "GeneratePersonalizedProblem unmarshal_sum answers_sum 10 math_grade3 (NewEngine 0) =
     (Ok sum_problem, recordSuccess 10 (NewEngine 0))"
    by (simp add: GeneratePersonalizedProblem_Ok [OF buildPersonalizedPrompt_math_grade3 generate_answers_sum]
          parseProblemResponse_sum)
  from C2_returned_problem_invariant
    [where unmarshal = unmarshal_sum and backend = answers_sum and now = 10 and sc = math_grade3
       and e = "NewEngine 0" and p = sum_problem and e' = "recordSuccess 10 (NewEngine 0)"
       and q = "\<lparr>Title = ''Sum'', Description = ''What is one plus one?'',
          Options = [''1'', ''2'', [], []], CorrectAnswer = 1, Explanation = [], Difficulty = 1,
          EstimatedTime = -5, Encouragement = [], ProblemType = []\<rparr>"
       and p' = sum_problem and t = 0]
    g sum_problem_before_validation
  show ?thesis by simp
qed

subsection \<open>The rotation of the offline bank\<close>

lemma rotation_step:
  assumes "rotation sc = Some (key, ps)"
  shows "generateOfflineProblem sc e = nextProblem key ps e"
  using assms
  by (auto simp: rotation_def generateOfflineProblem_def getMathProblem_def getEnglishProblem_def
        mathProblems_def split: if_splits)

lemma bank_distinct:
  "distinct [math1_signed, math1_expression, math1_root]"
  "distinct [math2_simultaneous, math2_linear]"
  "distinct [math3_quadratic, math3_root, math3_isosceles]"
  "distinct [english_book, english_play, english_big]"
  by (simp_all add: math1_signed_def math1_expression_def math1_root_def
        math2_simultaneous_def math2_linear_def math3_quadratic_def math3_root_def
        math3_isosceles_def english_book_def english_play_def english_big_def)

lemma rotation_list:
  assumes "rotation sc = Some (key, ps)"
  shows "1 < length ps \<and> distinct ps"
  using assms bank_distinct
  by (auto simp: rotation_def mathProblems_def englishProblems_def split: if_splits)

lemma counter_nextProblem:
  "counter (snd (nextProblem key ps e)) key = counter e key mod length ps + 1"
  by (simp add: nextProblem_def counter_def Let_def)

lemma offlineSequence_length [simp]: "length (offlineSequence n sc e) = n"
  by (induction n arbitrary: e) (simp_all split: prod.split)

lemma offlineSequence_nth:
  assumes "rotation sc = Some (key, ps)"
  shows "i < n \<Longrightarrow> offlineSequence n sc e ! i = ps ! ((counter e key + i) mod length ps)"
proof (induction n arbitrary: e i)
  case 0
  then show ?case by simp
next
  case (Suc n)
  note step = rotation_step [OF assms]
  show ?case
  proof (cases i)
    case 0
    then show ?thesis by (simp add: step nextProblem_def Let_def split: prod.split)
  next
    case (Suc j)
    with Suc.prems have j: "j < n" by simp
    have "offlineSequence (Suc n) sc e ! i = offlineSequence n sc (snd (nextProblem key ps e)) ! j"
      using Suc by (simp add: step split: prod.split)
    also have "\<dots> = ps ! ((counter (snd (nextProblem key ps e)) key + j) mod length ps)"
      using j by (rule Suc.IH)
    also have "(counter (snd (nextProblem key ps e)) key + j) mod length ps =
               (counter e key + i) mod length ps"
    proof -
      have "(counter e key mod length ps + (1 + j)) mod length ps =
            (counter e key + (1 + j)) mod length ps"
        by (rule mod_add_left_eq)
      then show ?thesis
        unfolding counter_nextProblem Suc by (simp add: ac_simps)
    qed
    finally show ?thesis .
  qed
qed

declare offlineSequence.simps [simp del]

lemma offlineSequence_rotate:
  assumes "rotation sc = Some (key, ps)"
  shows "take (length ps) (offlineSequence (length ps + 1) sc e) = rotate (counter e key) ps"
proof (rule nth_equalityI)
  show "length (take (length ps) (offlineSequence (length ps + 1) sc e)) =
        length (rotate (counter e key) ps)"
    by simp
next
  fix i
  assume "i < length (take (length ps) (offlineSequence (length ps + 1) sc e))"
  then have i: "i < length ps" by simp
  then have "take (length ps) (offlineSequence (length ps + 1) sc e) ! i =
             ps ! ((counter e key + i) mod length ps)"
    by (simp add: offlineSequence_nth [OF assms])
  also from i have "\<dots> = rotate (counter e key) ps ! i"
    by (simp add: nth_rotate)
  finally show "take (length ps) (offlineSequence (length ps + 1) sc e) ! i =
                rotate (counter e key) ps ! i" .
qed

lemma counter_recordFailure [simp]: "counter (recordFailure now e) key = counter e key"
  by (simp add: counter_def recordFailure_def)

lemma counter_NewEngine [simp]: "counter (NewEngine now) key = 0"
  by (simp add: counter_def NewEngine_def setOnline_def)

lemma unreachable_offline:
  assumes "0 \<le> Grade sc" and "Grade sc < 4" and "\<forall>prompt. \<exists>m. backend prompt = DoFailed m"
  shows "GeneratePersonalizedProblem unmarshal backend now sc e =
         (Ok (fst (generateOfflineProblem sc (recordFailure now e))),
          snd (generateOfflineProblem sc (recordFailure now e)))"
proof -
  from assms(1,2) obtain prompt where p: "buildPersonalizedPrompt sc = Ok prompt"
    by (simp add: buildPersonalizedPrompt_def gradeText_def Let_def)
  from assms(3) obtain m where "backend prompt = DoFailed m" by blast
  then have "generate unmarshal (backend prompt) = Fail (HTTPRequestError m)"
    by (simp add: generate_def)
  with p show ?thesis by (rule GeneratePersonalizedProblem_Fail)
qed

text \<open>
  Claim C4. For a study context whose subject and grade have a rotating entry list
  \<open>ps\<close> under the counter key \<open>key\<close>: the list has more than one entry and its entries
  are distinct; \<open>N = length ps\<close> consecutive offline lookups return the \<open>N\<close> entries in
  list order, cyclically from the position of the counter (so they are \<open>N\<close> distinct
  entries), and from the first entry on when the counter is zero, as in a new engine;
  lookup \<open>N + 1\<close> returns the entry of the first lookup. With a backend that cannot be
  reached, two consecutive calls of \<^verbatim>\<open>GeneratePersonalizedProblem\<close> for mathematics in
  grade 3, the first on a new engine, return the first and then the second entry of
  the list.
\<close>

theorem C4_offline_round_robin:
  assumes "rotation sc = Some (key, ps)"
  shows "1 < length ps \<and> distinct ps
       \<and> take (length ps) (offlineSequence (length ps + 1) sc e) = rotate (counter e key) ps
       \<and> distinct (take (length ps) (offlineSequence (length ps + 1) sc e))
       \<and> (counter e key = 0 \<longrightarrow> take (length ps) (offlineSequence (length ps + 1) sc e) = ps)
       \<and> offlineSequence (length ps + 1) sc e ! length ps = offlineSequence (length ps + 1) sc e ! 0
       \<and> (Subject sc = subject_math \<and> Grade sc = 3
            \<and> (\<forall>prompt. \<exists>m. backend1 prompt = DoFailed m)
            \<and> (\<forall>prompt. \<exists>m. backend2 prompt = DoFailed m) \<longrightarrow>
          (\<exists>e1 e2.
             GeneratePersonalizedProblem unmarshal backend1 t1 sc (NewEngine t0) = (Ok (ps ! 0), e1)
             \<and> GeneratePersonalizedProblem unmarshal backend2 t2 sc e1 = (Ok (ps ! 1), e2)
             \<and> ps = [math3_quadratic, math3_root, math3_isosceles]))"
proof -
  note list = rotation_list [OF assms]
  note rot = offlineSequence_rotate [OF assms, of e]
  have d: "distinct (take (length ps) (offlineSequence (length ps + 1) sc e))"
    unfolding rot using list by simp
  have z: "take (length ps) (offlineSequence (length ps + 1) sc e) = ps" if "counter e key = 0"
    unfolding rot using that by simp
  have again: "offlineSequence (length ps + 1) sc e ! length ps =
               offlineSequence (length ps + 1) sc e ! 0"
    using list by (simp add: offlineSequence_nth [OF assms])
  have two: "\<exists>e1 e2.
             GeneratePersonalizedProblem unmarshal backend1 t1 sc (NewEngine t0) = (Ok (ps ! 0), e1)
             \<and> GeneratePersonalizedProblem unmarshal backend2 t2 sc e1 = (Ok (ps ! 1), e2)
             \<and> ps = [math3_quadratic, math3_root, math3_isosceles]"
    if m: "Subject sc = subject_math" and g: "Grade sc = 3"
      and b1: "\<forall>prompt. \<exists>m. backend1 prompt = DoFailed m"
      and b2: "\<forall>prompt. \<exists>m. backend2 prompt = DoFailed m"
  proof -
    from assms m g have ps: "ps = [math3_quadratic, math3_root, math3_isosceles]"
      by (simp add: rotation_def mathProblems_def)
    then have len: "length ps = 3" by simp
    note step = rotation_step [OF assms]
    define e1 where "e1 = snd (nextProblem key ps (recordFailure t1 (NewEngine t0)))"
    define e2 where "e2 = snd (nextProblem key ps (recordFailure t2 e1))"
    have c1: "counter e1 key = 1"
      unfolding e1_def counter_nextProblem by (simp add: len)
    have first: "GeneratePersonalizedProblem unmarshal backend1 t1 sc (NewEngine t0) = (Ok (ps ! 0), e1)"
      unfolding unreachable_offline [of sc backend1, OF _ _ b1, unfolded g, simplified] step e1_def
      by (simp add: nextProblem_def Let_def len)
    have second: "GeneratePersonalizedProblem unmarshal backend2 t2 sc e1 = (Ok (ps ! 1), e2)"
      unfolding unreachable_offline [of sc backend2, OF _ _ b2, unfolded g, simplified] step e2_def
      by (simp add: nextProblem_def Let_def len c1)
    from first second ps show ?thesis by blast
  qed
  from list rot d z again two show ?thesis by blast
qed

theorem C4_offline_round_robin_witness:
  "take 3 (offlineSequence 4 math_grade3 (NewEngine 0)) =
     [math3_quadratic, math3_root, math3_isosceles]
   \<and> offlineSequence 4 math_grade3 (NewEngine 0) ! 3 = offlineSequence 4 math_grade3 (NewEngine 0) ! 0
   \<and> fst (GeneratePersonalizedProblem unmarshal_examples unreachable 10 math_grade3 (NewEngine 0))
       = Ok math3_quadratic
   \<and> fst (GeneratePersonalizedProblem unmarshal_examples unreachable 20 math_grade3
        (snd (GeneratePersonalizedProblem unmarshal_examples unreachable 10 math_grade3
               (NewEngine 0))))
       = Ok math3_root"
proof -
  have r: "rotation math_grade3 =
           Some (mathKey 3, [math3_quadratic, math3_root, math3_isosceles])"
    by (simp add: rotation_def math_grade3_def mathProblems_def)
  have s: "Subject math_grade3 = subject_math" "Grade math_grade3 = 3"
    by (simp_all add: math_grade3_def)
  have u: "\<forall>prompt. \<exists>m. unreachable prompt = DoFailed m"
    by (simp add: unreachable_def)
  from C4_offline_round_robin [OF r, of "NewEngine 0" unreachable unreachable unmarshal_examples 10 0 20]
    s u
  show ?thesis by (auto simp: eval_nat_numeral)
qed

section \<open>The round trip of the response parser\<close>

subsection \<open>Trimming\<close>

lemma runesOk_space_runes: "runesOk space_runes" "runesOk (map rev space_runes)"
  by (simp_all add: runesOk_def space_runes_def)

lemma HasPrefix_length: "HasPrefix s w \<Longrightarrow> length w \<le> length s"
  by (induction s w rule: HasPrefix.induct) simp_all

lemma HasPrefix_iff: "HasPrefix s w \<longleftrightarrow> take (length w) s = w"
  by (induction s w rule: HasPrefix.induct) auto

lemma leadWidth_zero: "startsWithNone ws s \<Longrightarrow> leadWidth ws s = 0"
  by (simp add: startsWithNone_def leadWidth_def list_ex_iff find_None_iff [THEN iffD2])

lemma trimLeading_none: "startsWithNone ws s \<Longrightarrow> trimLeading ws s = s"
  by (simp add: trimLeading.simps leadWidth_zero)

lemma trimLeading_drop: "\<exists>n. trimLeading ws s = drop n s"
proof (induction ws s rule: trimLeading.induct)
  case (1 ws s)
  show ?case
  proof (cases "leadWidth ws s = 0 \<or> s = []")
    case True
    then have "trimLeading ws s = drop 0 s" by (simp add: trimLeading.simps)
    then show ?thesis by blast
  next
    case False
    with 1 obtain n where "trimLeading ws (drop (leadWidth ws s) s) = drop n (drop (leadWidth ws s) s)"
      by blast
    with False have "trimLeading ws s = drop (n + leadWidth ws s) s"
      by (simp add: trimLeading.simps [of ws s])
    then show ?thesis by blast
  qed
qed

lemma trimLeading_length: "length (trimLeading ws s) \<le> length s"
  using trimLeading_drop [of ws s] by auto

lemma trimLeading_fixed:
  assumes "runesOk ws" and "trimLeading ws s = s" and "s \<noteq> []"
  shows "startsWithNone ws s"
proof (rule ccontr)
  assume "\<not> startsWithNone ws s"
  then have "find (HasPrefix s) ws \<noteq> None"
    by (auto simp: startsWithNone_def list_ex_iff find_None_iff)
  then obtain w where w: "find (HasPrefix s) ws = Some w"
    by blast
  then have "w \<in> set ws" by (auto simp: find_Some_iff)
  with assms(1) have "w \<noteq> []" by (auto simp: runesOk_def list_all_iff)
  with w have pos: "0 < leadWidth ws s" by (simp add: leadWidth_def)
  with assms(3) have "trimLeading ws s = trimLeading ws (drop (leadWidth ws s) s)"
    by (simp add: trimLeading.simps [of ws s])
  then have "length (trimLeading ws s) \<le> length (drop (leadWidth ws s) s)"
    using trimLeading_length [of ws "drop (leadWidth ws s) s"] by simp
  with pos assms(3) have "length (trimLeading ws s) < length s" by (cases s) auto
  with assms(2) show False by simp
qed

lemma startsWithNone_blocked:
  assumes "runesOk ws" and "startsWithNone ws a" and "a \<noteq> []" and "(of_char c :: nat) < 128"
  shows "startsWithNone ws (a @ c # rest)"
  unfolding startsWithNone_def list_ex_iff
proof
  assume "\<exists>w\<in>set ws. HasPrefix (a @ c # rest) w"
  then obtain w where w: "w \<in> set ws" and p: "take (length w) (a @ c # rest) = w"
    by (auto simp: HasPrefix_iff)
  show False
  proof (cases "length w \<le> length a")
    case True
    with p have "take (length w) a = w" by simp
    with w assms(2) show False by (auto simp: startsWithNone_def list_ex_iff HasPrefix_iff)
  next
    case False
    then have "take (length w) (a @ c # rest) = a @ take (length w - length a) (c # rest)"
      by simp
    also from False have "take (length w - length a) (c # rest) = c # take (length w - length a - 1) rest"
      by (cases "length w - length a") simp_all
    finally have eq: "w = a @ c # take (length w - length a - 1) rest" using p by simp
    then have "c \<in> set w" by (metis in_set_conv_decomp)
    moreover from eq assms(3) have "length w \<noteq> 1" by (cases a) (auto dest: arg_cong [where f = length])
    moreover from w assms(1) have "length w = 1 \<or> (\<forall>c\<in>set w. (128::nat) \<le> of_char c)"
      by (simp add: runesOk_def list_all_iff)
    ultimately have "(128::nat) \<le> of_char c" by blast
    with assms(4) show False by simp
  qed
qed

lemma TrimLeft_length: "length (TrimLeft s) \<le> length s"
  by (simp add: TrimLeft_def trimLeading_length)

lemma TrimRight_length: "length (TrimRight s) \<le> length s"
  using trimLeading_length [of "map rev space_runes" "rev s"] by (simp add: TrimRight_def)

lemma TrimSpace_fixed:
  assumes "TrimSpace s = s"
  shows "TrimLeft s = s" and "TrimRight s = s"
proof -
  from assms have "length s = length (TrimRight (TrimLeft s))" by (simp add: TrimSpace_def)
  also have "\<dots> \<le> length (TrimLeft s)" by (rule TrimRight_length)
  finally have "length (TrimLeft s) = length s" using TrimLeft_length [of s] by simp
  moreover obtain n where "TrimLeft s = drop n s"
    using trimLeading_drop [of space_runes s] by (auto simp: TrimLeft_def)
  ultimately have "length s - n = length s" by simp
  then have "n = 0 \<or> s = []" by (cases s) auto
  with \<open>TrimLeft s = drop n s\<close> show l: "TrimLeft s = s" by auto
  with assms show "TrimRight s = s" by (simp add: TrimSpace_def)
qed

text \<open>A string is trimmed when it starts and ends with no white-space rune.\<close>

lemma trimmed_iff:
  assumes "s \<noteq> []"
  shows "TrimSpace s = s \<longleftrightarrow>
         startsWithNone space_runes s \<and> startsWithNone (map rev space_runes) (rev s)"
proof
  assume t: "TrimSpace s = s"
  from TrimSpace_fixed(1) [OF t] assms have "startsWithNone space_runes s"
    by (auto simp: TrimLeft_def intro: trimLeading_fixed runesOk_space_runes)
  moreover from TrimSpace_fixed(2) [OF t] have "trimLeading (map rev space_runes) (rev s) = rev s"
    by (simp add: TrimRight_def rev_swap)
  with assms have "startsWithNone (map rev space_runes) (rev s)"
    by (auto intro: trimLeading_fixed runesOk_space_runes)
  ultimately show "startsWithNone space_runes s \<and> startsWithNone (map rev space_runes) (rev s)"
    by simp
next
  assume "startsWithNone space_runes s \<and> startsWithNone (map rev space_runes) (rev s)"
  then show "TrimSpace s = s"
    by (simp add: TrimSpace_def TrimLeft_def TrimRight_def trimLeading_none)
qed

lemma trimmed_joined:
  assumes "a \<noteq> []" and "TrimSpace a = a" and "b \<noteq> []" and "TrimSpace b = b"
    and "(of_char c :: nat) < 128"
  shows "TrimSpace (a @ c # b) = a @ c # b"
proof -
  from assms(1,2) have a: "startsWithNone space_runes a" by (simp add: trimmed_iff)
  from assms(3,4) have b: "startsWithNone (map rev space_runes) (rev b)" by (simp add: trimmed_iff)
  from a assms(1,5) have "startsWithNone space_runes (a @ c # b)"
    by (intro startsWithNone_blocked runesOk_space_runes)
  moreover from b assms(3,5) have "startsWithNone (map rev space_runes) (rev b @ c # rev a)"
    by (intro startsWithNone_blocked runesOk_space_runes) simp_all
  ultimately show ?thesis by (simp add: trimmed_iff)
qed

lemma trimmed_joined_mid:
  assumes "a \<noteq> []" and "TrimSpace a = a" and "b \<noteq> []" and "TrimSpace b = b"
    and "(of_char c :: nat) < 128" and "(of_char d :: nat) < 128"
  shows "TrimSpace (a @ c # m @ d # b) = a @ c # m @ d # b"
proof -
  from assms(1,2) have a: "startsWithNone space_runes a" by (simp add: trimmed_iff)
  from assms(3,4) have b: "startsWithNone (map rev space_runes) (rev b)" by (simp add: trimmed_iff)
  from a assms(1,5) have "startsWithNone space_runes (a @ c # m @ d # b)"
    by (intro startsWithNone_blocked runesOk_space_runes)
  moreover from b assms(3,6) have "startsWithNone (map rev space_runes) (rev b @ d # rev (a @ c # m))"
    by (intro startsWithNone_blocked runesOk_space_runes) simp_all
  ultimately show ?thesis by (simp add: trimmed_iff)
qed

lemma TrimSpace_after_space:
  assumes "b \<noteq> []" and "TrimSpace b = b"
  shows "TrimSpace (CHR 0x20 # b) = b"
proof -
  have "leadWidth space_runes (CHR 0x20 # b) = 1"
    by (simp add: leadWidth_def space_runes_def)
  then have "TrimLeft (CHR 0x20 # b) = TrimLeft b"
    by (simp add: TrimLeft_def trimLeading.simps [of space_runes "CHR 0x20 # b"])
  with assms(2) show ?thesis by (simp add: TrimSpace_def TrimSpace_fixed(1) [OF assms(2)])
qed

subsection \<open>Lines\<close>

lemma SplitLines_not_Nil [simp]: "SplitLines s \<noteq> []"
  by (induction s) (auto split: list.split)

lemma SplitLines_Cons:
  "SplitLines (c # cs) =
     (if c = CHR 0x0A then [] # SplitLines cs
      else (c # hd (SplitLines cs)) # tl (SplitLines cs))"
  by (cases "SplitLines cs") simp_all

lemma SplitLines_no_line_feed: "l \<in> set (SplitLines s) \<Longrightarrow> CHR 0x0A \<notin> set l"
proof (induction s arbitrary: l)
  case Nil
  then show ?case by simp
next
  case (Cons c cs)
  then show ?case
    by (cases "SplitLines cs") (auto split: if_splits)
qed

lemma joinLines_Cons: "ls \<noteq> [] \<Longrightarrow> joinLines (l # ls) = l @ CHR 0x0A # joinLines ls"
  by (cases ls) simp_all

lemma joinLines_SplitLines: "joinLines (SplitLines s) = s"
proof (induction s)
  case Nil
  show ?case by simp
next
  case (Cons c cs)
  show ?case
  proof (cases "c = CHR 0x0A")
    case True
    with Cons show ?thesis by (simp add: joinLines_Cons)
  next
    case False
    obtain l ls where s: "SplitLines cs = l # ls" by (cases "SplitLines cs") simp_all
    with Cons have "joinLines (l # ls) = cs" by simp
    with False s show ?thesis by (cases ls) simp_all
  qed
qed

lemma SplitLines_line: "CHR 0x0A \<notin> set l \<Longrightarrow> SplitLines l = [l]"
  by (induction l) (auto simp: SplitLines_Cons)

lemma SplitLines_line_feed:
  "CHR 0x0A \<notin> set l \<Longrightarrow> SplitLines (l @ CHR 0x0A # s) = l # SplitLines s"
  by (induction l) (auto simp: SplitLines_Cons)

lemma SplitLines_joinLines:
  "ls \<noteq> [] \<Longrightarrow> \<forall>l\<in>set ls. CHR 0x0A \<notin> set l \<Longrightarrow> SplitLines (joinLines ls) = ls"
proof (induction ls rule: joinLines.induct)
  case 1
  then show ?case by simp
next
  case (2 l)
  then show ?case by (simp add: SplitLines_line)
next
  case (3 l m ls)
  then show ?case by (simp add: SplitLines_line_feed)
qed

lemma joinLines_append:
  "xs \<noteq> [] \<Longrightarrow> ys \<noteq> [] \<Longrightarrow> joinLines (xs @ ys) = joinLines xs @ CHR 0x0A # joinLines ys"
proof (induction xs rule: joinLines.induct)
  case 1
  then show ?case by simp
next
  case (2 l)
  then show ?case by (simp add: joinLines_Cons)
next
  case (3 l m ls)
  then show ?case by simp
qed

lemma joinLines_prefix: "joinLines ((p @ l) # ls) = p @ joinLines (l # ls)"
  by (cases ls) simp_all

lemma joinLines_concat:
  "\<forall>xs\<in>set xss. xs \<noteq> [] \<Longrightarrow> joinLines (map joinLines xss) = joinLines (concat xss)"
proof (induction xss)
  case Nil
  show ?case by simp
next
  case (Cons xs xss)
  show ?case
  proof (cases "xss = []")
    case True
    then show ?thesis by simp
  next
    case False
    with Cons.prems have "concat xss \<noteq> []" by (cases xss) auto
    with Cons False show ?thesis by (simp add: joinLines_Cons joinLines_append)
  qed
qed

lemma joinLines_head:
  "joinLines (l # ls) = l \<or> (\<exists>r. joinLines (l # ls) = l @ CHR 0x0A # r)"
  by (cases ls) simp_all

lemma joinLines_last:
  "ls \<noteq> [] \<Longrightarrow> joinLines ls = last ls \<or> (\<exists>r. joinLines ls = r @ CHR 0x0A # last ls)"
proof (induction ls rule: joinLines.induct)
  case 1
  then show ?case by simp
next
  case (2 l)
  show ?case by simp
next
  case (3 l m ls)
  then have "joinLines (m # ls) = last (m # ls) \<or> (\<exists>r. joinLines (m # ls) = r @ CHR 0x0A # last (m # ls))"
    by simp
  then show ?case
  proof
    assume "joinLines (m # ls) = last (m # ls)"
    then have "joinLines (l # m # ls) = l @ CHR 0x0A # last (l # m # ls)" by simp
    then show ?thesis by blast
  next
    assume "\<exists>r. joinLines (m # ls) = r @ CHR 0x0A # last (m # ls)"
    then obtain r where "joinLines (m # ls) = r @ CHR 0x0A # last (m # ls)" by blast
    then have "joinLines (l # m # ls) = (l @ CHR 0x0A # r) @ CHR 0x0A # last (l # m # ls)" by simp
    then show ?thesis by blast
  qed
qed

lemma trimmed_joinLines:
  assumes "ls \<noteq> []" and "\<forall>l\<in>set ls. l \<noteq> [] \<and> TrimSpace l = l"
  shows "TrimSpace (joinLines ls) = joinLines ls \<and> joinLines ls \<noteq> []"
proof -
  obtain l ms where ls: "ls = l # ms" using assms(1) by (cases ls) simp_all
  with assms(2) have l: "l \<noteq> []" "TrimSpace l = l" by simp_all
  from assms have z: "last ls \<noteq> []" "TrimSpace (last ls) = last ls" by simp_all
  from l have sl: "startsWithNone space_runes l" by (simp add: trimmed_iff)
  from z have sz: "startsWithNone (map rev space_runes) (rev (last ls))" by (simp add: trimmed_iff)
  have ne: "joinLines ls \<noteq> []"
    using joinLines_head [of l ms] l ls by auto
  have lf: "(of_char (CHR 0x0A) :: nat) < 128" by simp
  have "startsWithNone space_runes (joinLines ls)"
    using joinLines_head [of l ms] sl ls
      startsWithNone_blocked [OF runesOk_space_runes(1) sl l(1) lf]
    by auto
  moreover have "startsWithNone (map rev space_runes) (rev (joinLines ls))"
    using joinLines_last [OF assms(1)] sz
      startsWithNone_blocked [OF runesOk_space_runes(2) sz _ lf] z(1)
    by auto
  ultimately show ?thesis using ne by (simp add: trimmed_iff)
qed

subsection \<open>The parser on a rendered record\<close>

lemma HasPrefix_single: "HasPrefix (a # s) [c] \<longleftrightarrow> a = c"
  by simp

lemma Index_first: "c \<notin> set k \<Longrightarrow> Index (k @ c # r) [c] = int (length k)"
  by (induction k) (auto simp: Let_def)

lemma Index_none: "c \<notin> set s \<Longrightarrow> Index s [c] = -1"
  by (induction s) (auto simp: Let_def)

lemma RemoveAll_absent: "\<not> Contains s old \<Longrightarrow> RemoveAll s old = s"
  by (induction s) simp_all

lemma TrimSpace_Nil [simp]: "TrimSpace [] = []"
  by (simp add: TrimSpace_def TrimLeft_def TrimRight_def trimLeading.simps)

lemma parseLine_key:
  assumes "layoutKey k" and "l \<noteq> []" and "TrimSpace l = l"
  shows "parseLine (ck, cv, acc) (k @ CHR '':'' # CHR 0x20 # l) =
         (k, l, if ck \<noteq> [] then put ck (TrimSpace cv) acc else acc)"
proof -
  from assms(1) have k: "k \<noteq> []" "TrimSpace k = k" "CHR '':'' \<notin> set k"
    by (simp_all add: layoutKey_def)
  have t: "TrimSpace (k @ CHR '':'' # CHR 0x20 # l) = k @ CHR '':'' # CHR 0x20 # l"
    using trimmed_joined_mid [OF k(1,2) assms(2,3), of "CHR '':''" "CHR 0x20" "[]"] by simp
  have i: "Index (k @ CHR '':'' # CHR 0x20 # l) [CHR '':''] = int (length k)"
    using k(3) by (rule Index_first)
  have v: "TrimSpace (CHR 0x20 # l) = l"
    using assms(2,3) by (rule TrimSpace_after_space)
  show ?thesis
    unfolding parseLine_def using k(1,2) v by (simp add: t i Let_def)
qed

lemma parseLine_continuation:
  assumes "k \<noteq> []" and "cv \<noteq> []" and "l \<noteq> []" and "TrimSpace l = l" and "CHR '':'' \<notin> set l"
  shows "parseLine (k, cv, acc) l = (k, cv @ CHR 0x0A # l, acc)"
  unfolding parseLine_def using assms by (simp add: Index_none Let_def)

lemma parse_continuations:
  assumes "k \<noteq> []"
  shows "cv \<noteq> [] \<Longrightarrow> \<forall>l\<in>set ls. l \<noteq> [] \<and> TrimSpace l = l \<and> CHR '':'' \<notin> set l \<Longrightarrow>
         foldl parseLine (k, cv, acc) ls = (k, joinLines (cv # ls), acc)"
proof (induction ls arbitrary: cv)
  case Nil
  show ?case by simp
next
  case (Cons l ls)
  from Cons.prems have l: "l \<noteq> []" "TrimSpace l = l" "CHR '':'' \<notin> set l" by simp_all
  have "foldl parseLine (k, cv, acc) (l # ls) = foldl parseLine (k, cv @ CHR 0x0A # l, acc) ls"
    by (simp add: parseLine_continuation [OF assms Cons.prems(1) l])
  also have "\<dots> = (k, joinLines ((cv @ CHR 0x0A # l) # ls), acc)"
    using Cons.prems by (intro Cons.IH) simp_all
  also have "joinLines ((cv @ CHR 0x0A # l) # ls) = joinLines (cv # l # ls)"
    using joinLines_prefix [of "cv @ [CHR 0x0A]" l ls] by simp
  finally show ?case .
qed

lemma parse_field:
  assumes "layoutKey (fst f)" and "layoutValue (snd f)"
  shows "foldl parseLine (ck, cv, acc) (fieldLines f) =
         (fst f, snd f, if ck \<noteq> [] then put ck (TrimSpace cv) acc else acc)"
proof -
  obtain l ls where s: "SplitLines (snd f) = l # ls" by (cases "SplitLines (snd f)") simp_all
  with assms(2) have l: "l \<noteq> []" "TrimSpace l = l"
    and ls: "\<forall>m\<in>set ls. m \<noteq> [] \<and> TrimSpace m = m \<and> CHR '':'' \<notin> set m"
    by (auto simp: layoutValue_def list_all_iff)
  from assms(1) have k: "fst f \<noteq> []" by (simp add: layoutKey_def)
  have "foldl parseLine (ck, cv, acc) (fieldLines f) =
        foldl parseLine (fst f, l, if ck \<noteq> [] then put ck (TrimSpace cv) acc else acc) ls"
    by (simp add: fieldLines_def s parseLine_key [OF assms(1) l])
  also have "\<dots> = (fst f, joinLines (l # ls), if ck \<noteq> [] then put ck (TrimSpace cv) acc else acc)"
    using k l(1) ls by (rule parse_continuations)
  also have "joinLines (l # ls) = snd f"
    using joinLines_SplitLines [of "snd f"] s by simp
  finally show ?thesis .
qed

lemma TrimSpace_layoutValue: "layoutValue v \<Longrightarrow> TrimSpace v = v"
  using trimmed_joinLines [of "SplitLines v"] joinLines_SplitLines [of v]
  by (simp add: layoutValue_def list_all_iff)

lemma parse_fields:
  assumes "list_all (\<lambda>f. layoutKey (fst f) \<and> layoutValue (snd f)) fs"
  shows "(case foldl parseLine (ck, cv, acc) (concat (map fieldLines fs)) of
            (ck', cv', acc') \<Rightarrow> if ck' \<noteq> [] then put ck' (TrimSpace cv') acc' else acc') =
         foldl (\<lambda>a f. put (fst f) (snd f) a)
           (if ck \<noteq> [] then put ck (TrimSpace cv) acc else acc) fs"
  using assms
proof (induction fs arbitrary: ck cv acc)
  case Nil
  show ?case by simp
next
  case (Cons f fs)
  from Cons.prems have f: "layoutKey (fst f)" "layoutValue (snd f)"
    and fs: "list_all (\<lambda>f. layoutKey (fst f) \<and> layoutValue (snd f)) fs"
    by simp_all
  from f(1) have k: "fst f \<noteq> []" by (simp add: layoutKey_def)
  show ?case
    using Cons.IH [OF fs, of "fst f" "snd f" "if ck \<noteq> [] then put ck (TrimSpace cv) acc else acc"]
    by (simp add: parse_field [OF f] k TrimSpace_layoutValue [OF f(2)])
qed

lemma put_fresh: "k \<notin> fst ` set acc \<Longrightarrow> put k v acc = acc @ [(k, v)]"
  by (induction acc) auto

lemma put_all_fresh:
  "distinct (map fst (acc @ fs)) \<Longrightarrow> foldl (\<lambda>a f. put (fst f) (snd f) a) acc fs = acc @ fs"
proof (induction fs arbitrary: acc)
  case Nil
  show ?case by simp
next
  case (Cons f fs)
  from Cons.prems have "fst f \<notin> fst ` set acc" by auto
  then have "put (fst f) (snd f) acc = acc @ [f]" by (simp add: put_fresh)
  moreover from Cons.prems have "distinct (map fst ((acc @ [f]) @ fs))" by simp
  ultimately show ?case using Cons.IH [of "acc @ [f]"] by simp
qed

lemma renderField_lines:
  "renderField f = joinLines (fieldLines f)"
proof -
  obtain l ls where s: "SplitLines (snd f) = l # ls" by (cases "SplitLines (snd f)") simp_all
  have "joinLines (fieldLines f) = (fst f @ '': '') @ joinLines (l # ls)"
    unfolding fieldLines_def s using joinLines_prefix [of "fst f @ '': ''" l ls] by simp
  also have "joinLines (l # ls) = snd f"
    using joinLines_SplitLines [of "snd f"] s by simp
  finally show ?thesis by (simp add: renderField_def)
qed

lemma renderRecord_lines: "renderRecord fs = joinLines (concat (map fieldLines fs))"
proof -
  have "renderField = joinLines \<circ> fieldLines"
    by (rule ext) (simp add: renderField_lines)
  then have "renderRecord fs = joinLines (map joinLines (map fieldLines fs))"
    by (simp add: renderRecord_def)
  also have "\<dots> = joinLines (concat (map fieldLines fs))"
    by (rule joinLines_concat) (auto simp: fieldLines_def)
  finally show ?thesis .
qed

lemma fieldLines_layout:
  assumes "layoutKey (fst f)" and "layoutValue (snd f)" and "m \<in> set (fieldLines f)"
  shows "m \<noteq> [] \<and> TrimSpace m = m \<and> CHR 0x0A \<notin> set m"
proof -
  obtain l ls where s: "SplitLines (snd f) = l # ls" by (cases "SplitLines (snd f)") simp_all
  with assms(2) have l: "l \<noteq> []" "TrimSpace l = l"
    and ls: "\<forall>m\<in>set ls. m \<noteq> [] \<and> TrimSpace m = m"
    by (auto simp: layoutValue_def list_all_iff)
  from assms(1) have k: "fst f \<noteq> []" "TrimSpace (fst f) = fst f" "CHR 0x0A \<notin> set (fst f)"
    by (simp_all add: layoutKey_def)
  have nl: "\<forall>m\<in>set (l # ls). CHR 0x0A \<notin> set m"
    using SplitLines_no_line_feed [of _ "snd f"] s by simp
  have t: "TrimSpace (fst f @ CHR '':'' # CHR 0x20 # l) = fst f @ CHR '':'' # CHR 0x20 # l"
    using trimmed_joined_mid [OF k(1,2) l, of "CHR '':''" "CHR 0x20" "[]"] by simp
  from assms(3) have "m = fst f @ CHR '':'' # CHR 0x20 # l \<or> m \<in> set ls"
    by (simp add: fieldLines_def s)
  then show ?thesis
    using t k ls nl by auto
qed

text \<open>
  Claim C7, as amended. For every record whose keys are distinct, not empty, without
  white space around them and without a colon or a line feed, whose values consist of
  lines that are not empty and have no white space around them, with no colon on the
  second and later lines of a value, and whose text in the \<^verbatim>\<open>KEY: value\<close> layout holds
  no code-fence marker: \<^verbatim>\<open>parseKeyValueResponse\<close> of the rendered text is the record
  itself, field by field and in order, line feeds inside the values included.
\<close>

theorem C7_parse_rendered_record:
  assumes "layoutRecord fs"
  shows "parseKeyValueResponse (renderRecord fs) = fs
       \<and> map_of (parseKeyValueResponse (renderRecord fs)) = map_of fs"
proof -
  from assms have d: "distinct (map fst fs)"
    and wf: "list_all (\<lambda>f. layoutKey (fst f) \<and> layoutValue (snd f)) fs"
    and nf: "\<not> Contains (renderRecord fs) fence"
    by (simp_all add: layoutRecord_def)
  have "parseKeyValueResponse (renderRecord fs) = fs"
  proof (cases "fs = []")
    case True
    then show ?thesis
      by (simp add: parseKeyValueResponse_def renderRecord_def fence_def parseLine_def)
  next
    case False
    let ?lines = "concat (map fieldLines fs)"
    from False have ne: "?lines \<noteq> []"
      by (cases fs) (simp_all add: fieldLines_def)
    have lines: "\<forall>m\<in>set ?lines. m \<noteq> [] \<and> TrimSpace m = m \<and> CHR 0x0A \<notin> set m"
      using wf fieldLines_layout by (fastforce simp: list_all_iff)
    have r: "renderRecord fs = joinLines ?lines"
      by (rule renderRecord_lines)
    from nf have "RemoveAll (renderRecord fs) fence = renderRecord fs"
      by (rule RemoveAll_absent)
    moreover from ne lines have "TrimSpace (joinLines ?lines) = joinLines ?lines"
      by (simp add: trimmed_joinLines)
    moreover from ne lines have "SplitLines (joinLines ?lines) = ?lines"
      by (simp add: SplitLines_joinLines)
    ultimately have "parseKeyValueResponse (renderRecord fs) =
        (case foldl parseLine ([], [], []) ?lines of
           (ck, cv, acc) \<Rightarrow> if ck \<noteq> [] then put ck (TrimSpace cv) acc else acc)"
      by (simp add: parseKeyValueResponse_def r)
    also have "\<dots> = foldl (\<lambda>a f. put (fst f) (snd f) a) [] fs"
      using parse_fields [OF wf, of "[]" "[]" "[]"] by simp
    also from d have "\<dots> = fs"
      using put_all_fresh [of "[]" fs] by simp
    finally show ?thesis .
  qed
  then show ?thesis by simp
qed

lemma example_record_text: "renderRecord example_record = example_text"
  by (simp add: renderRecord_def renderField_def example_record_def example_text_def)

lemma example_record_layout: "layoutRecord example_record"
  unfolding layoutRecord_def example_record_text
  by (simp add: example_record_def example_text_def layoutKey_def layoutValue_def fence_def
        trim_eval)

theorem C7_parse_rendered_record_witness:
  "parseKeyValueResponse example_text = example_record
   \<and> map_of (parseKeyValueResponse example_text) ''EXPLANATION'' =
       Some (''Step 1: add the two angles'' @ [CHR 0x0A] @ ''then subtract from 180'' @
             [CHR 0x0A] @ ''the rest is angle B'')"
  using C7_parse_rendered_record [OF example_record_layout]
  by (simp add: example_record_text) (simp add: example_record_def)

text \<open>
  The claim as stated fails for a value with a colon on a continuation line: the
  parser takes the line for a new field. The record with the one field
  \<^verbatim>\<open>EXPLANATION\<close> of the two lines \<^verbatim>\<open>first\<close> and \<^verbatim>\<open>x: 2\<close> comes back as two fields.
\<close>

theorem C7_round_trip_counterexample:
  "parseKeyValueResponse (renderRecord [(''EXPLANATION'', ''first'' @ [CHR 0x0A] @ ''x: 2'')]) =
     [(''EXPLANATION'', ''first''), (''x'', ''2'')]
   \<and> parseKeyValueResponse (renderRecord [(''EXPLANATION'', ''first'' @ [CHR 0x0A] @ ''x: 2'')]) \<noteq>
     [(''EXPLANATION'', ''first'' @ [CHR 0x0A] @ ''x: 2'')]
   \<and> map_of (parseKeyValueResponse
        (renderRecord [(''EXPLANATION'', ''first'' @ [CHR 0x0A] @ ''x: 2'')])) ''EXPLANATION'' \<noteq>
      map_of [(''EXPLANATION'', ''first'' @ [CHR 0x0A] @ ''x: 2'')] ''EXPLANATION''"
  by (simp add: renderRecord_def renderField_def parseKeyValueResponse_def fence_def
        parseLine_def trim_eval)


end
